theory Spec2Isabelle
  imports Main "HOL-Library.Char_ord" "HOL-Library.List_Lexorder"
begin

text \<open>
  The REST handlers of the CRM server (\<^verbatim>\<open>src/server/routes\<close>: leads, customers, tasks,
  users) over the Mongoose schemas of \<^verbatim>\<open>src/server/models\<close>. A handler is a function
  of the caller that the authentication middleware resolved, the request (path id, query
  or body), the current time and a fresh ObjectId where it needs them, and the store; it
  gives the response, an error or a payload, and for the routes that write also the
  store it leaves. The store is one list of documents per collection, in insertion
  order, together with the journal of the writes performed on it, and is assumed
  reachable: a failure of the database itself is not modelled. A string is a list of
  characters of the Latin-1 range, the code units below 256 of a JavaScript string.
\<close>

section \<open>Values shared by all routes\<close>

text \<open>
  An ObjectId is kept as the string that \<^verbatim>\<open>toString()\<close> and \<^verbatim>\<open>req.user.id\<close> give
  (24 hexadecimal digits, letters in lower case); a Date is its number of milliseconds.
\<close>

type_synonym oid = string
type_synonym date = int

definition isHex :: "char \<Rightarrow> bool" where
  "isHex c \<longleftrightarrow> c \<in> set ''0123456789abcdefABCDEF''"

text \<open>
  The validator \<^verbatim>\<open>isMongoId()\<close> of validator.js: \<^verbatim>\<open>isHexadecimal(str) && str.length === 24\<close>,
  where \<^verbatim>\<open>isHexadecimal\<close> tests \<^verbatim>\<open>/^(0x|0h)?[0-9A-F]+$/i\<close>. A string of 22 digits behind
  \<^verbatim>\<open>0x\<close> passes it.
\<close>

definition isHexadecimal :: "string \<Rightarrow> bool" where
  "isHexadecimal s \<longleftrightarrow>
     (let d = (if take 2 s \<in> set [''0x'', ''0X'', ''0h'', ''0H''] then drop 2 s else s)
      in d \<noteq> [] \<and> list_all isHex d)"

definition isMongoId :: "string \<Rightarrow> bool" where
  "isMongoId s \<longleftrightarrow> isHexadecimal s \<and> length s = 24"

text \<open>
  White space as the regular expressions of validator.js and \<^verbatim>\<open>String.prototype.trim\<close>
  read it: the blank, tab, line feed, vertical tab, form feed, carriage return and the
  no-break space.
\<close>

definition is_ws :: "char \<Rightarrow> bool" where
  "is_ws c \<longleftrightarrow>
     c \<in> set [CHR '' '', CHR 0x09, CHR 0x0A, CHR 0x0B, CHR 0x0C, CHR 0x0D, CHR 0xA0]"

text \<open>The sanitizer \<^verbatim>\<open>trim()\<close> and the schema option \<^verbatim>\<open>trim: true\<close>.\<close>

definition trim :: "string \<Rightarrow> string" where
  "trim s = rev (dropWhile is_ws (rev (dropWhile is_ws s)))"

text \<open>
  \<^verbatim>\<open>toLowerCase()\<close>, which the schema option \<^verbatim>\<open>lowercase: true\<close> applies: the upper-case
  letters are A to Z and, above the ASCII range, the codes 0xC0 to 0xDE without the
  multiplication sign 0xD7; the lower-case letter is 32 codes further.
\<close>

definition is_upper :: "char \<Rightarrow> bool" where
  "is_upper c \<longleftrightarrow>
     (CHR ''A'' \<le> c \<and> c \<le> CHR ''Z'') \<or> (CHR 0xC0 \<le> c \<and> c \<le> CHR 0xDE \<and> c \<noteq> CHR 0xD7)"

definition lower_char :: "char \<Rightarrow> char" where
  "lower_char c = (if is_upper c then char_of (of_char c + (32::nat)) else c)"

definition lowercase :: "string \<Rightarrow> string" where
  "lowercase s = map lower_char s"

text \<open>\<^verbatim>\<open>isLength({ min, max })\<close> on a string.\<close>

definition isLength :: "nat \<Rightarrow> nat \<Rightarrow> string \<Rightarrow> bool" where
  "isLength lo hi s \<longleftrightarrow> lo \<le> length s \<and> length s \<le> hi"

text \<open>\<^verbatim>\<open>substring(0, n)\<close>.\<close>

definition substring0 :: "nat \<Rightarrow> string \<Rightarrow> string" where
  "substring0 n s = take n s"

text \<open>
  A body field that the handlers read without fixing its JSON type: a boolean, a string
  or an integer number.
\<close>

datatype jscalar = JBool bool | JStr string | JNum int

text \<open>
  \<^verbatim>\<open>isBoolean()\<close> of validator.js on a string, and on a body field, which
  express-validator turns into a string first (\<^verbatim>\<open>true\<close> into \<^verbatim>\<open>'true'\<close>, \<^verbatim>\<open>1\<close> into
  \<^verbatim>\<open>'1'\<close>).
\<close>

definition isBoolean_str :: "string \<Rightarrow> bool" where
  "isBoolean_str v \<longleftrightarrow> v \<in> set [''true'', ''false'', ''1'', ''0'']"

definition isBoolean_js :: "jscalar \<Rightarrow> bool" where
  "isBoolean_js v =
     (case v of JBool _ \<Rightarrow> True | JStr s \<Rightarrow> isBoolean_str s | JNum n \<Rightarrow> n = 0 \<or> n = 1)"

text \<open>
  The cast of a Boolean path of a Mongoose schema: \<^verbatim>\<open>true\<close>, \<^verbatim>\<open>'true'\<close>, \<^verbatim>\<open>1\<close>, \<^verbatim>\<open>'1'\<close>
  and \<^verbatim>\<open>'yes'\<close> are true, \<^verbatim>\<open>false\<close>, \<^verbatim>\<open>'false'\<close>, \<^verbatim>\<open>0\<close>, \<^verbatim>\<open>'0'\<close> and \<^verbatim>\<open>'no'\<close> are
  false, any other value is a CastError (\<open>None\<close>).
\<close>

definition cast_boolean :: "jscalar \<Rightarrow> bool option" where
  "cast_boolean v =
     (case v of
        JBool b \<Rightarrow> Some b
      | JStr s \<Rightarrow>
          if s \<in> set [''true'', ''1'', ''yes''] then Some True
          else if s \<in> set [''false'', ''0'', ''no''] then Some False
          else None
      | JNum n \<Rightarrow> if n = 1 then Some True else if n = 0 then Some False else None)"

datatype role = Admin | Agent

text \<open>
  \<^verbatim>\<open>req.user\<close> as the authentication middleware attaches it: the routes read its
  \<^verbatim>\<open>id\<close> and its \<^verbatim>\<open>role\<close>.
\<close>

record caller =
  caller_id :: oid
  caller_role :: role

text \<open>
  What a handler answers when it does not answer with success: the status it sets, or
  the error it hands to \<^verbatim>\<open>next\<close>. \<open>ValidationErrors\<close> is the 400 response that carries
  \<^verbatim>\<open>errors.array()\<close>, here the names of the fields whose chain failed.
\<close>

datatype error =
    ValidationErrors "string list"
  | Http400 string
  | Http403 string
  | Http404 string
  | NextError string

fun http_status :: "error \<Rightarrow> nat option" where
  "http_status (ValidationErrors _) = Some 400"
| "http_status (Http400 _) = Some 400"
| "http_status (Http403 _) = Some 403"
| "http_status (Http404 _) = Some 404"
| "http_status (NextError _) = None"

section \<open>The schema's regular expression for emails\<close>

text \<open>
  \<^verbatim>\<open>/^\w+([.-]?\w+)*@\w+([.-]?\w+)*(\.\w{2,3})+$/\<close>, matched by derivatives.
\<close>

datatype rexp =
    Nothing
  | Empty
  | Atom "char list"
  | Alt rexp rexp
  | Seq rexp rexp
  | Star rexp

fun nullable :: "rexp \<Rightarrow> bool" where
  "nullable Nothing = False"
| "nullable Empty = True"
| "nullable (Atom _) = False"
| "nullable (Alt r s) = (nullable r \<or> nullable s)"
| "nullable (Seq r s) = (nullable r \<and> nullable s)"
| "nullable (Star _) = True"

fun alt :: "rexp \<Rightarrow> rexp \<Rightarrow> rexp" where
  "alt Nothing s = s"
| "alt r Nothing = r"
| "alt r s = Alt r s"

fun seq :: "rexp \<Rightarrow> rexp \<Rightarrow> rexp" where
  "seq Nothing _ = Nothing"
| "seq _ Nothing = Nothing"
| "seq Empty s = s"
| "seq r s = Seq r s"

fun deriv :: "char \<Rightarrow> rexp \<Rightarrow> rexp" where
  "deriv _ Nothing = Nothing"
| "deriv _ Empty = Nothing"
| "deriv c (Atom cs) = (if c \<in> set cs then Empty else Nothing)"
| "deriv c (Alt r s) = alt (deriv c r) (deriv c s)"
| "deriv c (Seq r s) =
     (if nullable r then alt (seq (deriv c r) s) (deriv c s) else seq (deriv c r) s)"
| "deriv c (Star r) = seq (deriv c r) (Star r)"

definition rmatch :: "rexp \<Rightarrow> string \<Rightarrow> bool" where
  "rmatch r s = nullable (fold deriv s r)"

definition word_chars :: "char list" where
  "word_chars =
     ''abcdefghijklmnopqrstuvwxyzABCDEFGHIJKLMNOPQRSTUVWXYZ0123456789_''"

definition rplus :: "rexp \<Rightarrow> rexp" where
  "rplus r = Seq r (Star r)"

definition ropt :: "rexp \<Rightarrow> rexp" where
  "ropt r = Alt Empty r"

definition email_rexp :: rexp where
  "email_rexp =
     (let w = Atom word_chars;
          part = Seq (rplus w) (Star (Seq (ropt (Atom ''.-'')) (rplus w)))
      in Seq part
           (Seq (Atom ''@'')
             (Seq part
               (rplus (Seq (Atom ''.'') (Seq w (Seq w (ropt w))))))))"

definition email_match :: "string \<Rightarrow> bool" where
  "email_match s = rmatch email_rexp s"

section \<open>Library functions the routes call\<close>

text \<open>
  A JavaScript number as the list routes meet it: \<^verbatim>\<open>parseInt\<close> of a string of digits
  is a double with an integer value, or an infinity when the digits are too many.
\<close>

datatype jsnum = Fin int | PosInf | NegInf

text \<open>
  The routes call functions of validator.js, of the JavaScript runtime and of the
  database driver whose definitions are not part of the repository. They are parameters
  of the model: \<^verbatim>\<open>isEmail()\<close>, \<^verbatim>\<open>normalizeEmail()\<close>, \<^verbatim>\<open>isISO8601()\<close> with
  \<^verbatim>\<open>new Date(string)\<close>; \<^verbatim>\<open>new RegExp(pattern, 'i')\<close>, which throws on a malformed
  pattern, here \<open>None\<close>, and otherwise gives the test a query applies to a string field;
  \<^verbatim>\<open>parseInt\<close> on a string that \<^verbatim>\<open>isInt()\<close> accepted, the subtraction and the product of
  two doubles and \<^verbatim>\<open>Math.ceil(total / limit)\<close>, which round; the window of
  \<^verbatim>\<open>.skip(skip).limit(limit)\<close>, the number of documents the store skips and the number it
  returns at most, \<open>None\<close> when the driver or the store rejects the numbers; and the hash
  under which a password is stored.
\<close>

record platform =
  isEmail :: "string \<Rightarrow> bool"
  normalizeEmail :: "string \<Rightarrow> string"
  isISO8601 :: "string \<Rightarrow> bool"
  newDate :: "string \<Rightarrow> date"
  RegExp_i :: "string \<Rightarrow> (string \<Rightarrow> bool) option"
  parseInt :: "string \<Rightarrow> jsnum"
  js_minus :: "jsnum \<Rightarrow> jsnum \<Rightarrow> jsnum"
  js_times :: "jsnum \<Rightarrow> jsnum \<Rightarrow> jsnum"
  js_ceil_div :: "nat \<Rightarrow> jsnum \<Rightarrow> jsnum"
  storeWindow :: "jsnum \<Rightarrow> jsnum \<Rightarrow> (nat \<times> nat) option"
  hashPassword :: "string \<Rightarrow> string"

text \<open>
  \<^verbatim>\<open>isInt({ min, max })\<close> of validator.js: the string matches \<^verbatim>\<open>/^[-+]?[0-9]+$/\<close>, so
  leading zeros are accepted, and \<^verbatim>\<open>str >= min\<close>, \<^verbatim>\<open>str <= max\<close> compare the number the
  string converts to. The conversion rounds to a double; rounding is monotone and the
  bounds the routes pass (1 and 100) are doubles, so the comparisons agree with those of
  the integer the digits denote.
\<close>

definition isDigit :: "char \<Rightarrow> bool" where
  "isDigit c \<longleftrightarrow> c \<in> set ''0123456789''"

definition digits_of :: "string \<Rightarrow> string" where
  "digits_of s =
     (case s of [] \<Rightarrow> [] | c # r \<Rightarrow> if c = CHR ''+'' \<or> c = CHR ''-'' then r else s)"

definition decimal :: "string \<Rightarrow> nat" where
  "decimal s = foldl (\<lambda>n c. 10 * n + (of_char c - 48)) 0 s"

definition literal_value :: "string \<Rightarrow> int" where
  "literal_value s =
     (case s of [] \<Rightarrow> 0
      | c # r \<Rightarrow> if c = CHR ''-'' then - int (decimal r) else int (decimal (digits_of s)))"

definition isInt :: "int \<Rightarrow> int option \<Rightarrow> string \<Rightarrow> bool" where
  "isInt lo hi s \<longleftrightarrow>
     digits_of s \<noteq> [] \<and> list_all isDigit (digits_of s) \<and>
     lo \<le> literal_value s \<and> (case hi of None \<Rightarrow> True | Some h \<Rightarrow> literal_value s \<le> h)"

text \<open>
  \<^verbatim>\<open>parseInt(x) || d\<close> with \<open>x\<close> possibly undefined: \<^verbatim>\<open>parseInt(undefined)\<close> is NaN,
  and NaN and 0 are falsy.
\<close>

definition parseInt_or :: "platform \<Rightarrow> string option \<Rightarrow> int \<Rightarrow> jsnum" where
  "parseInt_or P x d =
     (case x of None \<Rightarrow> Fin d | Some s \<Rightarrow> if parseInt P s = Fin 0 then Fin d else parseInt P s)"

text \<open>
  One validation chain: \<open>chk f ok\<close> is the entry of \<^verbatim>\<open>errors.array()\<close> for field \<open>f\<close>,
  \<open>optional\<close> skips an absent field, \<open>required\<close> runs the chain on the empty string
  when the field is absent.
\<close>

definition chk :: "string \<Rightarrow> bool \<Rightarrow> string list" where
  "chk f ok = (if ok then [] else [f])"

definition optional :: "('a \<Rightarrow> bool) \<Rightarrow> 'a option \<Rightarrow> bool" where
  "optional p x = (case x of None \<Rightarrow> True | Some v \<Rightarrow> p v)"

definition required :: "(string \<Rightarrow> bool) \<Rightarrow> string option \<Rightarrow> bool" where
  "required p x = (case x of None \<Rightarrow> p [] | Some v \<Rightarrow> p v)"

text \<open>
  \<^verbatim>\<open>if (req.query.x) filter = ...\<close>: a query parameter is used when it is truthy, that
  is present and not the empty string.
\<close>

definition when_truthy :: "string option \<Rightarrow> (string \<Rightarrow> 'f \<Rightarrow> 'f) \<Rightarrow> 'f \<Rightarrow> 'f" where
  "when_truthy x g f = (case x of None \<Rightarrow> f | Some v \<Rightarrow> if v = [] then f else g v f)"

section \<open>The collections\<close>

record cnote =
  n_content :: string
  n_createdBy :: oid
  n_createdAt :: date

datatype deal_status = DealOpen | DealWon | DealLost

record deal =
  d_title :: string
  d_value :: int
  d_status :: deal_status
  d_expectedCloseDate :: date
  d_createdAt :: date

record customer =
  c_id :: oid
  c_name :: string
  c_company :: string
  c_email :: string
  c_phone :: string
  c_notes :: "cnote list"
  c_tags :: "string list"
  c_owner :: oid
  c_deals :: "deal list"
  c_convertedFromLead :: "oid option"
  c_createdAt :: date

datatype lead_status = New | InProgress | ClosedWon | ClosedLost

record lead =
  l_id :: oid
  l_name :: string
  l_email :: string
  l_phone :: string
  l_status :: lead_status
  l_source :: string
  l_assignedAgent :: oid
  l_notes :: "string option"
  l_isArchived :: bool
  l_convertedToCustomer :: "oid option"
  l_convertedAt :: "date option"
  l_createdAt :: date

datatype task_status = Open | TaskInProgress | Done

datatype priority = Low | Medium | High

datatype related_type = RelLead | RelCustomer

record task =
  t_id :: oid
  t_title :: string
  t_description :: "string option"
  t_dueDate :: date
  t_status :: task_status
  t_priority :: priority
  t_relatedType :: related_type
  t_relatedId :: oid
  t_owner :: oid
  t_assignedTo :: "oid option"
  t_completedAt :: "date option"

text \<open>
  Modelled from the spec: the User schema (\<^verbatim>\<open>models/User.ts\<close> is not among the sources).
  The spec's data model gives a User an id, a unique email, a password hash, firstName,
  lastName, a role that is admin or agent, isActive and lastLogin.
\<close>

record user =
  u_id :: oid
  u_email :: string
  u_password :: string
  u_firstName :: string
  u_lastName :: string
  u_role :: role
  u_isActive :: bool
  u_lastLogin :: "date option"

datatype entity_type = EntLead | EntCustomer | EntTask | EntUser

datatype detail = Text string | Texts "string list"

record activity =
  a_user :: oid
  a_action :: string
  a_entityType :: entity_type
  a_entityId :: oid
  a_details :: "(string \<times> detail) list"

text \<open>
  One write of a handler, as the journal of the store records it: a document inserted,
  a document saved again under its id, a document removed, an activity entry created
  (with its action).
\<close>

datatype write_op =
    Inserted entity_type oid
  | Updated entity_type oid
  | Removed entity_type oid
  | Logged string

text \<open>
  The store: the collections, and \<open>journal\<close>, the writes performed on them so far, oldest
  first. The journal is not a collection of the application; it records the order in
  which a handler performs its writes.
\<close>

record db =
  leads :: "lead list"
  customers :: "customer list"
  tasks :: "task list"
  users :: "user list"
  activities :: "activity list"
  journal :: "write_op list"

text \<open>
  The cast of a string to an ObjectId, which Mongoose applies to the id of
  \<^verbatim>\<open>findById\<close>, to the ObjectId paths of a query filter and to the ObjectId paths of a
  document: \<^verbatim>\<open>new ObjectId(string)\<close> takes 24 hexadecimal digits in either case and throws
  for any other string, here \<open>None\<close>; the store holds ids in lower case, as
  \<^verbatim>\<open>toString()\<close> writes them.
\<close>

definition castObjectId :: "string \<Rightarrow> oid option" where
  "castObjectId s = (if length s = 24 \<and> list_all isHex s then Some (lowercase s) else None)"

text \<open>
  \<^verbatim>\<open>Model.findById(id)\<close>: a CastError for an id that is no ObjectId, else the document
  with that id, or \<^verbatim>\<open>null\<close>, here \<open>None\<close>.
\<close>

definition findById :: "('a \<Rightarrow> oid) \<Rightarrow> 'a list \<Rightarrow> string \<Rightarrow> error + 'a option" where
  "findById key docs i =
     (case castObjectId i of
        None \<Rightarrow> Inl (NextError ''CastError'')
      | Some j \<Rightarrow> Inr (find (\<lambda>d. key d = j) docs))"

text \<open>
  \<^verbatim>\<open>doc.save()\<close> of a loaded document writes it back under its \<^verbatim>\<open>_id\<close>. The document
  was written by an earlier \<^verbatim>\<open>save()\<close>, so the paths a handler leaves alone pass the
  schema again; each handler's model says which values the schema rejects among the paths
  it sets.
\<close>

definition save_doc :: "('a \<Rightarrow> oid) \<Rightarrow> 'a \<Rightarrow> 'a list \<Rightarrow> 'a list" where
  "save_doc key d docs = map (\<lambda>x. if key x = key d then d else x) docs"

text \<open>\<^verbatim>\<open>Model.findByIdAndDelete(id)\<close>.\<close>

definition delete_doc :: "('a \<Rightarrow> oid) \<Rightarrow> oid \<Rightarrow> 'a list \<Rightarrow> 'a list" where
  "delete_doc key i docs = filter (\<lambda>x. key x \<noteq> i) docs"

text \<open>
  The writes of the handlers. Each appends its entry to the journal.
  \<^verbatim>\<open>Activity.create({ user, action, entityType, entityId, details })\<close>: the handlers pass
  a user, an action of at most 100 characters, an entity type of the enum and an id, so
  the Activity schema accepts every entry they create.
\<close>

definition insert_customer :: "customer \<Rightarrow> db \<Rightarrow> db" where
  "insert_customer c s =
     s\<lparr>customers := customers s @ [c],
       journal := journal s @ [Inserted EntCustomer (c_id c)]\<rparr>"

definition update_customer :: "customer \<Rightarrow> db \<Rightarrow> db" where
  "update_customer c s =
     s\<lparr>customers := save_doc c_id c (customers s),
       journal := journal s @ [Updated EntCustomer (c_id c)]\<rparr>"

definition insert_lead :: "lead \<Rightarrow> db \<Rightarrow> db" where
  "insert_lead l s =
     s\<lparr>leads := leads s @ [l], journal := journal s @ [Inserted EntLead (l_id l)]\<rparr>"

definition update_lead :: "lead \<Rightarrow> db \<Rightarrow> db" where
  "update_lead l s =
     s\<lparr>leads := save_doc l_id l (leads s),
       journal := journal s @ [Updated EntLead (l_id l)]\<rparr>"

definition update_task :: "task \<Rightarrow> db \<Rightarrow> db" where
  "update_task t s =
     s\<lparr>tasks := save_doc t_id t (tasks s),
       journal := journal s @ [Updated EntTask (t_id t)]\<rparr>"

definition update_user :: "user \<Rightarrow> db \<Rightarrow> db" where
  "update_user usr s =
     s\<lparr>users := save_doc u_id usr (users s),
       journal := journal s @ [Updated EntUser (u_id usr)]\<rparr>"

definition remove_user :: "oid \<Rightarrow> db \<Rightarrow> db" where
  "remove_user i s =
     s\<lparr>users := delete_doc u_id i (users s), journal := journal s @ [Removed EntUser i]\<rparr>"

definition log_activity ::
  "oid \<Rightarrow> string \<Rightarrow> entity_type \<Rightarrow> oid \<Rightarrow> (string \<times> detail) list \<Rightarrow> db \<Rightarrow> db" where
  "log_activity u act et ei ds s =
     s\<lparr>activities := activities s @
        [\<lparr>a_user = u, a_action = act, a_entityType = et, a_entityId = ei, a_details = ds\<rparr>],
       journal := journal s @ [Logged act]\<rparr>"

text \<open>
  The envelope of a list response: the page of documents and the pagination block, whose
  \<^verbatim>\<open>page\<close>, \<^verbatim>\<open>limit\<close> and \<^verbatim>\<open>pages\<close> are JavaScript numbers.
\<close>

record 'a listing =
  ls_data :: "'a list"
  ls_page :: jsnum
  ls_limit :: jsnum
  ls_total :: nat
  ls_pages :: jsnum

text \<open>
  \<^verbatim>\<open>const skip = (page - 1) * limit\<close>, the query
  \<^verbatim>\<open>.skip(skip).limit(limit)\<close> on the sorted matches together with
  \<^verbatim>\<open>countDocuments(filter)\<close>, and the response built from them. A query that the store
  rejects throws, and the handler's \<^verbatim>\<open>catch\<close> passes the error to \<^verbatim>\<open>next\<close>.
\<close>

definition paginate :: "platform \<Rightarrow> jsnum \<Rightarrow> jsnum \<Rightarrow> 'a list \<Rightarrow> error + 'a listing" where
  "paginate P page limit found =
     (case storeWindow P (js_times P (js_minus P page (Fin 1)) limit) limit of
        None \<Rightarrow> Inl (NextError ''MongoServerError'')
      | Some (k, n) \<Rightarrow>
          Inr \<lparr>ls_data = take n (drop k found), ls_page = page, ls_limit = limit,
               ls_total = length found, ls_pages = js_ceil_div P (length found) limit\<rparr>)"

text \<open>
  A stable insertion sort under an explicit order, for \<^verbatim>\<open>.sort({ ... })\<close>: documents the
  order does not separate stay in the order the collection holds them.
\<close>

fun insert_by :: "('a \<Rightarrow> 'a \<Rightarrow> bool) \<Rightarrow> 'a \<Rightarrow> 'a list \<Rightarrow> 'a list" where
  "insert_by le x [] = [x]"
| "insert_by le x (y # ys) = (if le x y then x # y # ys else y # insert_by le x ys)"

definition sort_by :: "('a \<Rightarrow> 'a \<Rightarrow> bool) \<Rightarrow> 'a list \<Rightarrow> 'a list" where
  "sort_by le xs = foldr (insert_by le) xs []"

section \<open>Customers\<close>

text \<open>
  A request body is the JSON object the client sent, read field by field: a field that
  is absent is \<open>None\<close>, a field that is present carries a value of the JSON type the
  schema names for it. Validation chains that sanitize (\<^verbatim>\<open>trim()\<close>,
  \<^verbatim>\<open>normalizeEmail()\<close>) write the sanitized value back into the body, so the handler
  reads the sanitized field.
\<close>

text \<open>A required, trimmed string path with a \<^verbatim>\<open>maxlength\<close>.\<close>

definition cast_text :: "nat \<Rightarrow> string \<Rightarrow> string option" where
  "cast_text n v = (if trim v \<noteq> [] \<and> length (trim v) \<le> n then Some (trim v) else None)"

text \<open>The \<^verbatim>\<open>email\<close> path: lowercased, trimmed, required, matched against the pattern.\<close>

definition cast_email :: "string \<Rightarrow> string option" where
  "cast_email v =
     (let e = lowercase (trim v) in if e \<noteq> [] \<and> email_match e then Some e else None)"

record deal_input =
  di_title :: "string option"
  di_value :: "int option"
  di_status :: "string option"
  di_expectedCloseDate :: "date option"

definition parse_deal_status :: "string \<Rightarrow> deal_status option" where
  "parse_deal_status s =
     (if s = ''Open'' then Some DealOpen
      else if s = ''Won'' then Some DealWon
      else if s = ''Lost'' then Some DealLost
      else None)"

text \<open>
  One element of \<^verbatim>\<open>deals\<close> under the Customer schema: title required, at most 200
  characters after trimming; value required and at least 0; status in the enum, default
  Open; expectedCloseDate required; createdAt defaults to now. \<open>None\<close> when a validator
  rejects.
\<close>

definition cast_deal :: "date \<Rightarrow> deal_input \<Rightarrow> deal option" where
  "cast_deal now d =
     (case (di_title d, di_value d, di_expectedCloseDate d) of
        (Some t, Some v, Some e) \<Rightarrow>
          (case (case di_status d of None \<Rightarrow> Some DealOpen | Some st \<Rightarrow> parse_deal_status st) of
             None \<Rightarrow> None
           | Some st \<Rightarrow>
               if trim t \<noteq> [] \<and> length (trim t) \<le> 200 \<and> 0 \<le> v
               then Some \<lparr>d_title = trim t, d_value = v, d_status = st,
                          d_expectedCloseDate = e, d_createdAt = now\<rparr>
               else None)
      | _ \<Rightarrow> None)"

fun cast_deals :: "date \<Rightarrow> deal_input list \<Rightarrow> deal list option" where
  "cast_deals now [] = Some []"
| "cast_deals now (d # ds) =
     (case cast_deal now d of
        None \<Rightarrow> None
      | Some x \<Rightarrow> (case cast_deals now ds of None \<Rightarrow> None | Some xs \<Rightarrow> Some (x # xs)))"

text \<open>
  \<^verbatim>\<open>new Customer({ ... })\<close> followed by \<^verbatim>\<open>customer.save()\<close>: the schema's setters
  (\<^verbatim>\<open>trim\<close>, \<^verbatim>\<open>lowercase\<close>) run when the fields are set, its validators (\<^verbatim>\<open>required\<close>,
  \<^verbatim>\<open>maxlength\<close>, \<^verbatim>\<open>match\<close>, \<^verbatim>\<open>min\<close>, \<^verbatim>\<open>enum\<close>) when the document is saved. A
  rejected save throws, and the handler's \<^verbatim>\<open>catch\<close> passes the error to \<^verbatim>\<open>next\<close>.
\<close>

definition new_customer ::
  "date \<Rightarrow> oid \<Rightarrow> string \<Rightarrow> string \<Rightarrow> string \<Rightarrow> string \<Rightarrow> string list \<Rightarrow> deal_input list \<Rightarrow>
   oid \<Rightarrow> oid option \<Rightarrow> error + customer" where
  "new_customer now fresh name company email phone tags deals owner src =
     (case (cast_text 100 name, cast_text 100 company, cast_email email, cast_text 20 phone,
            cast_deals now deals) of
        (Some name', Some company', Some email', Some phone', Some deals') \<Rightarrow>
          if list_all (\<lambda>t. length t \<le> 30) (map trim tags)
          then Inr \<lparr>c_id = fresh, c_name = name', c_company = company', c_email = email',
                    c_phone = phone', c_notes = [], c_tags = map trim tags, c_owner = owner,
                    c_deals = deals', c_convertedFromLead = src, c_createdAt = now\<rparr>
          else Inl (NextError ''ValidationError'')
      | _ \<Rightarrow> Inl (NextError ''ValidationError''))"

record customers_query =
  cq_page :: "string option"
  cq_limit :: "string option"
  cq_search :: "string option"
  cq_tags :: "string list option"
  cq_owner :: "string option"

text \<open>
  The \<^verbatim>\<open>filter\<close> object of \<^verbatim>\<open>GET /customers\<close>, one field per key the handler sets;
  \<open>cf_owner\<close> holds the string the handler put there, which the query casts.
\<close>

record customer_filter =
  cf_owner :: "string option"
  cf_tags :: "string list option"
  cf_or :: "(string \<Rightarrow> bool) option"

definition customer_matches :: "customer_filter \<Rightarrow> customer \<Rightarrow> bool" where
  "customer_matches f c \<longleftrightarrow>
     (case cf_owner f of None \<Rightarrow> True | Some v \<Rightarrow> castObjectId v = Some (c_owner c)) \<and>
     (case cf_tags f of None \<Rightarrow> True | Some ts \<Rightarrow> list_ex (\<lambda>t. t \<in> set (c_tags c)) ts) \<and>
     (case cf_or f of None \<Rightarrow> True
      | Some rx \<Rightarrow> rx (c_name c) \<or> rx (c_company c) \<or> rx (c_email c) \<or> rx (c_phone c))"

definition customers_filter :: "platform \<Rightarrow> caller \<Rightarrow> customers_query \<Rightarrow> error + customer_filter" where
  "customers_filter P u q =
     (let f0 = \<lparr>cf_owner = None, cf_tags = None, cf_or = None\<rparr>;
          f1 = (if caller_role u = Agent then f0\<lparr>cf_owner := Some (caller_id u)\<rparr> else f0);
          f2 = (if caller_role u = Admin
                then when_truthy (cq_owner q) (\<lambda>v f. f\<lparr>cf_owner := Some v\<rparr>) f1
                else f1);
          f3 = (case cq_tags q of Some ts \<Rightarrow> f2\<lparr>cf_tags := Some ts\<rparr> | None \<Rightarrow> f2)
      in when_truthy (map_option trim (cq_search q))
           (\<lambda>pat r. case RegExp_i P pat of
                      None \<Rightarrow> Inl (NextError ''SyntaxError'')
                    | Some rx \<Rightarrow> Inr (f3\<lparr>cf_or := Some rx\<rparr>))
           (Inr f3))"

text \<open>
  \<^verbatim>\<open>Customer.find(filter)\<close> and \<^verbatim>\<open>Customer.countDocuments(filter)\<close>: a filter whose
  \<^verbatim>\<open>owner\<close> is no ObjectId throws a CastError.
\<close>

definition customers_find :: "customer_filter \<Rightarrow> customer list \<Rightarrow> error + customer list" where
  "customers_find f cs =
     (if optional (\<lambda>v. castObjectId v \<noteq> None) (cf_owner f)
      then Inr (filter (customer_matches f) cs)
      else Inl (NextError ''CastError''))"

text \<open>
  \<^verbatim>\<open>router.get('/')\<close> of customers.ts. Population of references is left out: a document
  of the page stands for the document with its references populated.
\<close>

definition customers_list ::
  "platform \<Rightarrow> caller \<Rightarrow> customers_query \<Rightarrow> db \<Rightarrow> error + customer listing" where
  "customers_list P u q s =
     (let errors =
            chk ''page'' (optional (isInt 1 None) (cq_page q)) @
            chk ''limit'' (optional (isInt 1 (Some 100)) (cq_limit q)) @
            chk ''owner'' (optional isMongoId (cq_owner q))
      in if errors \<noteq> [] then Inl (ValidationErrors errors)
         else case customers_filter P u q of
                Inl e \<Rightarrow> Inl e
              | Inr f \<Rightarrow>
                  (case customers_find f (customers s) of
                     Inl e \<Rightarrow> Inl e
                   | Inr found \<Rightarrow>
                       paginate P (parseInt_or P (cq_page q) 1) (parseInt_or P (cq_limit q) 20)
                         (sort_by (\<lambda>a b. c_createdAt b \<le> c_createdAt a) found)))"

record customer_body =
  cb_name :: "string option"
  cb_company :: "string option"
  cb_email :: "string option"
  cb_phone :: "string option"
  cb_tags :: "string list option"
  cb_deals :: "deal_input list option"

definition or_empty :: "'a list option \<Rightarrow> 'a list" where
  "or_empty x = (case x of None \<Rightarrow> [] | Some v \<Rightarrow> v)"

text \<open>\<^verbatim>\<open>router.post('/')\<close> of customers.ts.\<close>

definition customers_create ::
  "platform \<Rightarrow> caller \<Rightarrow> date \<Rightarrow> oid \<Rightarrow> customer_body \<Rightarrow> db \<Rightarrow> (error + customer) \<times> db" where
  "customers_create P u now fresh b s =
     (let name = trim (or_empty (cb_name b));
          company = trim (or_empty (cb_company b));
          email_ok = isEmail P (or_empty (cb_email b));
          email = normalizeEmail P (or_empty (cb_email b));
          phone = trim (or_empty (cb_phone b));
          errors =
            chk ''name'' (isLength 1 100 name) @
            chk ''company'' (isLength 1 100 company) @
            chk ''email'' email_ok @
            chk ''phone'' (isLength 1 20 phone)
      in if errors \<noteq> [] then (Inl (ValidationErrors errors), s)
         else if find (\<lambda>c. c_email c = email) (customers s) \<noteq> None
         then (Inl (Http400 ''Customer with this email already exists''), s)
         else case new_customer now fresh name company email phone
                     (or_empty (cb_tags b)) (or_empty (cb_deals b)) (caller_id u) None of
                Inl e \<Rightarrow> (Inl e, s)
              | Inr customer \<Rightarrow>
                  (Inr customer,
                   log_activity (caller_id u) ''Customer Created'' EntCustomer (c_id customer)
                     [(''name'', Text name), (''company'', Text company), (''email'', Text email)]
                     (insert_customer customer s)))"

text \<open>\<^verbatim>\<open>array.slice(-n)\<close>.\<close>

definition slice_last :: "nat \<Rightarrow> 'a list \<Rightarrow> 'a list" where
  "slice_last n xs = drop (length xs - n) xs"

text \<open>\<^verbatim>\<open>router.post('/:id/notes')\<close> of customers.ts.\<close>

definition customers_add_note ::
  "caller \<Rightarrow> date \<Rightarrow> string \<Rightarrow> string option \<Rightarrow> db \<Rightarrow> (error + cnote list) \<times> db" where
  "customers_add_note u now cid body_content s =
     (let content = trim (or_empty body_content);
          errors = chk ''content'' (isLength 1 1000 content)
      in if errors \<noteq> [] then (Inl (ValidationErrors errors), s)
         else case findById c_id (customers s) cid of
                Inl e \<Rightarrow> (Inl e, s)
              | Inr None \<Rightarrow> (Inl (Http404 ''Customer not found''), s)
              | Inr (Some customer) \<Rightarrow>
                  if caller_role u = Agent \<and> c_owner customer \<noteq> caller_id u
                  then (Inl (Http403 ''Access denied''), s)
                  else
                    let pushed = c_notes customer @
                          [\<lparr>n_content = trim content, n_createdBy = caller_id u,
                            n_createdAt = now\<rparr>];
                        notes = (if length pushed > 5 then slice_last 5 pushed else pushed);
                        customer' = customer\<lparr>c_notes := notes\<rparr>
                    in (Inr notes,
                        log_activity (caller_id u) ''Note Added to Customer'' EntCustomer
                          (c_id customer) [(''noteContent'', Text (substring0 100 content))]
                          (update_customer customer' s)))"

section \<open>Tasks\<close>

definition task_status_str :: "task_status \<Rightarrow> string" where
  "task_status_str st =
     (case st of Open \<Rightarrow> ''Open'' | TaskInProgress \<Rightarrow> ''In Progress'' | Done \<Rightarrow> ''Done'')"

definition parse_task_status :: "string \<Rightarrow> task_status option" where
  "parse_task_status v =
     (if v = ''Open'' then Some Open
      else if v = ''In Progress'' then Some TaskInProgress
      else if v = ''Done'' then Some Done
      else None)"

definition priority_str :: "priority \<Rightarrow> string" where
  "priority_str p = (case p of Low \<Rightarrow> ''Low'' | Medium \<Rightarrow> ''Medium'' | High \<Rightarrow> ''High'')"

definition parse_priority :: "string \<Rightarrow> priority option" where
  "parse_priority v =
     (if v = ''Low'' then Some Low
      else if v = ''Medium'' then Some Medium
      else if v = ''High'' then Some High
      else None)"

record tasks_query =
  tq_page :: "string option"
  tq_limit :: "string option"
  tq_status :: "string option"
  tq_priority :: "string option"
  tq_owner :: "string option"
  tq_assignedTo :: "string option"
  tq_dueDate :: "string option"
  tq_overdue :: "string option"

text \<open>
  The \<^verbatim>\<open>filter\<close> object of \<^verbatim>\<open>GET /tasks\<close>. \<open>tf_or\<close> is the agent's
  \<^verbatim>\<open>$or: [{ owner }, { assignedTo }]\<close>; a status is matched for equality or with
  \<^verbatim>\<open>$ne\<close>, a due date within \<^verbatim>\<open>[$gte, $lt)\<close> or below \<^verbatim>\<open>$lt\<close>. The ids are the
  strings the handler put there, which the query casts.
\<close>

datatype status_cond = StatusIs string | StatusNot string

datatype due_cond = DueWithin date date | DueBefore date

record task_filter =
  tf_or :: "string option"
  tf_status :: "status_cond option"
  tf_priority :: "string option"
  tf_owner :: "string option"
  tf_assignedTo :: "string option"
  tf_dueDate :: "due_cond option"

definition task_matches :: "task_filter \<Rightarrow> task \<Rightarrow> bool" where
  "task_matches f t \<longleftrightarrow>
     (case tf_or f of
        None \<Rightarrow> True
      | Some v \<Rightarrow>
          (case castObjectId v of
             None \<Rightarrow> False
           | Some i \<Rightarrow> t_owner t = i \<or> t_assignedTo t = Some i)) \<and>
     (case tf_status f of
        None \<Rightarrow> True
      | Some (StatusIs v) \<Rightarrow> task_status_str (t_status t) = v
      | Some (StatusNot v) \<Rightarrow> task_status_str (t_status t) \<noteq> v) \<and>
     (case tf_priority f of None \<Rightarrow> True | Some v \<Rightarrow> priority_str (t_priority t) = v) \<and>
     (case tf_owner f of None \<Rightarrow> True | Some v \<Rightarrow> castObjectId v = Some (t_owner t)) \<and>
     (case tf_assignedTo f of
        None \<Rightarrow> True
      | Some v \<Rightarrow>
          (case castObjectId v of None \<Rightarrow> False | Some i \<Rightarrow> t_assignedTo t = Some i)) \<and>
     (case tf_dueDate f of
        None \<Rightarrow> True
      | Some (DueWithin a b) \<Rightarrow> a \<le> t_dueDate t \<and> t_dueDate t < b
      | Some (DueBefore b) \<Rightarrow> t_dueDate t < b)"

definition tasks_filter :: "platform \<Rightarrow> caller \<Rightarrow> date \<Rightarrow> tasks_query \<Rightarrow> task_filter" where
  "tasks_filter P u now q =
     (let f0 = \<lparr>tf_or = None, tf_status = None, tf_priority = None, tf_owner = None,
                tf_assignedTo = None, tf_dueDate = None\<rparr>;
          f1 = (if caller_role u = Agent then f0\<lparr>tf_or := Some (caller_id u)\<rparr> else f0);
          f2 = when_truthy (tq_status q) (\<lambda>v f. f\<lparr>tf_status := Some (StatusIs v)\<rparr>) f1;
          f3 = when_truthy (tq_priority q) (\<lambda>v f. f\<lparr>tf_priority := Some v\<rparr>) f2;
          f4 = (if caller_role u = Admin
                then when_truthy (tq_owner q) (\<lambda>v f. f\<lparr>tf_owner := Some v\<rparr>) f3
                else f3);
          f5 = (if caller_role u = Admin
                then when_truthy (tq_assignedTo q)
                       (\<lambda>v f. f\<lparr>tf_assignedTo := Some v\<rparr>) f4
                else f4);
          f6 = when_truthy (tq_dueDate q)
                 (\<lambda>v f. f\<lparr>tf_dueDate :=
                          Some (DueWithin (newDate P v) (newDate P v + 24 * 60 * 60 * 1000))\<rparr>)
                 f5
      in if tq_overdue q = Some ''true''
         then f6\<lparr>tf_dueDate := Some (DueBefore now), tf_status := Some (StatusNot ''Done'')\<rparr>
         else f6)"

text \<open>
  \<^verbatim>\<open>.sort({ dueDate: 1, priority: -1 })\<close>. The store orders the stored values: the
  priority is stored as a string, and strings are ordered by their characters.
\<close>

definition task_order :: "task \<Rightarrow> task \<Rightarrow> bool" where
  "task_order a b \<longleftrightarrow>
     t_dueDate a < t_dueDate b \<or>
     (t_dueDate a = t_dueDate b \<and> priority_str (t_priority b) \<le> priority_str (t_priority a))"

text \<open>
  \<^verbatim>\<open>Task.find(filter)\<close> and \<^verbatim>\<open>Task.countDocuments(filter)\<close>: a filter with an id that
  is no ObjectId throws a CastError.
\<close>

definition tasks_find :: "task_filter \<Rightarrow> task list \<Rightarrow> error + task list" where
  "tasks_find f ts =
     (if optional (\<lambda>v. castObjectId v \<noteq> None) (tf_or f) \<and>
         optional (\<lambda>v. castObjectId v \<noteq> None) (tf_owner f) \<and>
         optional (\<lambda>v. castObjectId v \<noteq> None) (tf_assignedTo f)
      then Inr (filter (task_matches f) ts)
      else Inl (NextError ''CastError''))"

text \<open>
  \<^verbatim>\<open>router.get('/')\<close> of tasks.ts. Population of references is left out: a document of
  the page stands for the document with its references populated.
\<close>

definition tasks_list ::
  "platform \<Rightarrow> caller \<Rightarrow> date \<Rightarrow> tasks_query \<Rightarrow> db \<Rightarrow> error + task listing" where
  "tasks_list P u now q s =
     (let errors =
            chk ''page'' (optional (isInt 1 None) (tq_page q)) @
            chk ''limit'' (optional (isInt 1 (Some 100)) (tq_limit q)) @
            chk ''status''
              (optional (\<lambda>v. v \<in> set [''Open'', ''In Progress'', ''Done'']) (tq_status q)) @
            chk ''priority''
              (optional (\<lambda>v. v \<in> set [''Low'', ''Medium'', ''High'']) (tq_priority q)) @
            chk ''owner'' (optional isMongoId (tq_owner q)) @
            chk ''assignedTo'' (optional isMongoId (tq_assignedTo q)) @
            chk ''dueDate'' (optional (isISO8601 P) (tq_dueDate q)) @
            chk ''overdue'' (optional isBoolean_str (tq_overdue q))
      in if errors \<noteq> [] then Inl (ValidationErrors errors)
         else case tasks_find (tasks_filter P u now q) (tasks s) of
                Inl e \<Rightarrow> Inl e
              | Inr found \<Rightarrow>
                  paginate P (parseInt_or P (tq_page q) 1) (parseInt_or P (tq_limit q) 20)
                    (sort_by task_order found))"

text \<open>
  The body of \<^verbatim>\<open>PATCH /tasks/:id\<close>: \<open>tb_keys\<close> is \<^verbatim>\<open>Object.keys(req.body)\<close>, the keys
  of the JSON object in the order the client sent them; the other fields are the values
  under the six keys the chains validate, and under \<^verbatim>\<open>owner\<close> and \<^verbatim>\<open>completedAt\<close>, which
  \<^verbatim>\<open>Object.assign\<close> copies like any other key.
\<close>

record task_body =
  tb_keys :: "string list"
  tb_title :: "string option"
  tb_description :: "string option"
  tb_dueDate :: "string option"
  tb_status :: "string option"
  tb_priority :: "string option"
  tb_assignedTo :: "string option"
  tb_owner :: "string option"
  tb_completedAt :: "date option"

text \<open>
  What \<^verbatim>\<open>updateData\<close> holds under a key: nothing, \<^verbatim>\<open>undefined\<close> (assigning it clears
  the path of the document), or a value.
\<close>

datatype 'a field_update = Keep | Unset | SetTo 'a

definition apply_update :: "'a field_update \<Rightarrow> 'a option \<Rightarrow> 'a option" where
  "apply_update f old = (case f of Keep \<Rightarrow> old | Unset \<Rightarrow> None | SetTo v \<Rightarrow> Some v)"

definition or_keep :: "'a \<Rightarrow> ('b \<Rightarrow> 'a option) \<Rightarrow> 'b option \<Rightarrow> 'a option" where
  "or_keep old cast x = (case x of None \<Rightarrow> Some old | Some v \<Rightarrow> cast v)"

text \<open>
  \<^verbatim>\<open>Object.assign(task, updateData)\<close> and the validation of \<^verbatim>\<open>task.save()\<close>: each key
  present is cast and set, \<open>None\<close> when the schema rejects a value.
\<close>

definition assign_task ::
  "platform \<Rightarrow> task \<Rightarrow> task_body \<Rightarrow> date field_update \<Rightarrow> task option" where
  "assign_task P t b completedAt =
     (case (or_keep (t_title t)
              (\<lambda>v. if trim v \<noteq> [] \<and> length (trim v) \<le> 200 then Some (trim v) else None)
              (tb_title b),
            or_keep (t_description t)
              (\<lambda>v. if length (trim v) \<le> 1000 then Some (Some (trim v)) else None)
              (tb_description b),
            or_keep (t_dueDate t) (\<lambda>v. if v = [] then None else Some (newDate P v))
              (tb_dueDate b),
            or_keep (t_status t) parse_task_status (tb_status b),
            or_keep (t_priority t) parse_priority (tb_priority b),
            or_keep (t_assignedTo t) (\<lambda>v. map_option Some (castObjectId v)) (tb_assignedTo b),
            or_keep (t_owner t) castObjectId (tb_owner b)) of
        (Some title, Some description, Some dueDate, Some status, Some priority,
         Some assignedTo, Some owner) \<Rightarrow>
          Some (t\<lparr>t_title := title, t_description := description, t_dueDate := dueDate,
                  t_status := status, t_priority := priority, t_assignedTo := assignedTo,
                  t_owner := owner,
                  t_completedAt := apply_update completedAt (t_completedAt t)\<rparr>)
      | _ \<Rightarrow> None)"

text \<open>\<^verbatim>\<open>router.patch('/:id')\<close> of tasks.ts.\<close>

definition tasks_patch ::
  "platform \<Rightarrow> caller \<Rightarrow> date \<Rightarrow> string \<Rightarrow> task_body \<Rightarrow> db \<Rightarrow> (error + task) \<times> db" where
  "tasks_patch P u now tid b0 s =
     (let b = b0\<lparr>tb_title := map_option trim (tb_title b0),
                 tb_description := map_option trim (tb_description b0)\<rparr>;
          errors =
            chk ''title'' (optional (isLength 1 200) (tb_title b)) @
            chk ''description'' (optional (isLength 0 1000) (tb_description b)) @
            chk ''dueDate'' (optional (isISO8601 P) (tb_dueDate b)) @
            chk ''status''
              (optional (\<lambda>v. v \<in> set [''Open'', ''In Progress'', ''Done'']) (tb_status b)) @
            chk ''priority''
              (optional (\<lambda>v. v \<in> set [''Low'', ''Medium'', ''High'']) (tb_priority b)) @
            chk ''assignedTo'' (optional isMongoId (tb_assignedTo b))
      in if errors \<noteq> [] then (Inl (ValidationErrors errors), s)
         else case findById t_id (tasks s) tid of
                Inl e \<Rightarrow> (Inl e, s)
              | Inr None \<Rightarrow> (Inl (Http404 ''Task not found''), s)
              | Inr (Some task) \<Rightarrow>
                  if caller_role u = Agent \<and> t_owner task \<noteq> caller_id u \<and>
                     t_assignedTo task \<noteq> Some (caller_id u)
                  then (Inl (Http403 ''Access denied''), s)
                  else
                    let completedAt =
                          (if tb_status b = Some ''Done'' \<and> t_status task \<noteq> Done
                           then SetTo now
                           else if tb_status b \<noteq> Some ''Done'' then Unset
                           else (case tb_completedAt b of None \<Rightarrow> Keep | Some d \<Rightarrow> SetTo d))
                    in case assign_task P task b completedAt of
                         None \<Rightarrow> (Inl (NextError ''ValidationError''), s)
                       | Some task' \<Rightarrow>
                           (Inr task',
                            log_activity (caller_id u) ''Task Updated'' EntTask (t_id task')
                              [(''updatedFields'', Texts (tb_keys b))]
                              (update_task task' s)))"

section \<open>Leads\<close>

definition lead_status_str :: "lead_status \<Rightarrow> string" where
  "lead_status_str st =
     (case st of New \<Rightarrow> ''New'' | InProgress \<Rightarrow> ''In Progress''
      | ClosedWon \<Rightarrow> ''Closed Won'' | ClosedLost \<Rightarrow> ''Closed Lost'')"

definition parse_lead_status :: "string \<Rightarrow> lead_status option" where
  "parse_lead_status v =
     (if v = ''New'' then Some New
      else if v = ''In Progress'' then Some InProgress
      else if v = ''Closed Won'' then Some ClosedWon
      else if v = ''Closed Lost'' then Some ClosedLost
      else None)"

record leads_query =
  lq_page :: "string option"
  lq_limit :: "string option"
  lq_status :: "string option"
  lq_search :: "string option"
  lq_assignedAgent :: "string option"

text \<open>
  The \<^verbatim>\<open>filter\<close> object of \<^verbatim>\<open>GET /leads\<close>; it starts as \<^verbatim>\<open>{ isArchived: false }\<close>.
  \<open>lf_assignedAgent\<close> holds the string the handler put there, which the query casts.
\<close>

record lead_filter =
  lf_isArchived :: bool
  lf_assignedAgent :: "string option"
  lf_status :: "string option"
  lf_or :: "(string \<Rightarrow> bool) option"

definition lead_matches :: "lead_filter \<Rightarrow> lead \<Rightarrow> bool" where
  "lead_matches f l \<longleftrightarrow>
     l_isArchived l = lf_isArchived f \<and>
     (case lf_assignedAgent f of
        None \<Rightarrow> True
      | Some v \<Rightarrow> castObjectId v = Some (l_assignedAgent l)) \<and>
     (case lf_status f of None \<Rightarrow> True | Some v \<Rightarrow> lead_status_str (l_status l) = v) \<and>
     (case lf_or f of None \<Rightarrow> True
      | Some rx \<Rightarrow> rx (l_name l) \<or> rx (l_email l) \<or> rx (l_phone l) \<or> rx (l_source l))"

definition leads_filter :: "platform \<Rightarrow> caller \<Rightarrow> leads_query \<Rightarrow> error + lead_filter" where
  "leads_filter P u q =
     (let f0 = \<lparr>lf_isArchived = False, lf_assignedAgent = None, lf_status = None,
                lf_or = None\<rparr>;
          f1 = (if caller_role u = Agent then f0\<lparr>lf_assignedAgent := Some (caller_id u)\<rparr>
                else f0);
          f2 = when_truthy (lq_status q) (\<lambda>v f. f\<lparr>lf_status := Some v\<rparr>) f1;
          f3 = (if caller_role u = Admin
                then when_truthy (lq_assignedAgent q)
                       (\<lambda>v f. f\<lparr>lf_assignedAgent := Some v\<rparr>) f2
                else f2)
      in when_truthy (map_option trim (lq_search q))
           (\<lambda>pat r. case RegExp_i P pat of
                      None \<Rightarrow> Inl (NextError ''SyntaxError'')
                    | Some rx \<Rightarrow> Inr (f3\<lparr>lf_or := Some rx\<rparr>))
           (Inr f3))"

text \<open>
  \<^verbatim>\<open>Lead.find(filter)\<close> and \<^verbatim>\<open>Lead.countDocuments(filter)\<close>: a filter whose
  \<^verbatim>\<open>assignedAgent\<close> is no ObjectId throws a CastError.
\<close>

definition leads_find :: "lead_filter \<Rightarrow> lead list \<Rightarrow> error + lead list" where
  "leads_find f ls =
     (if optional (\<lambda>v. castObjectId v \<noteq> None) (lf_assignedAgent f)
      then Inr (filter (lead_matches f) ls)
      else Inl (NextError ''CastError''))"

text \<open>
  \<^verbatim>\<open>router.get('/')\<close> of leads.ts. Population of references is left out: a document of
  the page stands for the document with its references populated.
\<close>

definition leads_list :: "platform \<Rightarrow> caller \<Rightarrow> leads_query \<Rightarrow> db \<Rightarrow> error + lead listing" where
  "leads_list P u q s =
     (let errors =
            chk ''page'' (optional (isInt 1 None) (lq_page q)) @
            chk ''limit'' (optional (isInt 1 (Some 100)) (lq_limit q)) @
            chk ''status''
              (optional (\<lambda>v. v \<in> set [''New'', ''In Progress'', ''Closed Won'', ''Closed Lost''])
                (lq_status q)) @
            chk ''assignedAgent'' (optional isMongoId (lq_assignedAgent q))
      in if errors \<noteq> [] then Inl (ValidationErrors errors)
         else case leads_filter P u q of
                Inl e \<Rightarrow> Inl e
              | Inr f \<Rightarrow>
                  (case leads_find f (leads s) of
                     Inl e \<Rightarrow> Inl e
                   | Inr found \<Rightarrow>
                       paginate P (parseInt_or P (lq_page q) 1) (parseInt_or P (lq_limit q) 20)
                         (sort_by (\<lambda>a b. l_createdAt b \<le> l_createdAt a) found)))"

text \<open>
  \<^verbatim>\<open>.populate('assignedAgent', 'firstName lastName email')\<close> puts in the place of the
  reference the User document with that id and the selected fields, or \<^verbatim>\<open>null\<close> when
  the collection holds none. \<^verbatim>\<open>toString()\<close> of a document is its printed form, an object
  literal that opens with a brace, where \<^verbatim>\<open>toString()\<close> of a reference is the id; the
  model keeps the fields it prints and leaves out the quoting and the line breaks.
\<close>

definition populate_user :: "user list \<Rightarrow> oid \<Rightarrow> user option" where
  "populate_user us i = find (\<lambda>x. u_id x = i) us"

definition document_string :: "user \<Rightarrow> string" where
  "document_string x =
     ''{ _id: '' @ u_id x @ '', firstName: '' @ u_firstName x @ '', lastName: '' @
     u_lastName x @ '', email: '' @ u_email x @ '' }''"

text \<open>
  \<^verbatim>\<open>router.get('/:id')\<close> of leads.ts. The lead is read with \<^verbatim>\<open>assignedAgent\<close> populated,
  so the ownership test of an agent calls \<^verbatim>\<open>toString()\<close> on the populated document,
  which throws a TypeError when it is \<^verbatim>\<open>null\<close>. An admin is not tested. The lead in the
  answer stands for the lead with its references populated.
\<close>

definition leads_get :: "caller \<Rightarrow> string \<Rightarrow> db \<Rightarrow> error + lead" where
  "leads_get u lid s =
     (case findById l_id (leads s) lid of
        Inl e \<Rightarrow> Inl e
      | Inr None \<Rightarrow> Inl (Http404 ''Lead not found'')
      | Inr (Some lead) \<Rightarrow>
          if caller_role u = Agent
          then (case populate_user (users s) (l_assignedAgent lead) of
                  None \<Rightarrow> Inl (NextError ''TypeError'')
                | Some agent \<Rightarrow>
                    if document_string agent \<noteq> caller_id u
                    then Inl (Http403 ''Access denied'')
                    else Inr lead)
          else Inr lead)"

text \<open>
  The body of \<^verbatim>\<open>PATCH /leads/:id\<close>: \<open>lb_keys\<close> is \<^verbatim>\<open>Object.keys(req.body)\<close>, the keys
  of the JSON object in the order the client sent them; the other fields are the values
  under the seven keys the chains validate and under the other paths of the Lead schema,
  which \<^verbatim>\<open>Object.assign\<close> copies like any other key.
\<close>

record lead_body =
  lb_keys :: "string list"
  lb_name :: "string option"
  lb_email :: "string option"
  lb_phone :: "string option"
  lb_status :: "string option"
  lb_source :: "string option"
  lb_notes :: "string option"
  lb_assignedAgent :: "string option"
  lb_isArchived :: "jscalar option"
  lb_convertedToCustomer :: "string option"
  lb_convertedAt :: "date option"

text \<open>
  \<^verbatim>\<open>Object.assign(lead, req.body)\<close> and the validation of \<^verbatim>\<open>lead.save()\<close> under the Lead
  schema.
\<close>

definition assign_lead :: "lead \<Rightarrow> lead_body \<Rightarrow> lead option" where
  "assign_lead l b =
     (case (or_keep (l_name l) (cast_text 100) (lb_name b),
            or_keep (l_email l) cast_email (lb_email b),
            or_keep (l_phone l) (cast_text 20) (lb_phone b),
            or_keep (l_status l) parse_lead_status (lb_status b),
            or_keep (l_source l) (cast_text 50) (lb_source b),
            or_keep (l_notes l)
              (\<lambda>v. if length (trim v) \<le> 1000 then Some (Some (trim v)) else None) (lb_notes b),
            or_keep (l_assignedAgent l) castObjectId (lb_assignedAgent b),
            or_keep (l_isArchived l) cast_boolean (lb_isArchived b),
            or_keep (l_convertedToCustomer l) (\<lambda>v. map_option Some (castObjectId v))
              (lb_convertedToCustomer b)) of
        (Some name, Some email, Some phone, Some status, Some source, Some notes,
         Some assignedAgent, Some isArchived, Some convertedToCustomer) \<Rightarrow>
          Some (l\<lparr>l_name := name, l_email := email, l_phone := phone, l_status := status,
                  l_source := source, l_notes := notes, l_assignedAgent := assignedAgent,
                  l_isArchived := isArchived,
                  l_convertedToCustomer := convertedToCustomer,
                  l_convertedAt :=
                    (case lb_convertedAt b of None \<Rightarrow> l_convertedAt l | Some d \<Rightarrow> Some d)\<rparr>)
      | _ \<Rightarrow> None)"

text \<open>
  A lead as the Lead schema stores it: its strings are what the schema's setters leave
  and they pass the schema's validators.
\<close>

definition lead_stored :: "lead \<Rightarrow> bool" where
  "lead_stored l \<longleftrightarrow>
     cast_text 100 (l_name l) = Some (l_name l) \<and>
     cast_email (l_email l) = Some (l_email l) \<and>
     cast_text 20 (l_phone l) = Some (l_phone l) \<and>
     cast_text 50 (l_source l) = Some (l_source l)"

text \<open>
  The chains of \<^verbatim>\<open>PATCH /leads/:id\<close>: what the sanitizers leave in the body, and the
  fields whose validators fail.
\<close>

definition sanitize_lead_body :: "platform \<Rightarrow> lead_body \<Rightarrow> lead_body" where
  "sanitize_lead_body P b =
     b\<lparr>lb_name := map_option trim (lb_name b),
       lb_email := map_option (normalizeEmail P) (lb_email b),
       lb_phone := map_option trim (lb_phone b),
       lb_source := map_option trim (lb_source b),
       lb_notes := map_option trim (lb_notes b)\<rparr>"

definition lead_patch_errors :: "platform \<Rightarrow> lead_body \<Rightarrow> string list" where
  "lead_patch_errors P b =
     chk ''name'' (optional (isLength 1 100) (map_option trim (lb_name b))) @
     chk ''email'' (optional (isEmail P) (lb_email b)) @
     chk ''phone'' (optional (isLength 1 20) (map_option trim (lb_phone b))) @
     chk ''status''
       (optional (\<lambda>v. v \<in> set [''New'', ''In Progress'', ''Closed Won'', ''Closed Lost''])
         (lb_status b)) @
     chk ''source'' (optional (isLength 1 50) (map_option trim (lb_source b))) @
     chk ''notes'' (optional (isLength 0 1000) (map_option trim (lb_notes b))) @
     chk ''assignedAgent'' (optional isMongoId (lb_assignedAgent b))"

text \<open>
  The check \<^verbatim>\<open>req.body.email && req.body.email !== lead.email\<close> followed by
  \<^verbatim>\<open>Lead.findOne({ email, isArchived: false, _id: { $ne: lead._id } })\<close>.
\<close>

definition lead_email_taken :: "lead \<Rightarrow> lead_body \<Rightarrow> lead list \<Rightarrow> bool" where
  "lead_email_taken l b ls =
     when_truthy (lb_email b)
       (\<lambda>e r. e \<noteq> l_email l \<and>
          find (\<lambda>x. l_email x = e \<and> \<not> l_isArchived x \<and> l_id x \<noteq> l_id l) ls \<noteq> None)
       False"

text \<open>\<^verbatim>\<open>router.patch('/:id')\<close> of leads.ts.\<close>

definition leads_patch ::
  "platform \<Rightarrow> caller \<Rightarrow> string \<Rightarrow> lead_body \<Rightarrow> db \<Rightarrow> (error + lead) \<times> db" where
  "leads_patch P u lid b0 s =
     (let b = sanitize_lead_body P b0;
          errors = lead_patch_errors P b0
      in if errors \<noteq> [] then (Inl (ValidationErrors errors), s)
         else case findById l_id (leads s) lid of
                Inl e \<Rightarrow> (Inl e, s)
              | Inr None \<Rightarrow> (Inl (Http404 ''Lead not found''), s)
              | Inr (Some lead) \<Rightarrow>
                  if caller_role u = Agent \<and> l_assignedAgent lead \<noteq> caller_id u
                  then (Inl (Http403 ''Access denied''), s)
                  else if lead_email_taken lead b (leads s)
                  then (Inl (Http400 ''Lead with this email already exists''), s)
                  else case assign_lead lead b of
                         None \<Rightarrow> (Inl (NextError ''ValidationError''), s)
                       | Some lead' \<Rightarrow>
                           (Inr lead',
                            log_activity (caller_id u) ''Lead Updated'' EntLead (l_id lead')
                              [(''updatedFields'', Texts (lb_keys b))]
                              (update_lead lead' s)))"

record lead_create_body =
  nb_name :: "string option"
  nb_email :: "string option"
  nb_phone :: "string option"
  nb_source :: "string option"
  nb_notes :: "string option"

text \<open>
  \<^verbatim>\<open>new Lead({ name, email, phone, source, notes, assignedAgent })\<close> followed by
  \<^verbatim>\<open>lead.save()\<close>: the status defaults to New and \<^verbatim>\<open>isArchived\<close> to false.
\<close>

definition new_lead ::
  "date \<Rightarrow> oid \<Rightarrow> string \<Rightarrow> string \<Rightarrow> string \<Rightarrow> string \<Rightarrow> string option \<Rightarrow> oid \<Rightarrow> error + lead" where
  "new_lead now fresh name email phone source notes agent =
     (case (cast_text 100 name, cast_email email, cast_text 20 phone, cast_text 50 source) of
        (Some name', Some email', Some phone', Some source') \<Rightarrow>
          if optional (\<lambda>v. length (trim v) \<le> 1000) notes
          then Inr \<lparr>l_id = fresh, l_name = name', l_email = email', l_phone = phone',
                    l_status = New, l_source = source', l_assignedAgent = agent,
                    l_notes = map_option trim notes, l_isArchived = False,
                    l_convertedToCustomer = None, l_convertedAt = None, l_createdAt = now\<rparr>
          else Inl (NextError ''ValidationError'')
      | _ \<Rightarrow> Inl (NextError ''ValidationError''))"

text \<open>\<^verbatim>\<open>router.post('/')\<close> of leads.ts.\<close>

definition leads_create ::
  "platform \<Rightarrow> caller \<Rightarrow> date \<Rightarrow> oid \<Rightarrow> lead_create_body \<Rightarrow> db \<Rightarrow> (error + lead) \<times> db" where
  "leads_create P u now fresh b s =
     (let name = trim (or_empty (nb_name b));
          email = normalizeEmail P (or_empty (nb_email b));
          phone = trim (or_empty (nb_phone b));
          source = trim (or_empty (nb_source b));
          notes = map_option trim (nb_notes b);
          errors =
            chk ''name'' (isLength 1 100 name) @
            chk ''email'' (isEmail P (or_empty (nb_email b))) @
            chk ''phone'' (isLength 1 20 phone) @
            chk ''source'' (isLength 1 50 source) @
            chk ''notes'' (optional (isLength 0 1000) notes)
      in if errors \<noteq> [] then (Inl (ValidationErrors errors), s)
         else if find (\<lambda>x. l_email x = email \<and> \<not> l_isArchived x) (leads s) \<noteq> None
         then (Inl (Http400 ''Lead with this email already exists''), s)
         else case new_lead now fresh name email phone source notes (caller_id u) of
                Inl e \<Rightarrow> (Inl e, s)
              | Inr lead \<Rightarrow>
                  (Inr lead,
                   log_activity (caller_id u) ''Lead Created'' EntLead (l_id lead)
                     [(''name'', Text name), (''email'', Text email), (''source'', Text source)]
                     (insert_lead lead s)))"

text \<open>Every lead of the store is as the Lead schema stores it.\<close>

definition leads_stored :: "db \<Rightarrow> bool" where
  "leads_stored s \<longleftrightarrow> list_all lead_stored (leads s)"

record convert_body =
  vb_company :: "string option"
  vb_tags :: "string list option"
  vb_deals :: "deal_input list option"

text \<open>
  \<^verbatim>\<open>router.post('/:id/convert')\<close> of leads.ts: \<^verbatim>\<open>await customer.save()\<close>, then the three
  assignments to the lead and \<^verbatim>\<open>await lead.save()\<close>, then \<^verbatim>\<open>await Activity.create\<close>.
\<close>

definition leads_convert ::
  "caller \<Rightarrow> date \<Rightarrow> oid \<Rightarrow> string \<Rightarrow> convert_body \<Rightarrow> db \<Rightarrow> (error + customer \<times> lead) \<times> db" where
  "leads_convert u now fresh lid b s =
     (let company = trim (or_empty (vb_company b));
          errors = chk ''company'' (isLength 1 100 company)
      in if errors \<noteq> [] then (Inl (ValidationErrors errors), s)
         else case findById l_id (leads s) lid of
                Inl e \<Rightarrow> (Inl e, s)
              | Inr None \<Rightarrow> (Inl (Http404 ''Lead not found''), s)
              | Inr (Some lead) \<Rightarrow>
                  if caller_role u = Agent \<and> l_assignedAgent lead \<noteq> caller_id u
                  then (Inl (Http403 ''Access denied''), s)
                  else if l_status lead = ClosedWon \<or> l_status lead = ClosedLost
                  then (Inl (Http400 ''Cannot convert closed lead''), s)
                  else case new_customer now fresh (l_name lead) company (l_email lead)
                              (l_phone lead) (or_empty (vb_tags b)) (or_empty (vb_deals b))
                              (caller_id u) (Some (l_id lead)) of
                         Inl e \<Rightarrow> (Inl e, s)
                       | Inr customer \<Rightarrow>
                           let s1 = insert_customer customer s;
                               lead' = lead\<lparr>l_status := ClosedWon,
                                            l_convertedToCustomer := Some (c_id customer),
                                            l_convertedAt := Some now\<rparr>;
                               s2 = update_lead lead' s1
                           in (Inr (customer, lead'),
                               log_activity (caller_id u) ''Lead Converted to Customer'' EntLead
                                 (l_id lead')
                                 [(''customerId'', Text (c_id customer)),
                                  (''company'', Text company)]
                                 s2))"

text \<open>\<^verbatim>\<open>router.delete('/:id')\<close> of leads.ts: the lead is archived, not removed.\<close>

definition leads_archive :: "caller \<Rightarrow> string \<Rightarrow> db \<Rightarrow> (error + unit) \<times> db" where
  "leads_archive u lid s =
     (case findById l_id (leads s) lid of
        Inl e \<Rightarrow> (Inl e, s)
      | Inr None \<Rightarrow> (Inl (Http404 ''Lead not found''), s)
      | Inr (Some lead) \<Rightarrow>
          if caller_role u = Agent \<and> l_assignedAgent lead \<noteq> caller_id u
          then (Inl (Http403 ''Access denied''), s)
          else (Inr (),
                log_activity (caller_id u) ''Lead Archived'' EntLead (l_id lead)
                  [(''name'', Text (l_name lead))]
                  (update_lead (lead\<lparr>l_isArchived := True\<rparr>) s)))"

section \<open>Users\<close>

text \<open>
  The body of the two user updates: \<open>ub_keys\<close> is \<^verbatim>\<open>Object.keys(req.body)\<close>, the keys of
  the JSON object in the order the client sent them; the other fields are the values
  under the keys that name an attribute of a User. \<^verbatim>\<open>isActive\<close> is read as the JSON
  value the client sent.
\<close>

record user_body =
  ub_keys :: "string list"
  ub_firstName :: "string option"
  ub_lastName :: "string option"
  ub_email :: "string option"
  ub_password :: "string option"
  ub_role :: "string option"
  ub_isActive :: "jscalar option"
  ub_lastLogin :: "date option"

definition role_str :: "role \<Rightarrow> string" where
  "role_str r = (case r of Admin \<Rightarrow> ''admin'' | Agent \<Rightarrow> ''agent'')"

definition parse_role :: "string \<Rightarrow> role option" where
  "parse_role v =
     (if v = ''admin'' then Some Admin else if v = ''agent'' then Some Agent else None)"

text \<open>
  Modelled from the spec: \<^verbatim>\<open>Object.assign(user, req.body)\<close> and \<^verbatim>\<open>user.save()\<close> under the
  User schema, which is not among the sources. Each key present is set. The spec's role
  is admin or agent, so any other role string is rejected when the document is saved,
  and so is a value of \<^verbatim>\<open>isActive\<close> that the cast of a Boolean path refuses. The spec's
  email is unique, so an email that another User holds is rejected by the store. The
  spec's User holds a password hash, so a password that is set is stored as its hash.
  \<open>others\<close> is the collection the document is saved into.
\<close>

definition assign_user :: "platform \<Rightarrow> user list \<Rightarrow> user \<Rightarrow> user_body \<Rightarrow> error + user" where
  "assign_user P others usr b =
     (case (or_keep (u_role usr) parse_role (ub_role b),
            or_keep (u_isActive usr) cast_boolean (ub_isActive b)) of
        (Some r, Some a) \<Rightarrow>
          if (case ub_email b of
                None \<Rightarrow> False
              | Some e \<Rightarrow> list_ex (\<lambda>x. u_id x \<noteq> u_id usr \<and> u_email x = e) others)
          then Inl (NextError ''MongoServerError'')
          else
            Inr (usr\<lparr>u_email := (case ub_email b of None \<Rightarrow> u_email usr | Some v \<Rightarrow> v),
                     u_password :=
                       (case ub_password b of
                          None \<Rightarrow> u_password usr
                        | Some v \<Rightarrow> hashPassword P v),
                     u_firstName :=
                       (case ub_firstName b of None \<Rightarrow> u_firstName usr | Some v \<Rightarrow> v),
                     u_lastName := (case ub_lastName b of None \<Rightarrow> u_lastName usr | Some v \<Rightarrow> v),
                     u_role := r,
                     u_isActive := a,
                     u_lastLogin :=
                       (case ub_lastLogin b of None \<Rightarrow> u_lastLogin usr | Some d \<Rightarrow> Some d)\<rparr>)
      | _ \<Rightarrow> Inl (NextError ''ValidationError''))"

text \<open>\<^verbatim>\<open>requireAdmin\<close>, that is \<^verbatim>\<open>requireRole(['admin'])\<close>.\<close>

definition requireAdmin :: "caller \<Rightarrow> error option" where
  "requireAdmin u =
     (if caller_role u = Admin then None else Some (Http403 ''Insufficient permissions''))"

text \<open>
  The chains of the two user updates: both trim \<^verbatim>\<open>firstName\<close> and \<^verbatim>\<open>lastName\<close>;
  \<^verbatim>\<open>PATCH /users/:id\<close> also validates \<^verbatim>\<open>role\<close> and \<^verbatim>\<open>isActive\<close>,
  \<^verbatim>\<open>PATCH /users/profile/me\<close> validates the two names only.
\<close>

definition sanitize_user_body :: "user_body \<Rightarrow> user_body" where
  "sanitize_user_body b =
     b\<lparr>ub_firstName := map_option trim (ub_firstName b),
       ub_lastName := map_option trim (ub_lastName b)\<rparr>"

definition profile_errors :: "user_body \<Rightarrow> string list" where
  "profile_errors b =
     chk ''firstName'' (optional (isLength 1 50) (map_option trim (ub_firstName b))) @
     chk ''lastName'' (optional (isLength 1 50) (map_option trim (ub_lastName b)))"

definition user_patch_errors :: "user_body \<Rightarrow> string list" where
  "user_patch_errors b =
     profile_errors b @
     chk ''role'' (optional (\<lambda>v. v \<in> set [''admin'', ''agent'']) (ub_role b)) @
     chk ''isActive'' (optional isBoolean_js (ub_isActive b))"

text \<open>
  \<^verbatim>\<open>router.patch('/:id')\<close> of users.ts. The guard compares the path parameter with
  \<^verbatim>\<open>req.user.id\<close> as strings and the body's \<^verbatim>\<open>isActive\<close> with \<^verbatim>\<open>false\<close> by \<^verbatim>\<open>===\<close>.
\<close>

definition users_patch ::
  "platform \<Rightarrow> caller \<Rightarrow> string \<Rightarrow> user_body \<Rightarrow> db \<Rightarrow> (error + user) \<times> db" where
  "users_patch P u uid b0 s =
     (case requireAdmin u of
        Some e \<Rightarrow> (Inl e, s)
      | None \<Rightarrow>
          let b = sanitize_user_body b0;
              errors = user_patch_errors b0
          in if errors \<noteq> [] then (Inl (ValidationErrors errors), s)
             else case findById u_id (users s) uid of
                    Inl e \<Rightarrow> (Inl e, s)
                  | Inr None \<Rightarrow> (Inl (Http404 ''User not found''), s)
                  | Inr (Some usr) \<Rightarrow>
                      if uid = caller_id u \<and> ub_isActive b = Some (JBool False)
                      then (Inl (Http400 ''Cannot deactivate your own account''), s)
                      else case assign_user P (users s) usr b of
                             Inl e \<Rightarrow> (Inl e, s)
                           | Inr usr' \<Rightarrow>
                               (Inr usr',
                                log_activity (caller_id u) ''User Updated'' EntUser (u_id usr')
                                  [(''updatedFields'', Texts (ub_keys b))]
                                  (update_user usr' s)))"

text \<open>
  \<^verbatim>\<open>router.delete('/:id')\<close> of users.ts. The guard compares the path parameter with
  \<^verbatim>\<open>req.user.id\<close> as strings, before the id is cast.
\<close>

definition users_delete :: "caller \<Rightarrow> string \<Rightarrow> db \<Rightarrow> (error + unit) \<times> db" where
  "users_delete u uid s =
     (case requireAdmin u of
        Some e \<Rightarrow> (Inl e, s)
      | None \<Rightarrow>
          if uid = caller_id u then (Inl (Http400 ''Cannot delete your own account''), s)
          else case findById u_id (users s) uid of
                 Inl e \<Rightarrow> (Inl e, s)
               | Inr None \<Rightarrow> (Inl (Http404 ''User not found''), s)
               | Inr (Some usr) \<Rightarrow>
                   (Inr (),
                    log_activity (caller_id u) ''User Deleted'' EntUser (u_id usr)
                      [(''email'', Text (u_email usr)), (''role'', Text (role_str (u_role usr)))]
                      (remove_user (u_id usr) s)))"

text \<open>\<^verbatim>\<open>router.patch('/profile/me')\<close> of users.ts: no role is required.\<close>

definition users_patch_profile ::
  "platform \<Rightarrow> caller \<Rightarrow> user_body \<Rightarrow> db \<Rightarrow> (error + user) \<times> db" where
  "users_patch_profile P u b0 s =
     (let b = sanitize_user_body b0;
          errors = profile_errors b0
      in if errors \<noteq> [] then (Inl (ValidationErrors errors), s)
         else case findById u_id (users s) (caller_id u) of
                Inl e \<Rightarrow> (Inl e, s)
              | Inr None \<Rightarrow> (Inl (Http404 ''User not found''), s)
              | Inr (Some usr) \<Rightarrow>
                  (case assign_user P (users s) usr b of
                     Inl e \<Rightarrow> (Inl e, s)
                   | Inr usr' \<Rightarrow>
                       (Inr usr',
                        log_activity (caller_id u) ''Profile Updated'' EntUser (u_id usr')
                          [(''updatedFields'', Texts (ub_keys b))]
                          (update_user usr' s))))"

section \<open>Example data\<close>

text \<open>Concrete callers, documents and stores on which the theorems below are run.\<close>

definition id_a :: oid where
  "id_a = ''aaaaaaaaaaaaaaaaaaaaaaaa''"

definition id_b :: oid where
  "id_b = ''bbbbbbbbbbbbbbbbbbbbbbbb''"

definition id_c :: oid where
  "id_c = ''cccccccccccccccccccccccc''"

definition id_d :: oid where
  "id_d = ''dddddddddddddddddddddddd''"

definition admin_a :: caller where
  "admin_a = \<lparr>caller_id = id_a, caller_role = Admin\<rparr>"

definition agent_b :: caller where
  "agent_b = \<lparr>caller_id = id_b, caller_role = Agent\<rparr>"

definition note_at :: "date \<Rightarrow> cnote" where
  "note_at k = \<lparr>n_content = ''called'', n_createdBy = id_a, n_createdAt = k\<rparr>"

definition customer_five :: customer where
  "customer_five =
     \<lparr>c_id = id_c, c_name = ''Jane Doe'', c_company = ''Acme'', c_email = ''jane@x.com'',
      c_phone = ''555-0100'', c_notes = [note_at 1, note_at 2, note_at 3, note_at 4, note_at 5],
      c_tags = [], c_owner = id_b, c_deals = [], c_convertedFromLead = None, c_createdAt = 0\<rparr>"

definition db_five :: db where
  "db_five =
     \<lparr>leads = [], customers = [customer_five], tasks = [], users = [], activities = [],
      journal = []\<rparr>"

text \<open>
  A platform for the examples. Its numbers are doubles: an integer of at most 53 bits is
  itself, a longer one is rounded to 53 bits, to the even neighbour in a tie, and is an
  infinity from \<open>2 ^ 1024\<close> on; the store takes a skip below \<open>2 ^ 63\<close>. Its other
  functions are stand-ins that agree with the JavaScript ones on the requests below.
\<close>

fun bit_length :: "nat \<Rightarrow> nat" where
  "bit_length n = (if n = 0 then 0 else Suc (bit_length (n div 2)))"

declare bit_length.simps [simp del]

definition round53 :: "nat \<Rightarrow> nat" where
  "round53 n =
     (let e = bit_length n - 53; q = n div 2 ^ e; r = n mod 2 ^ e
      in if e = 0 then n
         else if 2 ^ e < 2 * r \<or> (2 * r = 2 ^ e \<and> q mod 2 = 1) then (q + 1) * 2 ^ e
         else q * 2 ^ e)"

definition to_double :: "int \<Rightarrow> jsnum" where
  "to_double i =
     (if \<bar>i\<bar> \<le> 2 ^ 53 then Fin i
      else if round53 (nat \<bar>i\<bar>) < 2 ^ 1024 then Fin (sgn i * int (round53 (nat \<bar>i\<bar>)))
      else if 0 < i then PosInf else NegInf)"

definition double_minus :: "jsnum \<Rightarrow> jsnum \<Rightarrow> jsnum" where
  "double_minus a b =
     (case (a, b) of
        (Fin x, Fin y) \<Rightarrow> to_double (x - y)
      | (Fin x, PosInf) \<Rightarrow> NegInf
      | (Fin x, NegInf) \<Rightarrow> PosInf
      | (PosInf, _) \<Rightarrow> PosInf
      | (NegInf, _) \<Rightarrow> NegInf)"

definition double_times :: "jsnum \<Rightarrow> jsnum \<Rightarrow> jsnum" where
  "double_times a b =
     (case (a, b) of
        (Fin x, Fin y) \<Rightarrow> to_double (x * y)
      | (Fin x, PosInf) \<Rightarrow> (if 0 \<le> x then PosInf else NegInf)
      | (Fin x, NegInf) \<Rightarrow> (if 0 \<le> x then NegInf else PosInf)
      | (PosInf, Fin y) \<Rightarrow> (if 0 \<le> y then PosInf else NegInf)
      | (NegInf, Fin y) \<Rightarrow> (if 0 \<le> y then NegInf else PosInf)
      | (PosInf, PosInf) \<Rightarrow> PosInf
      | (PosInf, NegInf) \<Rightarrow> NegInf
      | (NegInf, PosInf) \<Rightarrow> NegInf
      | (NegInf, NegInf) \<Rightarrow> PosInf)"

definition plat0 :: platform where
  "plat0 =
     \<lparr>isEmail = (\<lambda>v. CHR ''@'' \<in> set v), normalizeEmail = lowercase,
      isISO8601 = (\<lambda>v. v \<noteq> []), newDate = (\<lambda>v. int (decimal v)),
      RegExp_i = (\<lambda>pat. Some (\<lambda>v. pat = v)),
      parseInt = (\<lambda>v. to_double (literal_value v)),
      js_minus = double_minus,
      js_times = double_times,
      js_ceil_div =
        (\<lambda>n l. case l of Fin y \<Rightarrow> Fin (- ((- int n) div y)) | _ \<Rightarrow> Fin 0),
      storeWindow =
        (\<lambda>a b. case (a, b) of
                 (Fin k, Fin n) \<Rightarrow>
                   if 0 \<le> k \<and> k < 2 ^ 63 \<and> 0 < n then Some (nat k, nat n) else None
               | _ \<Rightarrow> None),
      hashPassword = (\<lambda>v. ''hash of '' @ v)\<rparr>"

definition db_empty :: db where
  "db_empty =
     \<lparr>leads = [], customers = [], tasks = [], users = [], activities = [], journal = []\<rparr>"

definition task_done :: task where
  "task_done =
     \<lparr>t_id = id_c, t_title = ''Call Jane'', t_description = None, t_dueDate = 10,
      t_status = Done, t_priority = High, t_relatedType = RelLead, t_relatedId = id_d,
      t_owner = id_b, t_assignedTo = Some id_b, t_completedAt = Some 5\<rparr>"

definition task_body_none :: task_body where
  "task_body_none =
     \<lparr>tb_keys = [], tb_title = None, tb_description = None, tb_dueDate = None, tb_status = None,
      tb_priority = None, tb_assignedTo = None, tb_owner = None, tb_completedAt = None\<rparr>"

definition task_with :: "oid \<Rightarrow> date \<Rightarrow> priority \<Rightarrow> task" where
  "task_with i due p =
     \<lparr>t_id = i, t_title = ''Follow up'', t_description = None, t_dueDate = due,
      t_status = Open, t_priority = p, t_relatedType = RelLead, t_relatedId = id_d,
      t_owner = id_b, t_assignedTo = None, t_completedAt = None\<rparr>"

definition tasks_query_none :: tasks_query where
  "tasks_query_none =
     \<lparr>tq_page = None, tq_limit = None, tq_status = None, tq_priority = None, tq_owner = None,
      tq_assignedTo = None, tq_dueDate = None, tq_overdue = None\<rparr>"

definition lead_jane :: lead where
  "lead_jane =
     \<lparr>l_id = id_c, l_name = ''Jane Doe'', l_email = ''jane@x.com'', l_phone = ''555-0100'',
      l_status = New, l_source = ''Website'', l_assignedAgent = id_b, l_notes = None,
      l_isArchived = False, l_convertedToCustomer = None, l_convertedAt = None,
      l_createdAt = 1\<rparr>"

definition customer_jane :: customer where
  "customer_jane =
     \<lparr>c_id = id_a, c_name = ''Jane D'', c_company = ''Initech'', c_email = ''jane@x.com'',
      c_phone = ''555-0199'', c_notes = [], c_tags = [], c_owner = id_b, c_deals = [],
      c_convertedFromLead = None, c_createdAt = 0\<rparr>"

definition convert_acme :: convert_body where
  "convert_acme = \<lparr>vb_company = Some ''Acme'', vb_tags = None, vb_deals = None\<rparr>"

definition deal_untitled :: deal_input where
  "deal_untitled =
     \<lparr>di_title = None, di_value = Some 100, di_status = None, di_expectedCloseDate = Some 50\<rparr>"

definition leads_query_none :: leads_query where
  "leads_query_none =
     \<lparr>lq_page = None, lq_limit = None, lq_status = None, lq_search = None,
      lq_assignedAgent = None\<rparr>"

definition lead_body_none :: lead_body where
  "lead_body_none =
     \<lparr>lb_keys = [], lb_name = None, lb_email = None, lb_phone = None, lb_status = None, lb_source = None,
      lb_notes = None, lb_assignedAgent = None, lb_isArchived = None,
      lb_convertedToCustomer = None, lb_convertedAt = None\<rparr>"

definition user_body_none :: user_body where
  "user_body_none =
     \<lparr>ub_keys = [], ub_firstName = None, ub_lastName = None, ub_email = None,
      ub_password = None, ub_role = None, ub_isActive = None, ub_lastLogin = None\<rparr>"

definition id_a_upper :: string where
  "id_a_upper = ''AAAAAAAAAAAAAAAAAAAAAAAA''"

definition user_admin :: user where
  "user_admin =
     \<lparr>u_id = id_a, u_email = ''root@x.com'', u_password = ''hash'', u_firstName = ''Ann'',
      u_lastName = ''Lee'', u_role = Admin, u_isActive = True, u_lastLogin = None\<rparr>"

definition user_agent :: user where
  "user_agent =
     \<lparr>u_id = id_b, u_email = ''bob@x.com'', u_password = ''hash'', u_firstName = ''Bob'',
      u_lastName = ''Ray'', u_role = Agent, u_isActive = True, u_lastLogin = None\<rparr>"

section \<open>Properties\<close>

subsection \<open>Auxiliary facts\<close>

lemma dropWhile_idem: "dropWhile P (dropWhile P xs) = dropWhile P xs"
  by (induction xs) auto

lemma strip_end_prefix: "\<exists>zs. ys = rev (dropWhile P (rev ys)) @ zs"
proof -
  have "rev ys = takeWhile P (rev ys) @ dropWhile P (rev ys)" by simp
  then have "ys = rev (dropWhile P (rev ys)) @ rev (takeWhile P (rev ys))"
    by (metis rev_append rev_rev_ident)
  then show ?thesis by blast
qed

lemma dropWhile_strip_end:
  assumes "ys = [] \<or> \<not> P (hd ys)"
  shows "dropWhile P (rev (dropWhile P (rev ys))) = rev (dropWhile P (rev ys))"
proof (cases "rev (dropWhile P (rev ys))")
  case Nil
  show ?thesis unfolding Nil by simp
next
  case (Cons a as)
  obtain zs where "ys = rev (dropWhile P (rev ys)) @ zs"
    using strip_end_prefix by blast
  then have "ys = a # as @ zs" using Cons by simp
  then have "\<not> P a" using assms by auto
  then show ?thesis unfolding Cons by simp
qed

lemma dropWhile_head: "dropWhile P xs = [] \<or> \<not> P (hd (dropWhile P xs))"
  by (induction xs) auto

lemma trim_idem: "trim (trim s) = trim s"
  unfolding trim_def
  by (simp add: dropWhile_strip_end [OF dropWhile_head] dropWhile_idem)

lemma find_save_doc:
  "find (\<lambda>d. key d = j) docs = Some d \<Longrightarrow> key d' = j \<Longrightarrow>
   find (\<lambda>d. key d = j) (save_doc key d' docs) = Some d'"
  by (induction docs) (auto simp: save_doc_def)

lemma findById_SomeD:
  "findById key docs i = Inr (Some d) \<Longrightarrow>
   castObjectId i = Some (key d) \<and> find (\<lambda>x. key x = key d) docs = Some d"
  by (auto simp: findById_def find_Some_iff split: option.splits)

lemma findById_save_doc:
  assumes "findById key docs i = Inr (Some d)" and "key d' = key d"
  shows "findById key (save_doc key d' docs) i = Inr (Some d')"
proof -
  from findById_SomeD [OF assms(1)]
  have c: "castObjectId i = Some (key d)" and f: "find (\<lambda>x. key x = key d) docs = Some d"
    by simp_all
  from find_save_doc [OF f assms(2)]
  have "find (\<lambda>x. key x = key d) (save_doc key d' docs) = Some d'" .
  then show ?thesis using c by (simp add: findById_def)
qed

lemma slice_last_append_five:
  "length xs = 5 \<Longrightarrow> slice_last 5 (xs @ [x]) = tl xs @ [x]"
  by (cases xs) (simp_all add: slice_last_def)

lemma isMongoId_samples:
  "isMongoId id_a" "isMongoId id_b" "isMongoId id_c" "isMongoId id_d"
  by (simp_all add: id_a_def id_b_def id_c_def id_d_def isMongoId_def isHexadecimal_def
      isHex_def)

lemma lowercase_samples:
  "lowercase id_a = id_a" "lowercase id_b = id_b" "lowercase id_c = id_c"
  "lowercase id_d = id_d"
  by (simp_all add: id_a_def id_b_def id_c_def id_d_def lowercase_def lower_char_def
      is_upper_def)

text \<open>
  Samples of the validators and of the numbers of the sample platform: a page with a
  leading zero or a sign is accepted and read as the number, an integer beyond 53 bits is
  read as the nearest double, and a string of 22 digits behind \<^verbatim>\<open>0x\<close> passes
  \<^verbatim>\<open>isMongoId()\<close> and is no ObjectId.
\<close>

lemma isInt_samples:
  "isInt 1 None ''01''" "isInt 1 (Some 100) ''+007''" "\<not> isInt 1 None ''0''"
  "\<not> isInt 1 None ''1.5''" "\<not> isInt 1 (Some 100) ''101''" "\<not> isInt 1 None []"
  by code_simp+

lemma literal_value_samples:
  "literal_value ''01'' = 1" "literal_value ''25'' = 25"
  "literal_value ''9007199254740993'' = 9007199254740993"
  "literal_value ''9007199254740995'' = 9007199254740995"
  by (simp_all add: literal_value_def digits_of_def decimal_def)

lemma bit_length_samples:
  "bit_length 9007199254740993 = 54" "bit_length 9007199254740995 = 54"
  by (simp_all add: bit_length.simps)

lemma round53_samples:
  "round53 9007199254740993 = 9007199254740992"
  "round53 9007199254740995 = 9007199254740996"
  by (simp_all add: round53_def bit_length_samples Let_def)

lemma plat0_parseInt_samples:
  "parseInt plat0 ''01'' = Fin 1"
  "parseInt_or plat0 (Some ''25'') 1 = Fin 25"
  "parseInt plat0 ''9007199254740993'' = Fin 9007199254740992"
  "parseInt plat0 ''9007199254740995'' = Fin 9007199254740996"
  by (simp_all add: plat0_def parseInt_or_def literal_value_samples to_double_def
      round53_samples)

lemma isMongoId_prefixed:
  "isMongoId ''0x1234567890abcdef123456''"
  "castObjectId ''0x1234567890abcdef123456'' = None"
  "\<not> isMongoId ''someone''"
  by code_simp+

lemma ids_distinct:
  "id_a \<noteq> id_b" "id_a \<noteq> id_c" "id_a \<noteq> id_d" "id_b \<noteq> id_a" "id_b \<noteq> id_c"
  "id_b \<noteq> id_d" "id_c \<noteq> id_a" "id_c \<noteq> id_b" "id_c \<noteq> id_d" "id_d \<noteq> id_a"
  "id_d \<noteq> id_b" "id_d \<noteq> id_c"
  by (simp_all add: id_a_def id_b_def id_c_def id_d_def)

lemma castObjectId_samples:
  "castObjectId id_a = Some id_a" "castObjectId id_b = Some id_b"
  "castObjectId id_c = Some id_c" "castObjectId id_d = Some id_d"
  by (simp_all add: castObjectId_def lowercase_samples)
    (simp_all add: id_a_def id_b_def id_c_def id_d_def isHex_def)

lemma findById_sample_c:
  "c_id d = id_c \<Longrightarrow> findById c_id (d # ds) id_c = Inr (Some d)"
  by (simp add: findById_def castObjectId_samples)

lemma findById_hit:
  "castObjectId i = Some j \<Longrightarrow> key d = j \<Longrightarrow> findById key (d # ds) i = Inr (Some d)"
  by (simp add: findById_def)

lemma trim_samples:
  "trim ''Acme'' = ''Acme''" "trim ''Jane Doe'' = ''Jane Doe''"
  "trim ''jane@x.com'' = ''jane@x.com''" "trim ''555-0100'' = ''555-0100''"
  by (simp_all add: trim_def is_ws_def)

lemma email_match_jane: "email_match ''jane@x.com''"
  by (simp add: email_match_def rmatch_def email_rexp_def rplus_def ropt_def word_chars_def Let_def)

lemma lowercase_jane: "lowercase ''jane@x.com'' = ''jane@x.com''"
  by (simp add: lowercase_def lower_char_def is_upper_def)

lemma new_customer_from_jane:
  "new_customer now fresh ''Jane Doe'' ''Acme'' ''jane@x.com'' ''555-0100'' [] [] owner src =
   Inr \<lparr>c_id = fresh, c_name = ''Jane Doe'', c_company = ''Acme'', c_email = ''jane@x.com'',
        c_phone = ''555-0100'', c_notes = [], c_tags = [], c_owner = owner, c_deals = [],
        c_convertedFromLead = src, c_createdAt = now\<rparr>"
  by (simp add: new_customer_def cast_text_def cast_email_def Let_def trim_samples
      lowercase_jane email_match_jane)

lemma cast_text_trimmed:
  "isLength 1 n (trim v) \<Longrightarrow> cast_text n (trim v) = Some (trim v)"
  by (auto simp: cast_text_def isLength_def trim_idem)

lemma new_customer_of_stored_lead:
  assumes "lead_stored l" and "isLength 1 100 (trim company)"
    and "list_all (\<lambda>t. length t \<le> 30) (map trim tags)"
    and "cast_deals now deals = Some ds"
  shows "new_customer now fresh (l_name l) (trim company) (l_email l) (l_phone l) tags deals
           owner src =
         Inr \<lparr>c_id = fresh, c_name = l_name l, c_company = trim company, c_email = l_email l,
              c_phone = l_phone l, c_notes = [], c_tags = map trim tags, c_owner = owner,
              c_deals = ds, c_convertedFromLead = src, c_createdAt = now\<rparr>"
  using assms by (simp add: new_customer_def lead_stored_def cast_text_trimmed)

lemma leads_convert_open:
  assumes found: "findById l_id (leads s) lid = Inr (Some l)"
    and access: "caller_role u = Admin \<or> l_assignedAgent l = caller_id u"
    and company: "isLength 1 100 (trim (or_empty (vb_company b)))"
    and opn: "l_status l = New \<or> l_status l = InProgress"
  shows "leads_convert u now fresh lid b s =
     (case new_customer now fresh (l_name l) (trim (or_empty (vb_company b))) (l_email l)
             (l_phone l) (or_empty (vb_tags b)) (or_empty (vb_deals b)) (caller_id u)
             (Some (l_id l)) of
        Inl e \<Rightarrow> (Inl e, s)
      | Inr c \<Rightarrow>
          (Inr (c, l\<lparr>l_status := ClosedWon, l_convertedToCustomer := Some (c_id c),
                     l_convertedAt := Some now\<rparr>),
           log_activity (caller_id u) ''Lead Converted to Customer'' EntLead (l_id l)
             [(''customerId'', Text (c_id c)),
              (''company'', Text (trim (or_empty (vb_company b))))]
             (update_lead
                (l\<lparr>l_status := ClosedWon, l_convertedToCustomer := Some (c_id c),
                   l_convertedAt := Some now\<rparr>)
                (insert_customer c s))))"
proof -
  have acc: "\<not> (caller_role u = Agent \<and> l_assignedAgent l \<noteq> caller_id u)"
    using access by auto
  have st: "\<not> (l_status l = ClosedWon \<or> l_status l = ClosedLost)"
    using opn by auto
  show ?thesis
    using found acc st company
    by (auto simp add: leads_convert_def Let_def chk_def split: sum.splits)
qed

lemma leads_convert_closed:
  assumes found: "findById l_id (leads s) lid = Inr (Some l)"
    and access: "caller_role u = Admin \<or> l_assignedAgent l = caller_id u"
    and company: "isLength 1 100 (trim (or_empty (vb_company b)))"
    and closed: "l_status l = ClosedWon \<or> l_status l = ClosedLost"
  shows "leads_convert u now fresh lid b s = (Inl (Http400 ''Cannot convert closed lead''), s)"
proof -
  have acc: "\<not> (caller_role u = Agent \<and> l_assignedAgent l \<noteq> caller_id u)"
    using access by auto
  show ?thesis
    using found acc closed company
    by (simp add: leads_convert_def Let_def chk_def)
qed

lemma lead_stored_jane: "lead_stored lead_jane"
  by (simp add: lead_stored_def lead_jane_def cast_text_def cast_email_def Let_def
      trim_samples lowercase_jane email_match_jane)
    (simp add: trim_def is_ws_def)

lemma findById_lead_jane:
  "findById l_id (leads (db_empty\<lparr>leads := [lead_jane]\<rparr>)) id_c = Inr (Some lead_jane)"
  by (simp add: db_empty_def) (rule findById_hit, simp_all add: castObjectId_samples lead_jane_def)

lemma new_customer_rejects_deals:
  "cast_deals now ds = None \<Longrightarrow>
   new_customer now fresh n c e p tags ds owner src = Inl (NextError ''ValidationError'')"
  by (simp add: new_customer_def split: option.splits)

lemma cast_deals_untitled: "cast_deals now [deal_untitled] = None"
  by (simp add: cast_deal_def deal_untitled_def)

lemma set_insert_by: "set (insert_by le x xs) = insert x (set xs)"
  by (induction xs) auto

lemma set_sort_by: "set (sort_by le xs) = set xs"
  by (induction xs) (simp_all add: sort_by_def set_insert_by)

lemma paginate_data_subset:
  "paginate P pg lim xs = Inr r \<Longrightarrow> x \<in> set (ls_data r) \<Longrightarrow> x \<in> set xs"
  by (auto simp: paginate_def split: option.splits dest!: in_set_takeD in_set_dropD)

lemma paginate_sorted:
  "paginate P pg lim xs = Inr r \<Longrightarrow> sorted_wrt le xs \<Longrightarrow> sorted_wrt le (ls_data r)"
  by (auto simp: paginate_def sorted_wrt_drop sorted_wrt_take split: option.splits)

lemma castObjectId_Some_iff:
  "castObjectId v \<noteq> None \<longleftrightarrow> length v = 24 \<and> list_all isHex v"
  by (simp add: castObjectId_def)

lemma leads_filter_scope:
  assumes "leads_filter P u q = Inr f"
  shows "lf_isArchived f = False"
    and "caller_role u = Agent \<Longrightarrow> lf_assignedAgent f = Some (caller_id u)"
  using assms
  by (auto simp: leads_filter_def Let_def when_truthy_def
      split: option.splits if_splits)

lemma leads_list_unfold:
  assumes "leads_list P u q s = Inr pg"
  obtains f where "leads_filter P u q = Inr f"
    and "paginate P (parseInt_or P (lq_page q) 1) (parseInt_or P (lq_limit q) 20)
           (sort_by (\<lambda>a b. l_createdAt b \<le> l_createdAt a)
             (filter (lead_matches f) (leads s))) = Inr pg"
  using assms
  by (auto simp: leads_list_def leads_find_def Let_def split: if_splits sum.splits)

lemma leads_list_member:
  assumes "leads_list P u q s = Inr pg" and "x \<in> set (ls_data pg)"
  shows "x \<in> set (leads s)" and "\<not> l_isArchived x"
    and "caller_role u = Agent \<Longrightarrow> castObjectId (caller_id u) = Some (l_assignedAgent x)"
proof -
  from assms(1) obtain f where f: "leads_filter P u q = Inr f"
    and pg: "paginate P (parseInt_or P (lq_page q) 1) (parseInt_or P (lq_limit q) 20)
               (sort_by (\<lambda>a b. l_createdAt b \<le> l_createdAt a)
                 (filter (lead_matches f) (leads s))) = Inr pg"
    by (rule leads_list_unfold)
  from paginate_data_subset [OF pg assms(2)]
  have m: "x \<in> set (leads s) \<and> lead_matches f x"
    by (simp add: set_sort_by)
  show "x \<in> set (leads s)" using m by simp
  show "\<not> l_isArchived x"
    using m leads_filter_scope(1) [OF f] by (simp add: lead_matches_def)
  show "castObjectId (caller_id u) = Some (l_assignedAgent x)" if "caller_role u = Agent"
    using m leads_filter_scope(2) [OF f that] by (simp add: lead_matches_def)
qed

lemma sanitize_body_keys:
  "ub_keys (sanitize_user_body ub) = ub_keys ub"
  "lb_keys (sanitize_lead_body P lb) = lb_keys lb"
  by (simp_all add: sanitize_user_body_def sanitize_lead_body_def)

lemma leads_get_admin:
  assumes "findById l_id (leads s) lid = Inr (Some l)" and "caller_role u = Admin"
  shows "leads_get u lid s = Inr l"
  using assms by (simp add: leads_get_def)

lemma leads_get_never_404:
  assumes "findById l_id (leads s) lid = Inr (Some l)" and "leads_get u lid s = Inl e"
  shows "http_status e \<noteq> Some 404"
  using assms by (auto simp: leads_get_def split: if_splits option.splits)

text \<open>
  The printed form of a document opens with a brace, so it is no ObjectId string: an
  agent whose id is one is never answered with the lead.
\<close>

lemma document_string_no_id: "castObjectId (document_string x) \<noteq> Some i"
  by (simp add: castObjectId_def document_string_def isHex_def)

lemma leads_get_agent:
  assumes "findById l_id (leads s) lid = Inr (Some l)" and "caller_role u = Agent"
    and "castObjectId (caller_id u) = Some (caller_id u)"
  shows "leads_get u lid s =
     (case populate_user (users s) (l_assignedAgent l) of
        None \<Rightarrow> Inl (NextError ''TypeError'')
      | Some agent \<Rightarrow> Inl (Http403 ''Access denied''))"
proof -
  have "document_string x \<noteq> caller_id u" for x
    using document_string_no_id [of x "caller_id u"] assms(3) by auto
  then show ?thesis
    using assms(1,2) by (simp add: leads_get_def split: option.splits)
qed

lemma assign_lead_id: "assign_lead l b = Some l' \<Longrightarrow> l_id l' = l_id l"
  by (auto simp: assign_lead_def split: option.splits)

lemma leads_patch_found:
  assumes found: "findById l_id (leads s) lid = Inr (Some l)"
    and access: "caller_role u = Admin \<or> l_assignedAgent l = caller_id u"
    and chains: "lead_patch_errors P b = []"
    and free: "\<not> lead_email_taken l (sanitize_lead_body P b) (leads s)"
    and saved: "assign_lead l (sanitize_lead_body P b) = Some l'"
  shows "leads_patch P u lid b s =
     (Inr l',
      log_activity (caller_id u) ''Lead Updated'' EntLead (l_id l')
        [(''updatedFields'', Texts (lb_keys b))]
        (update_lead l' s))"
proof -
  have acc: "\<not> (caller_role u = Agent \<and> l_assignedAgent l \<noteq> caller_id u)"
    using access by auto
  show ?thesis
    using found acc chains free saved
    by (simp add: leads_patch_def Let_def sanitize_body_keys)
qed

lemma customers_filter_scope:
  assumes "customers_filter P u q = Inr f" and "caller_role u = Agent"
  shows "cf_owner f = Some (caller_id u)"
  using assms
  by (auto simp: customers_filter_def Let_def when_truthy_def
      split: option.splits if_splits)

lemma customers_list_member:
  assumes "customers_list P u q s = Inr pg" and "x \<in> set (ls_data pg)"
    and "caller_role u = Agent"
  shows "castObjectId (caller_id u) = Some (c_owner x)"
proof -
  from assms(1) obtain f where f: "customers_filter P u q = Inr f"
    and pg: "paginate P (parseInt_or P (cq_page q) 1) (parseInt_or P (cq_limit q) 20)
               (sort_by (\<lambda>a b. c_createdAt b \<le> c_createdAt a)
                 (filter (customer_matches f) (customers s))) = Inr pg"
    by (auto simp: customers_list_def customers_find_def Let_def split: if_splits sum.splits)
  from paginate_data_subset [OF pg assms(2)]
  have m: "customer_matches f x" by (simp add: set_sort_by)
  show ?thesis
    using m customers_filter_scope [OF f assms(3)] by (simp add: customer_matches_def)
qed

lemma tasks_filter_scope:
  "caller_role u = Agent \<Longrightarrow> tf_or (tasks_filter P u now q) = Some (caller_id u)"
  by (simp add: tasks_filter_def Let_def when_truthy_def split: option.splits)

lemma tasks_list_unfold:
  assumes "tasks_list P u now q s = Inr pg"
  shows "paginate P (parseInt_or P (tq_page q) 1) (parseInt_or P (tq_limit q) 20)
           (sort_by task_order (filter (task_matches (tasks_filter P u now q)) (tasks s))) =
         Inr pg"
  using assms
  by (auto simp: tasks_list_def tasks_find_def Let_def split: if_splits sum.splits)

lemma tasks_list_member:
  assumes "tasks_list P u now q s = Inr pg" and "x \<in> set (ls_data pg)"
    and "caller_role u = Agent"
  shows "castObjectId (caller_id u) = Some (t_owner x) \<or>
         (castObjectId (caller_id u) \<noteq> None \<and> castObjectId (caller_id u) = t_assignedTo x)"
proof -
  from paginate_data_subset [OF tasks_list_unfold [OF assms(1)] assms(2)]
  have m: "task_matches (tasks_filter P u now q) x" by (simp add: set_sort_by)
  show ?thesis
    using m tasks_filter_scope [OF assms(3), of P now q]
    by (auto simp: task_matches_def split: option.splits)
qed

lemma leads_filter_ignores_agent_filter:
  "caller_role u = Agent \<Longrightarrow> leads_filter P u (q\<lparr>lq_assignedAgent := x\<rparr>) = leads_filter P u q"
  by (simp add: leads_filter_def Let_def)

lemma customers_filter_ignores_agent_filter:
  "caller_role u = Agent \<Longrightarrow> customers_filter P u (q\<lparr>cq_owner := x\<rparr>) = customers_filter P u q"
  by (simp add: customers_filter_def Let_def)

lemma tasks_filter_ignores_agent_filters:
  "caller_role u = Agent \<Longrightarrow> tasks_filter P u now (q\<lparr>tq_owner := x\<rparr>) = tasks_filter P u now q"
  "caller_role u = Agent \<Longrightarrow>
   tasks_filter P u now (q\<lparr>tq_assignedTo := x\<rparr>) = tasks_filter P u now q"
  by (simp_all add: tasks_filter_def Let_def)

lemma leads_list_ignores_agent_filter:
  assumes "caller_role u = Agent"
    and "optional isMongoId (lq_assignedAgent q)" and "optional isMongoId x"
  shows "leads_list P u (q\<lparr>lq_assignedAgent := x\<rparr>) s = leads_list P u q s"
  unfolding leads_list_def leads_filter_ignores_agent_filter [OF assms(1)]
  using assms(2,3) by (simp add: Let_def chk_def split: sum.splits)

lemma customers_list_ignores_agent_filter:
  assumes "caller_role u = Agent"
    and "optional isMongoId (cq_owner q)" and "optional isMongoId x"
  shows "customers_list P u (q\<lparr>cq_owner := x\<rparr>) s = customers_list P u q s"
  unfolding customers_list_def customers_filter_ignores_agent_filter [OF assms(1)]
  using assms(2,3) by (simp add: Let_def chk_def split: sum.splits)

lemma tasks_list_ignores_agent_owner:
  assumes "caller_role u = Agent"
    and "optional isMongoId (tq_owner q)" and "optional isMongoId x"
  shows "tasks_list P u now (q\<lparr>tq_owner := x\<rparr>) s = tasks_list P u now q s"
  unfolding tasks_list_def tasks_filter_ignores_agent_filters(1) [OF assms(1)]
  using assms(2,3) by (simp add: Let_def chk_def split: sum.splits)

lemma tasks_list_ignores_agent_assignee:
  assumes "caller_role u = Agent"
    and "optional isMongoId (tq_assignedTo q)" and "optional isMongoId x"
  shows "tasks_list P u now (q\<lparr>tq_assignedTo := x\<rparr>) s = tasks_list P u now q s"
  unfolding tasks_list_def tasks_filter_ignores_agent_filters(2) [OF assms(1)]
  using assms(2,3) by (simp add: Let_def chk_def split: sum.splits)

lemma leads_list_rejects_agent_filter:
  "\<not> isMongoId v \<Longrightarrow>
   \<exists>fs. leads_list P u (q\<lparr>lq_assignedAgent := Some v\<rparr>) s = Inl (ValidationErrors fs) \<and>
        ''assignedAgent'' \<in> set fs"
  by (simp add: leads_list_def Let_def chk_def optional_def)

lemma customers_list_rejects_agent_filter:
  "\<not> isMongoId v \<Longrightarrow>
   \<exists>fs. customers_list P u (q\<lparr>cq_owner := Some v\<rparr>) s = Inl (ValidationErrors fs) \<and>
        ''owner'' \<in> set fs"
  by (simp add: customers_list_def Let_def chk_def optional_def)

lemma tasks_list_rejects_agent_owner:
  "\<not> isMongoId v \<Longrightarrow>
   \<exists>fs. tasks_list P u now (q\<lparr>tq_owner := Some v\<rparr>) s = Inl (ValidationErrors fs) \<and>
        ''owner'' \<in> set fs"
  by (simp add: tasks_list_def Let_def chk_def optional_def)

lemma tasks_list_rejects_agent_assignee:
  "\<not> isMongoId v \<Longrightarrow>
   \<exists>fs. tasks_list P u now (q\<lparr>tq_assignedTo := Some v\<rparr>) s = Inl (ValidationErrors fs) \<and>
        ''assignedTo'' \<in> set fs"
  by (simp add: tasks_list_def Let_def chk_def optional_def)

text \<open>The sample platform on the default page: page 1 of 20 documents.\<close>

lemma plat0_default_page:
  "paginate plat0 (parseInt_or plat0 None 1) (parseInt_or plat0 None 20) xs =
   Inr \<lparr>ls_data = take 20 xs, ls_page = Fin 1, ls_limit = Fin 20, ls_total = length xs,
        ls_pages = Fin (- ((- int (length xs)) div 20))\<rparr>"
  by (simp add: paginate_def parseInt_or_def plat0_def double_minus_def double_times_def
      to_double_def)

lemma plat0_page_samples:
  "paginate plat0 (parseInt_or plat0 (Some ''02'') 1) (parseInt_or plat0 (Some ''10'') 20) xs =
   Inr \<lparr>ls_data = take 10 (drop 10 xs), ls_page = Fin 2, ls_limit = Fin 10,
        ls_total = length xs, ls_pages = Fin (- ((- int (length xs)) div 10))\<rparr>"
  by (simp add: paginate_def parseInt_or_def plat0_def double_minus_def double_times_def
      to_double_def literal_value_def digits_of_def decimal_def)

text \<open>
  An admin's filter that passes \<^verbatim>\<open>isMongoId()\<close> and is no ObjectId makes the query throw.
\<close>

lemma leads_list_admin_prefixed_filter:
  "leads_list plat0 admin_a
     (leads_query_none\<lparr>lq_assignedAgent := Some ''0x1234567890abcdef123456''\<rparr>) s =
   Inl (NextError ''CastError'')"
  by (simp add: leads_list_def leads_query_none_def chk_def optional_def isMongoId_prefixed
      leads_filter_def when_truthy_def Let_def admin_a_def leads_find_def)

lemma leads_list_agent_b_sample:
  "leads_list plat0 agent_b (leads_query_none\<lparr>lq_assignedAgent := x\<rparr>)
     (db_empty\<lparr>leads := [lead_jane, lead_jane\<lparr>l_id := id_d, l_assignedAgent := id_a\<rparr>]\<rparr>) =
   (if optional isMongoId x
    then Inr \<lparr>ls_data = [lead_jane], ls_page = Fin 1, ls_limit = Fin 20, ls_total = 1,
              ls_pages = Fin 1\<rparr>
    else Inl (ValidationErrors [''assignedAgent'']))"
  by (simp add: leads_list_def leads_query_none_def chk_def optional_def leads_filter_def
      when_truthy_def Let_def agent_b_def db_empty_def lead_matches_def leads_find_def
      plat0_default_page castObjectId_samples sort_by_def lead_jane_def ids_distinct
      split: option.splits)

lemma assign_user_id: "assign_user P others usr b = Inr usr' \<Longrightarrow> u_id usr' = u_id usr"
  by (auto simp: assign_user_def split: option.splits if_splits)

lemma users_patch_profile_found:
  assumes found: "findById u_id (users s) (caller_id u) = Inr (Some usr)"
    and chains: "profile_errors b = []"
  shows "users_patch_profile P u b s =
     (case assign_user P (users s) usr (sanitize_user_body b) of
        Inl e \<Rightarrow> (Inl e, s)
      | Inr usr' \<Rightarrow>
          (Inr usr',
           log_activity (caller_id u) ''Profile Updated'' EntUser (u_id usr')
             [(''updatedFields'', Texts (ub_keys b))]
             (update_user usr' s)))"
  using assms
  by (simp add: users_patch_profile_def Let_def sanitize_body_keys split: sum.splits)

lemma assign_lead_isArchived:
  "assign_lead l b = Some l' \<Longrightarrow>
   or_keep (l_isArchived l) cast_boolean (lb_isArchived b) = Some (l_isArchived l')"
  by (auto simp: assign_lead_def split: option.splits)

lemma findById_user_agent:
  "findById u_id (users (db_empty\<lparr>users := [user_admin, user_agent]\<rparr>)) (caller_id agent_b) =
   Inr (Some user_agent)"
  by (simp add: db_empty_def findById_def agent_b_def castObjectId_samples user_admin_def
      user_agent_def ids_distinct)

text \<open>
  The stored form of a lead is kept by every route that writes leads, so a lead read from
  a store that only these routes wrote satisfies \<open>lead_stored\<close>.
\<close>

lemma upper_code:
  "is_upper c \<Longrightarrow>
   (65 \<le> (of_char c :: nat) \<and> (of_char c :: nat) \<le> 90) \<or>
   (192 \<le> (of_char c :: nat) \<and> (of_char c :: nat) \<le> 222)"
  by (auto simp: is_upper_def less_eq_char_def)

lemma of_char_lowered:
  "(of_char c :: nat) \<le> 222 \<Longrightarrow>
   (of_char (char_of (of_char c + (32::nat))) :: nat) = of_char c + 32"
  by simp

lemma lowered_not_upper:
  assumes "is_upper c"
  shows "\<not> is_upper (char_of (of_char c + (32::nat)))"
proof -
  note r = upper_code [OF assms]
  then have "(of_char (char_of (of_char c + (32::nat))) :: nat) = of_char c + 32"
    by (intro of_char_lowered) auto
  then show ?thesis
    using r by (auto simp: is_upper_def less_eq_char_def)
qed

lemma is_ws_code: "is_ws c \<Longrightarrow> (of_char c :: nat) \<le> 32 \<or> (of_char c :: nat) = 160"
  by (auto simp: is_ws_def)

lemma is_ws_lower_char: "is_ws (lower_char c) = is_ws c"
proof (cases "is_upper c")
  case False
  then have "lower_char c = c" unfolding lower_char_def by (rule if_not_P)
  then show ?thesis by simp
next
  case True
  note r = upper_code [OF True]
  then have l: "(of_char (char_of (of_char c + (32::nat))) :: nat) = of_char c + 32"
    by (intro of_char_lowered) auto
  have "\<not> is_ws c" using is_ws_code [of c] r by auto
  moreover have "\<not> is_ws (char_of (of_char c + (32::nat)))"
    using is_ws_code [of "char_of (of_char c + (32::nat))"] l r by auto
  moreover have "lower_char c = char_of (of_char c + (32::nat))"
    unfolding lower_char_def using True by (rule if_P)
  ultimately show ?thesis by simp
qed

lemma lower_char_idem: "lower_char (lower_char c) = lower_char c"
proof (cases "is_upper c")
  case False
  then have "lower_char c = c" unfolding lower_char_def by (rule if_not_P)
  then show ?thesis by simp
next
  case True
  have "lower_char (char_of (of_char c + (32::nat))) = char_of (of_char c + (32::nat))"
    unfolding lower_char_def using lowered_not_upper [OF True] by (rule if_not_P)
  moreover have "lower_char c = char_of (of_char c + (32::nat))"
    unfolding lower_char_def using True by (rule if_P)
  ultimately show ?thesis by simp
qed

lemma lowercase_idem: "lowercase (lowercase s) = lowercase s"
  by (simp add: lowercase_def lower_char_idem)

lemma lowercase_Nil_iff: "lowercase s = [] \<longleftrightarrow> s = []"
  by (simp add: lowercase_def)

lemma dropWhile_ws_lowercase:
  "dropWhile is_ws (lowercase s) = lowercase (dropWhile is_ws s)"
  by (induction s) (simp_all add: lowercase_def is_ws_lower_char)

lemma rev_lowercase: "rev (lowercase s) = lowercase (rev s)"
  by (simp add: lowercase_def rev_map)

lemma trim_lowercase: "trim (lowercase s) = lowercase (trim s)"
  unfolding trim_def
  by (simp only: dropWhile_ws_lowercase rev_lowercase)

lemma cast_text_fixed: "cast_text n v = Some w \<Longrightarrow> cast_text n w = Some w"
  by (auto simp: cast_text_def trim_idem split: if_splits)

lemma cast_email_fixed:
  assumes "cast_email v = Some e"
  shows "cast_email e = Some e"
proof -
  from assms have e: "e = lowercase (trim v)" and ne: "e \<noteq> []" and m: "email_match e"
    by (auto simp: cast_email_def Let_def split: if_splits)
  have "lowercase (trim e) = e"
    unfolding e by (simp only: trim_lowercase trim_idem lowercase_idem)
  then show ?thesis
    using ne m by (simp add: cast_email_def Let_def)
qed

lemma or_keep_fixed:
  assumes "or_keep old cast x = Some w" and "cast old = Some old"
    and "\<And>v w. cast v = Some w \<Longrightarrow> cast w = Some w"
  shows "cast w = Some w"
  using assms by (cases x) (auto simp: or_keep_def)

lemma assign_lead_texts:
  assumes "assign_lead l b = Some l'"
  shows "or_keep (l_name l) (cast_text 100) (lb_name b) = Some (l_name l')"
    and "or_keep (l_email l) cast_email (lb_email b) = Some (l_email l')"
    and "or_keep (l_phone l) (cast_text 20) (lb_phone b) = Some (l_phone l')"
    and "or_keep (l_source l) (cast_text 50) (lb_source b) = Some (l_source l')"
  using assms by (auto simp: assign_lead_def split: option.splits)

lemma assign_lead_stored:
  assumes stored: "lead_stored l" and saved: "assign_lead l b = Some l'"
  shows "lead_stored l'"
proof -
  from stored have n: "cast_text 100 (l_name l) = Some (l_name l)"
    and e: "cast_email (l_email l) = Some (l_email l)"
    and p: "cast_text 20 (l_phone l) = Some (l_phone l)"
    and c: "cast_text 50 (l_source l) = Some (l_source l)"
    by (simp_all add: lead_stored_def)
  have "cast_text 100 (l_name l') = Some (l_name l')"
    by (rule or_keep_fixed [OF assign_lead_texts(1) [OF saved] n cast_text_fixed])
  moreover have "cast_email (l_email l') = Some (l_email l')"
    by (rule or_keep_fixed [OF assign_lead_texts(2) [OF saved] e cast_email_fixed])
  moreover have "cast_text 20 (l_phone l') = Some (l_phone l')"
    by (rule or_keep_fixed [OF assign_lead_texts(3) [OF saved] p cast_text_fixed])
  moreover have "cast_text 50 (l_source l') = Some (l_source l')"
    by (rule or_keep_fixed [OF assign_lead_texts(4) [OF saved] c cast_text_fixed])
  ultimately show ?thesis by (simp add: lead_stored_def)
qed

lemma list_all_save_doc:
  "list_all Q docs \<Longrightarrow> Q d \<Longrightarrow> list_all Q (save_doc key d docs)"
  by (induction docs) (auto simp: save_doc_def)

lemma findById_member: "findById key docs i = Inr (Some d) \<Longrightarrow> d \<in> set docs"
  by (auto simp: findById_def find_Some_iff split: option.splits)

lemma new_lead_stored: "new_lead now fresh n e p c notes agent = Inr l \<Longrightarrow> lead_stored l"
  by (auto simp: new_lead_def lead_stored_def split: option.splits if_splits
      dest: cast_text_fixed cast_email_fixed)

lemma leads_create_stored:
  assumes "leads_stored s" and "leads_create P u now fresh b s = (r, s')"
  shows "leads_stored s'"
  using assms
  by (auto simp: leads_create_def leads_stored_def Let_def log_activity_def insert_lead_def
      split: if_splits sum.splits dest: new_lead_stored new_lead_stored [OF sym])

lemma leads_patch_stored:
  assumes inv: "leads_stored s" and run: "leads_patch P u lid b s = (r, s')"
  shows "leads_stored s'"
proof (cases "s' = s")
  case True
  then show ?thesis using inv by simp
next
  case False
  with run obtain l l' where f: "findById l_id (leads s) lid = Inr (Some l)"
    and a: "assign_lead l (sanitize_lead_body P b) = Some l'"
    and s': "leads s' = save_doc l_id l' (leads s)"
    by (auto simp: leads_patch_def Let_def log_activity_def update_lead_def
        split: if_splits sum.splits option.splits)
  have "lead_stored l"
    using inv findById_member [OF f] by (simp add: leads_stored_def list_all_iff)
  then have "lead_stored l'" by (rule assign_lead_stored [OF _ a])
  then show ?thesis
    using inv by (simp add: leads_stored_def s' list_all_save_doc)
qed

lemma lead_stored_found:
  "findById l_id ls lid = Inr (Some l) \<Longrightarrow> list_all lead_stored ls \<Longrightarrow> lead_stored l"
  using findById_member by (fastforce simp: list_all_iff)

lemma lead_stored_frame:
  "lead_stored (l\<lparr>l_status := st, l_convertedToCustomer := c, l_convertedAt := d\<rparr>) =
   lead_stored l"
  "lead_stored (l\<lparr>l_isArchived := a\<rparr>) = lead_stored l"
  by (simp_all add: lead_stored_def)

lemma leads_convert_stored:
  assumes inv: "leads_stored s" and run: "leads_convert u now fresh lid b s = (r, s')"
  shows "leads_stored s'"
proof (cases "findById l_id (leads s) lid")
  case (Inl e)
  then show ?thesis
    using inv run by (auto simp: leads_convert_def Let_def split: if_splits)
next
  case (Inr found)
  show ?thesis
  proof (cases found)
    case None
    then show ?thesis
      using inv run Inr by (auto simp: leads_convert_def Let_def split: if_splits)
  next
    case (Some l)
    have "lead_stored l"
      using lead_stored_found [of "leads s" lid l] Inr Some inv by (simp add: leads_stored_def)
    then show ?thesis
      using inv run Inr Some
      by (auto simp: leads_convert_def Let_def log_activity_def leads_stored_def
          update_lead_def insert_customer_def lead_stored_frame
          split: if_splits sum.splits intro!: list_all_save_doc)
  qed
qed

lemma leads_archive_stored:
  assumes inv: "leads_stored s" and run: "leads_archive u lid s = (r, s')"
  shows "leads_stored s'"
proof (cases "findById l_id (leads s) lid")
  case (Inl e)
  then show ?thesis
    using inv run by (auto simp: leads_archive_def)
next
  case (Inr found)
  show ?thesis
  proof (cases found)
    case None
    then show ?thesis
      using inv run Inr by (auto simp: leads_archive_def)
  next
    case (Some l)
    have "lead_stored l"
      using lead_stored_found [of "leads s" lid l] Inr Some inv by (simp add: leads_stored_def)
    then show ?thesis
      using inv run Inr Some
      by (auto simp: leads_archive_def log_activity_def leads_stored_def update_lead_def
          lead_stored_frame split: if_splits intro!: list_all_save_doc)
  qed
qed

lemma leads_stored_found:
  "leads_stored s \<Longrightarrow> findById l_id (leads s) lid = Inr (Some l) \<Longrightarrow> lead_stored l"
  by (simp add: leads_stored_def lead_stored_found)

text \<open>
  What \<^verbatim>\<open>PATCH /tasks/:id\<close> leaves in \<^verbatim>\<open>completedAt\<close>, and what a page of
  \<^verbatim>\<open>GET /tasks\<close> holds: tasks that match the filter, in the order of \<open>task_order\<close>, so
  by ascending due date, and no more than the store returns for the limit.
\<close>

lemma assign_task_completedAt:
  "assign_task P t b upd = Some t' \<Longrightarrow> t_completedAt t' = apply_update upd (t_completedAt t)"
  by (auto simp: assign_task_def split: option.splits)

lemma assign_task_status:
  "assign_task P t b upd = Some t' \<Longrightarrow>
   or_keep (t_status t) parse_task_status (tb_status b) = Some (t_status t')"
  by (auto simp: assign_task_def split: option.splits)

lemma tasks_patch_completedAt:
  assumes found: "findById t_id (tasks s) tid = Inr (Some t)"
    and run: "tasks_patch P u now tid b s = (Inr t', s')"
  shows "t_completedAt t' =
     (if tb_status b = Some ''Done''
      then (if t_status t \<noteq> Done then Some now
            else (case tb_completedAt b of None \<Rightarrow> t_completedAt t | Some d \<Rightarrow> Some d))
      else None)"
  using assms
  by (auto simp: tasks_patch_def Let_def apply_update_def
      split: if_splits option.splits dest!: assign_task_completedAt)

lemma sorted_insert_by:
  assumes total: "\<And>a b. le a b \<or> le b a"
    and trans: "\<And>a b c. le a b \<Longrightarrow> le b c \<Longrightarrow> le a c"
  shows "sorted_wrt le xs \<Longrightarrow> sorted_wrt le (insert_by le x xs)"
proof (induction xs)
  case Nil
  then show ?case by simp
next
  case (Cons y ys)
  show ?case
  proof (cases "le x y")
    case True
    then show ?thesis using Cons.prems trans by auto
  next
    case False
    then have "le y x" using total by blast
    then show ?thesis
      using False Cons by (auto simp: set_insert_by)
  qed
qed

lemma sorted_sort_by:
  assumes total: "\<And>a b. le a b \<or> le b a"
    and trans: "\<And>a b c. le a b \<Longrightarrow> le b c \<Longrightarrow> le a c"
  shows "sorted_wrt le (sort_by le xs)"
proof (induction xs)
  case Nil
  then show ?case by (simp add: sort_by_def)
next
  case (Cons x xs)
  then show ?case
    using sorted_insert_by [of le, OF total trans] by (simp add: sort_by_def)
qed

lemma task_order_total: "task_order a b \<or> task_order b a"
  by (auto simp: task_order_def)

lemma task_order_trans: "task_order a b \<Longrightarrow> task_order b c \<Longrightarrow> task_order a c"
  by (auto simp: task_order_def)

lemma sorted_wrt_take_drop: "sorted_wrt le xs \<Longrightarrow> sorted_wrt le (take n (drop m xs))"
  by (simp add: sorted_wrt_drop sorted_wrt_take)

lemma tasks_list_page:
  assumes "tasks_list P u now q s = Inr pg"
  shows "sorted_wrt task_order (ls_data pg)"
    and "sorted_wrt (\<lambda>a b. t_dueDate a \<le> t_dueDate b) (ls_data pg)"
    and "x \<in> set (ls_data pg) \<Longrightarrow> task_matches (tasks_filter P u now q) x"
    and "\<exists>k n. storeWindow P
                 (js_times P (js_minus P (parseInt_or P (tq_page q) 1) (Fin 1))
                    (parseInt_or P (tq_limit q) 20))
                 (parseInt_or P (tq_limit q) 20) = Some (k, n) \<and>
               length (ls_data pg) \<le> n"
proof -
  note pg = tasks_list_unfold [OF assms]
  show so: "sorted_wrt task_order (ls_data pg)"
    by (rule paginate_sorted [OF pg])
      (rule sorted_sort_by [OF task_order_total task_order_trans])
  show "sorted_wrt (\<lambda>a b. t_dueDate a \<le> t_dueDate b) (ls_data pg)"
    by (rule sorted_wrt_mono_rel [OF _ so]) (auto simp: task_order_def)
  show "task_matches (tasks_filter P u now q) x" if "x \<in> set (ls_data pg)"
    using paginate_data_subset [OF pg that] by (simp add: set_sort_by)
  show "\<exists>k n. storeWindow P
                 (js_times P (js_minus P (parseInt_or P (tq_page q) 1) (Fin 1))
                    (parseInt_or P (tq_limit q) 20))
                 (parseInt_or P (tq_limit q) 20) = Some (k, n) \<and>
               length (ls_data pg) \<le> n"
    using pg by (auto simp: paginate_def split: option.splits)
qed

lemma tasks_filter_status_priority:
  assumes "tq_overdue q \<noteq> Some ''true''"
  shows "tq_status q = Some v \<Longrightarrow> v \<noteq> [] \<Longrightarrow>
           tf_status (tasks_filter P u now q) = Some (StatusIs v)"
    and "tq_priority q = Some w \<Longrightarrow> w \<noteq> [] \<Longrightarrow> tf_priority (tasks_filter P u now q) = Some w"
  using assms
  by (auto simp: tasks_filter_def Let_def when_truthy_def split: option.splits)

lemma tasks_list_status_priority:
  assumes "tasks_list P u now q s = Inr pg" and "tq_overdue q \<noteq> Some ''true''"
    and "x \<in> set (ls_data pg)"
  shows "tq_status q = Some v \<Longrightarrow> v \<noteq> [] \<Longrightarrow> task_status_str (t_status x) = v"
    and "tq_priority q = Some w \<Longrightarrow> w \<noteq> [] \<Longrightarrow> priority_str (t_priority x) = w"
  using tasks_list_page(3) [OF assms(1,3)] tasks_filter_status_priority [OF assms(2), where P = P and u = u and now = now]
  by (auto simp: task_matches_def split: option.splits)

subsection \<open>Customer notes\<close>

text \<open>
  C8. A note posted to \<^verbatim>\<open>/customers/:id/notes\<close> by the owner or an admin, with content
  whose length after trimming is between 1 and 1000, is appended as the trimmed content,
  the caller and the current time; the list is then cut to its last five entries, and
  the saved customer carries that list. A customer that had five notes keeps its last
  four and the new one. Content whose length after trimming is outside 1 to 1000, or no
  content, is answered with the validation error for \<^verbatim>\<open>content\<close> and the store is
  unchanged.
\<close>

theorem customers_add_note_keeps_latest_five:
  assumes found: "findById c_id (customers s) cid = Inr (Some c)"
    and access: "caller_role u = Admin \<or> c_owner c = caller_id u"
  shows "(isLength 1 1000 (trim content) \<longrightarrow>
          (\<exists>s'. customers_add_note u now cid (Some content) s =
            (Inr (slice_last 5 (c_notes c @
               [\<lparr>n_content = trim content, n_createdBy = caller_id u, n_createdAt = now\<rparr>])), s')
          \<and> findById c_id (customers s') cid =
              Inr (Some (c\<lparr>c_notes := slice_last 5 (c_notes c @
               [\<lparr>n_content = trim content, n_createdBy = caller_id u, n_createdAt = now\<rparr>])\<rparr>))
          \<and> length (slice_last 5 (c_notes c @
               [\<lparr>n_content = trim content, n_createdBy = caller_id u, n_createdAt = now\<rparr>])) \<le> 5
          \<and> (length (c_notes c) = 5 \<longrightarrow>
               slice_last 5 (c_notes c @
                 [\<lparr>n_content = trim content, n_createdBy = caller_id u, n_createdAt = now\<rparr>]) =
               tl (c_notes c) @
                 [\<lparr>n_content = trim content, n_createdBy = caller_id u, n_createdAt = now\<rparr>])))
       \<and> (\<not> isLength 1 1000 (trim content) \<longrightarrow>
            customers_add_note u now cid (Some content) s =
              (Inl (ValidationErrors [''content'']), s))
       \<and> customers_add_note u now cid None s = (Inl (ValidationErrors [''content'']), s)"
proof -
  define n where "n = \<lparr>n_content = trim content, n_createdBy = caller_id u, n_createdAt = now\<rparr>"
  define ns where "ns = slice_last 5 (c_notes c @ [n])"
  have acc: "\<not> (caller_role u = Agent \<and> c_owner c \<noteq> caller_id u)"
    using access by auto
  have run: "customers_add_note u now cid (Some content) s =
      (Inr ns, log_activity (caller_id u) ''Note Added to Customer'' EntCustomer (c_id c)
                 [(''noteContent'', Text (substring0 100 (trim content)))]
                 (update_customer (c\<lparr>c_notes := ns\<rparr>) s))"
    if len: "isLength 1 1000 (trim content)"
    using found acc len
    by (simp add: customers_add_note_def Let_def chk_def or_empty_def trim_idem n_def ns_def
        slice_last_def)
  have reread: "findById c_id (save_doc c_id (c\<lparr>c_notes := ns\<rparr>) (customers s)) cid =
      Inr (Some (c\<lparr>c_notes := ns\<rparr>))"
    by (rule findById_save_doc [OF found]) simp
  have short: "length ns \<le> 5"
    by (simp add: ns_def slice_last_def)
  have sixth: "length (c_notes c) = 5 \<longrightarrow> ns = tl (c_notes c) @ [n]"
    by (simp add: ns_def slice_last_append_five)
  have good: "\<exists>s'. customers_add_note u now cid (Some content) s = (Inr ns, s') \<and>
      findById c_id (customers s') cid = Inr (Some (c\<lparr>c_notes := ns\<rparr>)) \<and>
      length ns \<le> 5 \<and> (length (c_notes c) = 5 \<longrightarrow> ns = tl (c_notes c) @ [n])"
    if len: "isLength 1 1000 (trim content)"
    using run [OF len] reread short sixth
    by (simp add: log_activity_def update_customer_def)
  have bad: "customers_add_note u now cid (Some content) s =
      (Inl (ValidationErrors [''content'']), s)"
    if "\<not> isLength 1 1000 (trim content)"
    using that by (simp add: customers_add_note_def Let_def chk_def or_empty_def)
  have none: "customers_add_note u now cid None s = (Inl (ValidationErrors [''content'']), s)"
    by (simp add: customers_add_note_def Let_def chk_def or_empty_def trim_def isLength_def)
  show ?thesis
    using good bad none unfolding ns_def n_def by blast
qed

theorem customers_add_note_keeps_latest_five_witness:
  "findById c_id (customers db_five) id_c = Inr (Some customer_five) \<and>
   isLength 1 1000 (trim '' sixth '') \<and>
   (\<exists>s'. customers_add_note agent_b 6 id_c (Some '' sixth '') db_five =
      (Inr [note_at 2, note_at 3, note_at 4, note_at 5,
            \<lparr>n_content = ''sixth'', n_createdBy = id_b, n_createdAt = 6\<rparr>], s')) \<and>
   trim ''   '' = [] \<and>
   customers_add_note agent_b 6 id_c (Some ''   '') db_five =
     (Inl (ValidationErrors [''content'']), db_five)"
proof -
  have f: "findById c_id (customers db_five) id_c = Inr (Some customer_five)"
    by (simp add: db_five_def findById_sample_c customer_five_def)
  have a: "caller_role agent_b = Admin \<or> c_owner customer_five = caller_id agent_b"
    by (simp add: agent_b_def customer_five_def)
  have t: "trim '' sixth '' = ''sixth''"
    by (simp add: trim_def is_ws_def)
  have l: "isLength 1 1000 (trim '' sixth '')"
    by (simp add: t isLength_def)
  have e: "trim ''   '' = []"
    by (simp add: trim_def is_ws_def)
  have b: "\<not> isLength 1 1000 (trim ''   '')"
    by (simp add: e isLength_def)
  from customers_add_note_keeps_latest_five [OF f a, of "'' sixth ''" 6] l
  have one: "\<exists>s'. customers_add_note agent_b 6 id_c (Some '' sixth '') db_five =
      (Inr [note_at 2, note_at 3, note_at 4, note_at 5,
            \<lparr>n_content = ''sixth'', n_createdBy = id_b, n_createdAt = 6\<rparr>], s')"
    by (auto simp: t customer_five_def slice_last_def agent_b_def)
  from customers_add_note_keeps_latest_five [OF f a, of "''   ''" 6] b
  have two: "customers_add_note agent_b 6 id_c (Some ''   '') db_five =
      (Inl (ValidationErrors [''content'']), db_five)"
    by blast
  show ?thesis using f l one e two by blast
qed

text \<open>
  C8 as stated fails: the length that is tested and the content that is stored are those
  of the trimmed content. A content of one blank has length 1 and is answered with the
  validation error; a content with a blank on either side has length 7 and is stored
  without the blanks.
\<close>

theorem customers_add_note_untrimmed_counterexample:
  "isLength 1 1000 '' '' \<and>
   customers_add_note agent_b 6 id_c (Some '' '') db_five =
     (Inl (ValidationErrors [''content'']), db_five) \<and>
   isLength 1 1000 '' sixth '' \<and>
   fst (customers_add_note agent_b 6 id_c (Some '' sixth '') db_five) =
     Inr [note_at 2, note_at 3, note_at 4, note_at 5,
          \<lparr>n_content = ''sixth'', n_createdBy = id_b, n_createdAt = 6\<rparr>]"
proof -
  have f: "findById c_id [customer_five] id_c = Inr (Some customer_five)"
    by (simp add: findById_sample_c customer_five_def)
  have t: "trim '' sixth '' = ''sixth''" "trim ''sixth'' = ''sixth''" "trim '' '' = []"
    by (simp_all add: trim_def is_ws_def)
  have one: "customers_add_note agent_b 6 id_c (Some '' '') db_five =
      (Inl (ValidationErrors [''content'']), db_five)"
    by (simp add: customers_add_note_def Let_def chk_def or_empty_def t isLength_def)
  have two: "fst (customers_add_note agent_b 6 id_c (Some '' sixth '') db_five) =
      Inr [note_at 2, note_at 3, note_at 4, note_at 5,
           \<lparr>n_content = ''sixth'', n_createdBy = id_b, n_createdAt = 6\<rparr>]"
    by (simp add: customers_add_note_def Let_def chk_def or_empty_def t isLength_def
        db_five_def f agent_b_def)
      (simp add: customer_five_def slice_last_def)
  show ?thesis using one two by (simp add: isLength_def)
qed

subsection \<open>Task completion time\<close>

text \<open>
  C7. An update of a task that is Done, with a body that holds a title and no status,
  leaves the status Done and clears \<^verbatim>\<open>completedAt\<close>: the second branch of the handler
  tests \<^verbatim>\<open>req.body.status !== 'Done'\<close>, which holds for an absent status as well.
\<close>

theorem tasks_patch_without_status_clears_completedAt:
  "tasks_patch plat0 agent_b 20 id_c
     (task_body_none\<lparr>tb_keys := [''title''], tb_title := Some ''Call back''\<rparr>)
     (db_empty\<lparr>tasks := [task_done]\<rparr>) =
   (Inr (task_done\<lparr>t_title := ''Call back'', t_completedAt := None\<rparr>),
    db_empty\<lparr>tasks := [task_done\<lparr>t_title := ''Call back'', t_completedAt := None\<rparr>],
              activities := [\<lparr>a_user = id_b, a_action = ''Task Updated'', a_entityType = EntTask,
                               a_entityId = id_c,
                               a_details = [(''updatedFields'', Texts [''title''])]\<rparr>],
              journal := [Updated EntTask id_c, Logged ''Task Updated'']\<rparr>)
   \<and> t_status task_done = Done \<and> t_completedAt task_done = Some 5"
proof -
  have t: "trim ''Call back'' = ''Call back''"
    by (simp add: trim_def is_ws_def)
  have f: "findById t_id [task_done] id_c = Inr (Some task_done)"
    by (rule findById_hit) (simp_all add: castObjectId_samples task_done_def)
  show ?thesis
    by (simp add: tasks_patch_def Let_def task_body_none_def db_empty_def t f chk_def
        optional_def isLength_def agent_b_def assign_task_def or_keep_def apply_update_def
        log_activity_def update_task_def save_doc_def)
      (simp add: task_done_def)
qed

subsection \<open>Order of the task list\<close>

text \<open>
  C10. Three tasks due at the same time, of priority High, Medium and Low, are listed as
  Medium, Low, High: the descending order of the stored strings.
\<close>

theorem tasks_list_orders_priority_by_name:
  "tasks_list plat0 admin_a 0 tasks_query_none
     (db_empty\<lparr>tasks := [task_with id_a 10 High, task_with id_b 10 Medium,
                           task_with id_c 10 Low]\<rparr>) =
   Inr \<lparr>ls_data = [task_with id_b 10 Medium, task_with id_c 10 Low, task_with id_a 10 High],
        ls_page = Fin 1, ls_limit = Fin 20, ls_total = 3, ls_pages = Fin 1\<rparr>"
  by (simp add: tasks_list_def Let_def tasks_query_none_def chk_def optional_def
      tasks_filter_def tasks_find_def when_truthy_def admin_a_def task_matches_def
      db_empty_def plat0_default_page sort_by_def task_order_def task_with_def
      priority_str_def)

subsection \<open>Unique customer emails\<close>

text \<open>
  C5. Converting a lead whose email a customer already has stores a second customer with
  that email, while \<^verbatim>\<open>POST /customers\<close> with the same email on the same store is refused.
\<close>

theorem leads_convert_duplicates_customer_email:
  "map c_email (customers (snd (leads_convert agent_b 7 id_d id_c convert_acme
      (db_empty\<lparr>leads := [lead_jane], customers := [customer_jane]\<rparr>)))) =
     [''jane@x.com'', ''jane@x.com'']
   \<and> fst (customers_create plat0 agent_b 7 id_d
        \<lparr>cb_name = Some ''Jane Doe'', cb_company = Some ''Acme'', cb_email = Some ''jane@x.com'',
         cb_phone = Some ''555-0100'', cb_tags = None, cb_deals = None\<rparr>
        (db_empty\<lparr>leads := [lead_jane], customers := [customer_jane]\<rparr>)) =
     Inl (Http400 ''Customer with this email already exists'')"
proof -
  have f: "findById l_id [lead_jane] id_c = Inr (Some lead_jane)"
    by (rule findById_hit) (simp_all add: castObjectId_samples lead_jane_def)
  have conv: "map c_email (customers (snd (leads_convert agent_b 7 id_d id_c convert_acme
      (db_empty\<lparr>leads := [lead_jane], customers := [customer_jane]\<rparr>)))) =
     [''jane@x.com'', ''jane@x.com'']"
    by (simp add: leads_convert_def Let_def convert_acme_def or_empty_def trim_samples chk_def
        isLength_def db_empty_def f agent_b_def)
      (simp add: lead_jane_def new_customer_from_jane log_activity_def update_lead_def
        insert_customer_def customer_jane_def Let_def)
  have crt: "fst (customers_create plat0 agent_b 7 id_d
        \<lparr>cb_name = Some ''Jane Doe'', cb_company = Some ''Acme'', cb_email = Some ''jane@x.com'',
         cb_phone = Some ''555-0100'', cb_tags = None, cb_deals = None\<rparr>
        (db_empty\<lparr>leads := [lead_jane], customers := [customer_jane]\<rparr>)) =
     Inl (Http400 ''Customer with this email already exists'')"
    by (simp add: customers_create_def Let_def or_empty_def trim_samples chk_def isLength_def
        plat0_def lowercase_jane db_empty_def customer_jane_def)
  show ?thesis using conv crt by simp
qed

subsection \<open>An admin's own account\<close>

text \<open>
  What the two guards do refuse: a path parameter that is the caller's id character for
  character, for the update together with a body whose \<^verbatim>\<open>isActive\<close> is the JSON value
  \<^verbatim>\<open>false\<close>. The answer has status 400 and the store is unchanged; the update names the
  restriction when the fields of the body pass their chains.
\<close>

lemma users_self_guard_exact:
  assumes admin: "caller_role u = Admin"
    and self: "findById u_id (users s) (caller_id u) = Inr (Some usr)"
    and off: "ub_isActive b = Some (JBool False)"
  shows "users_patch P u (caller_id u) b s =
           (if user_patch_errors b \<noteq> [] then (Inl (ValidationErrors (user_patch_errors b)), s)
            else (Inl (Http400 ''Cannot deactivate your own account''), s))"
    and "users_delete u (caller_id u) s = (Inl (Http400 ''Cannot delete your own account''), s)"
  using admin self off
  by (simp_all add: users_patch_def users_delete_def requireAdmin_def Let_def
      sanitize_user_body_def)

text \<open>
  C9. The guards compare strings, and the update compares \<^verbatim>\<open>isActive\<close> with \<^verbatim>\<open>false\<close> by
  \<^verbatim>\<open>===\<close>. An admin who writes their own id in upper case passes both guards, and
  \<^verbatim>\<open>findById\<close> still finds their account, since an ObjectId is read in either case: the
  delete removes the account and the update deactivates it. An admin who sends
  \<^verbatim>\<open>isActive\<close> as the string \<^verbatim>\<open>'false'\<close> with their own id passes \<^verbatim>\<open>isBoolean()\<close> and
  the guard, and the schema casts the string to false: the account is deactivated.
\<close>

theorem users_self_guard_bypassed:
  "caller_id admin_a = id_a \<and> caller_role admin_a = Admin \<and>
   castObjectId id_a_upper = Some id_a \<and>
   users_delete admin_a id_a_upper (db_empty\<lparr>users := [user_admin, user_agent]\<rparr>) =
     (Inr (),
      db_empty\<lparr>users := [user_agent],
                activities := [\<lparr>a_user = id_a, a_action = ''User Deleted'',
                                 a_entityType = EntUser, a_entityId = id_a,
                                 a_details = [(''email'', Text ''root@x.com''),
                                              (''role'', Text ''admin'')]\<rparr>],
                journal := [Removed EntUser id_a, Logged ''User Deleted'']\<rparr>) \<and>
   users_patch plat0 admin_a id_a_upper
       (user_body_none\<lparr>ub_keys := [''isActive''], ub_isActive := Some (JBool False)\<rparr>)
       (db_empty\<lparr>users := [user_admin, user_agent]\<rparr>) =
     (Inr (user_admin\<lparr>u_isActive := False\<rparr>),
      db_empty\<lparr>users := [user_admin\<lparr>u_isActive := False\<rparr>, user_agent],
                activities := [\<lparr>a_user = id_a, a_action = ''User Updated'',
                                 a_entityType = EntUser, a_entityId = id_a,
                                 a_details = [(''updatedFields'', Texts [''isActive''])]\<rparr>],
                journal := [Updated EntUser id_a, Logged ''User Updated'']\<rparr>) \<and>
   users_patch plat0 admin_a id_a
       (user_body_none\<lparr>ub_keys := [''isActive''], ub_isActive := Some (JStr ''false'')\<rparr>)
       (db_empty\<lparr>users := [user_admin, user_agent]\<rparr>) =
     (Inr (user_admin\<lparr>u_isActive := False\<rparr>),
      db_empty\<lparr>users := [user_admin\<lparr>u_isActive := False\<rparr>, user_agent],
                activities := [\<lparr>a_user = id_a, a_action = ''User Updated'',
                                 a_entityType = EntUser, a_entityId = id_a,
                                 a_details = [(''updatedFields'', Texts [''isActive''])]\<rparr>],
                journal := [Updated EntUser id_a, Logged ''User Updated'']\<rparr>)"
proof -
  have up: "castObjectId id_a_upper = Some id_a"
    by code_simp
  have ne: "id_a_upper \<noteq> id_a"
    by (simp add: id_a_upper_def id_a_def)
  have f: "findById u_id [user_admin, user_agent] id_a_upper = Inr (Some user_admin)"
    by (rule findById_hit [OF up]) (simp add: user_admin_def)
  have g: "findById u_id [user_admin, user_agent] id_a = Inr (Some user_admin)"
    by (rule findById_hit [OF castObjectId_samples(1)]) (simp add: user_admin_def)
  have del: "users_delete admin_a id_a_upper (db_empty\<lparr>users := [user_admin, user_agent]\<rparr>) =
     (Inr (),
      db_empty\<lparr>users := [user_agent],
                activities := [\<lparr>a_user = id_a, a_action = ''User Deleted'',
                                 a_entityType = EntUser, a_entityId = id_a,
                                 a_details = [(''email'', Text ''root@x.com''),
                                              (''role'', Text ''admin'')]\<rparr>],
                journal := [Removed EntUser id_a, Logged ''User Deleted'']\<rparr>)"
    by (simp add: users_delete_def requireAdmin_def admin_a_def ne db_empty_def f
        log_activity_def remove_user_def delete_doc_def)
      (simp add: user_admin_def user_agent_def role_str_def ids_distinct)
  have errs: "user_patch_errors (user_body_none\<lparr>ub_keys := [''isActive''],
        ub_isActive := Some (JBool False)\<rparr>) = []"
    "user_patch_errors (user_body_none\<lparr>ub_keys := [''isActive''],
        ub_isActive := Some (JStr ''false'')\<rparr>) = []"
    by (simp_all add: user_patch_errors_def profile_errors_def user_body_none_def chk_def
        optional_def isBoolean_js_def isBoolean_str_def)
  have off: "users_patch plat0 admin_a id_a_upper
       (user_body_none\<lparr>ub_keys := [''isActive''], ub_isActive := Some (JBool False)\<rparr>)
       (db_empty\<lparr>users := [user_admin, user_agent]\<rparr>) =
     (Inr (user_admin\<lparr>u_isActive := False\<rparr>),
      db_empty\<lparr>users := [user_admin\<lparr>u_isActive := False\<rparr>, user_agent],
                activities := [\<lparr>a_user = id_a, a_action = ''User Updated'',
                                 a_entityType = EntUser, a_entityId = id_a,
                                 a_details = [(''updatedFields'', Texts [''isActive''])]\<rparr>],
                journal := [Updated EntUser id_a, Logged ''User Updated'']\<rparr>)"
    by (simp add: users_patch_def requireAdmin_def admin_a_def ne db_empty_def f errs Let_def)
      (simp add: sanitize_user_body_def user_body_none_def assign_user_def or_keep_def
        cast_boolean_def log_activity_def update_user_def save_doc_def user_admin_def
        user_agent_def ids_distinct)
  have str: "users_patch plat0 admin_a id_a
       (user_body_none\<lparr>ub_keys := [''isActive''], ub_isActive := Some (JStr ''false'')\<rparr>)
       (db_empty\<lparr>users := [user_admin, user_agent]\<rparr>) =
     (Inr (user_admin\<lparr>u_isActive := False\<rparr>),
      db_empty\<lparr>users := [user_admin\<lparr>u_isActive := False\<rparr>, user_agent],
                activities := [\<lparr>a_user = id_a, a_action = ''User Updated'',
                                 a_entityType = EntUser, a_entityId = id_a,
                                 a_details = [(''updatedFields'', Texts [''isActive''])]\<rparr>],
                journal := [Updated EntUser id_a, Logged ''User Updated'']\<rparr>)"
    by (simp add: users_patch_def requireAdmin_def admin_a_def db_empty_def g errs Let_def)
      (simp add: sanitize_user_body_def user_body_none_def assign_user_def or_keep_def
        cast_boolean_def log_activity_def update_user_def save_doc_def user_admin_def
        user_agent_def ids_distinct)
  show ?thesis
    using up del off str by (simp add: admin_a_def)
qed

subsection \<open>Lead conversion\<close>

text \<open>
  What the conversion of a lead that is New or In Progress answers to a caller with
  access and a valid company, when the tags or the deals of the body do not pass the
  Customer schema: the validation error of \<^verbatim>\<open>customer.save()\<close>.
\<close>

lemma new_customer_rejects_tags:
  "\<not> list_all (\<lambda>t. length t \<le> 30) (map trim tags) \<Longrightarrow>
   new_customer now fresh n c e p tags ds owner src = Inl (NextError ''ValidationError'')"
  by (simp add: new_customer_def split: option.splits)

lemma leads_convert_closed_fails:
  assumes found: "findById l_id (leads s) lid = Inr (Some l)"
    and closed: "l_status l = ClosedWon \<or> l_status l = ClosedLost"
  shows "\<exists>e. leads_convert u now fresh lid b s = (Inl e, s) \<and>
           (caller_role u = Admin \<or> l_assignedAgent l = caller_id u \<longrightarrow>
              http_status e = Some 400) \<and>
           ((caller_role u = Admin \<or> l_assignedAgent l = caller_id u) \<and>
            isLength 1 100 (trim (or_empty (vb_company b))) \<longrightarrow>
              e = Http400 ''Cannot convert closed lead'')"
proof (cases "isLength 1 100 (trim (or_empty (vb_company b)))")
  case False
  then have "leads_convert u now fresh lid b s = (Inl (ValidationErrors [''company'']), s)"
    by (simp add: leads_convert_def Let_def chk_def)
  then show ?thesis using False by simp
next
  case company: True
  show ?thesis
  proof (cases "caller_role u = Admin \<or> l_assignedAgent l = caller_id u")
    case True
    then show ?thesis
      using leads_convert_closed [OF found True company closed, of now fresh] by simp
  next
    case False
    then have "caller_role u = Agent \<and> l_assignedAgent l \<noteq> caller_id u"
      by (cases "caller_role u") auto
    then have "leads_convert u now fresh lid b s = (Inl (Http403 ''Access denied''), s)"
      using found company by (simp add: leads_convert_def Let_def chk_def)
    then show ?thesis using False by simp
  qed
qed

text \<open>
  C2. Let a lead be found under the path id. If it is New or In Progress and stored as
  the Lead schema stores it, and the caller is an admin or its assigned agent, with a
  company of trimmed length 1 to 100 and with tags and deals that the Customer schema
  accepts, the conversion appends exactly one customer, with the fresh id, the lead's
  name, email and phone, the caller as owner and \<^verbatim>\<open>convertedFromLead\<close> the lead's id, and
  saves the lead as Closed Won with \<^verbatim>\<open>convertedToCustomer\<close> the customer's id and
  \<^verbatim>\<open>convertedAt\<close> the current time. If instead a tag or a deal does not pass the Customer
  schema, the answer is the validation error of \<^verbatim>\<open>customer.save()\<close> and the store is
  unchanged. If the lead is Closed Won or Closed Lost, every conversion fails and leaves
  the store unchanged; a caller with access is answered with status 400, and with the
  message that the lead is closed when the company is valid.
\<close>

theorem leads_convert_effect:
  assumes found: "findById l_id (leads s) lid = Inr (Some l)"
  shows "((l_status l = New \<or> l_status l = InProgress) \<and>
          (caller_role u = Admin \<or> l_assignedAgent l = caller_id u) \<and>
          isLength 1 100 (trim (or_empty (vb_company b))) \<and>
          lead_stored l \<and>
          list_all (\<lambda>t. length t \<le> 30) (map trim (or_empty (vb_tags b))) \<and>
          cast_deals now (or_empty (vb_deals b)) = Some ds \<longrightarrow>
           (\<exists>c l' s'. leads_convert u now fresh lid b s = (Inr (c, l'), s') \<and>
              customers s' = customers s @ [c] \<and>
              c_id c = fresh \<and> c_name c = l_name l \<and> c_email c = l_email l \<and>
              c_phone c = l_phone l \<and> c_convertedFromLead c = Some (l_id l) \<and>
              c_owner c = caller_id u \<and>
              l' = l\<lparr>l_status := ClosedWon, l_convertedToCustomer := Some fresh,
                      l_convertedAt := Some now\<rparr> \<and>
              leads s' = save_doc l_id l' (leads s) \<and>
              findById l_id (leads s') lid = Inr (Some l')))
       \<and> ((l_status l = New \<or> l_status l = InProgress) \<and>
           (caller_role u = Admin \<or> l_assignedAgent l = caller_id u) \<and>
           isLength 1 100 (trim (or_empty (vb_company b))) \<and>
           (\<not> list_all (\<lambda>t. length t \<le> 30) (map trim (or_empty (vb_tags b))) \<or>
            cast_deals now (or_empty (vb_deals b)) = None) \<longrightarrow>
             leads_convert u now fresh lid b s = (Inl (NextError ''ValidationError''), s))
       \<and> (l_status l = ClosedWon \<or> l_status l = ClosedLost \<longrightarrow>
            (\<exists>e. leads_convert u now fresh lid b s = (Inl e, s) \<and>
               (caller_role u = Admin \<or> l_assignedAgent l = caller_id u \<longrightarrow>
                  http_status e = Some 400) \<and>
               ((caller_role u = Admin \<or> l_assignedAgent l = caller_id u) \<and>
                isLength 1 100 (trim (or_empty (vb_company b))) \<longrightarrow>
                  e = Http400 ''Cannot convert closed lead'')))"
proof -
  have good: "\<exists>c l' s'. leads_convert u now fresh lid b s = (Inr (c, l'), s') \<and>
      customers s' = customers s @ [c] \<and>
      c_id c = fresh \<and> c_name c = l_name l \<and> c_email c = l_email l \<and>
      c_phone c = l_phone l \<and> c_convertedFromLead c = Some (l_id l) \<and>
      c_owner c = caller_id u \<and>
      l' = l\<lparr>l_status := ClosedWon, l_convertedToCustomer := Some fresh,
              l_convertedAt := Some now\<rparr> \<and>
      leads s' = save_doc l_id l' (leads s) \<and>
      findById l_id (leads s') lid = Inr (Some l')"
    if opn: "l_status l = New \<or> l_status l = InProgress"
      and access: "caller_role u = Admin \<or> l_assignedAgent l = caller_id u"
      and company: "isLength 1 100 (trim (or_empty (vb_company b)))"
      and stored: "lead_stored l"
      and tags: "list_all (\<lambda>t. length t \<le> 30) (map trim (or_empty (vb_tags b)))"
      and deals: "cast_deals now (or_empty (vb_deals b)) = Some ds"
  proof -
    define c where "c = \<lparr>c_id = fresh, c_name = l_name l,
        c_company = trim (or_empty (vb_company b)), c_email = l_email l, c_phone = l_phone l,
        c_notes = [], c_tags = map trim (or_empty (vb_tags b)), c_owner = caller_id u,
        c_deals = ds, c_convertedFromLead = Some (l_id l), c_createdAt = now\<rparr>"
    define l' where "l' = l\<lparr>l_status := ClosedWon, l_convertedToCustomer := Some fresh,
        l_convertedAt := Some now\<rparr>"
    have nc: "new_customer now fresh (l_name l) (trim (or_empty (vb_company b))) (l_email l)
        (l_phone l) (or_empty (vb_tags b)) (or_empty (vb_deals b)) (caller_id u)
        (Some (l_id l)) = Inr c"
      unfolding c_def by (rule new_customer_of_stored_lead [OF stored company tags deals])
    have run: "leads_convert u now fresh lid b s =
        (Inr (c, l'),
         log_activity (caller_id u) ''Lead Converted to Customer'' EntLead (l_id l)
           [(''customerId'', Text (c_id c)),
            (''company'', Text (trim (or_empty (vb_company b))))]
           (update_lead l' (insert_customer c s)))"
      using leads_convert_open [OF found access company opn, of now fresh] nc
      by (simp add: l'_def c_def)
    have reread: "findById l_id (save_doc l_id l' (leads s)) lid = Inr (Some l')"
      by (rule findById_save_doc [OF found]) (simp add: l'_def)
    show ?thesis
      using run reread
      by (simp add: log_activity_def update_lead_def insert_customer_def c_def l'_def)
  qed
  have bad: "leads_convert u now fresh lid b s = (Inl (NextError ''ValidationError''), s)"
    if opn: "l_status l = New \<or> l_status l = InProgress"
      and access: "caller_role u = Admin \<or> l_assignedAgent l = caller_id u"
      and company: "isLength 1 100 (trim (or_empty (vb_company b)))"
      and rej: "\<not> list_all (\<lambda>t. length t \<le> 30) (map trim (or_empty (vb_tags b))) \<or>
                cast_deals now (or_empty (vb_deals b)) = None"
  proof -
    have "new_customer now fresh (l_name l) (trim (or_empty (vb_company b))) (l_email l)
        (l_phone l) (or_empty (vb_tags b)) (or_empty (vb_deals b)) (caller_id u)
        (Some (l_id l)) = Inl (NextError ''ValidationError'')"
      using rej new_customer_rejects_tags new_customer_rejects_deals by blast
    then show ?thesis
      using leads_convert_open [OF found access company opn, of now fresh] by simp
  qed
  have closed: "\<exists>e. leads_convert u now fresh lid b s = (Inl e, s) \<and>
      (caller_role u = Admin \<or> l_assignedAgent l = caller_id u \<longrightarrow>
         http_status e = Some 400) \<and>
      ((caller_role u = Admin \<or> l_assignedAgent l = caller_id u) \<and>
       isLength 1 100 (trim (or_empty (vb_company b))) \<longrightarrow>
         e = Http400 ''Cannot convert closed lead'')"
    if "l_status l = ClosedWon \<or> l_status l = ClosedLost"
    by (rule leads_convert_closed_fails [OF found that])
  show ?thesis
    using good bad closed by blast
qed

theorem leads_convert_effect_witness:
  "findById l_id (leads (db_empty\<lparr>leads := [lead_jane]\<rparr>)) id_c = Inr (Some lead_jane) \<and>
   lead_stored lead_jane \<and> l_status lead_jane = New \<and>
   (\<exists>c l' s'. leads_convert agent_b 7 id_d id_c convert_acme (db_empty\<lparr>leads := [lead_jane]\<rparr>) =
        (Inr (c, l'), s') \<and>
      customers s' = [c] \<and> c_email c = ''jane@x.com'' \<and> c_convertedFromLead c = Some id_c \<and>
      l_status l' = ClosedWon \<and> l_convertedToCustomer l' = Some id_d \<and>
      l_convertedAt l' = Some 7 \<and> leads s' = [l']) \<and>
   cast_deals 7 [deal_untitled] = None \<and>
   leads_convert agent_b 7 id_d id_c
     \<lparr>vb_company = Some ''Acme'', vb_tags = None, vb_deals = Some [deal_untitled]\<rparr>
     (db_empty\<lparr>leads := [lead_jane]\<rparr>) =
     (Inl (NextError ''ValidationError''), db_empty\<lparr>leads := [lead_jane]\<rparr>) \<and>
   findById l_id (leads (db_empty\<lparr>leads := [lead_jane\<lparr>l_status := ClosedLost\<rparr>]\<rparr>)) id_c =
     Inr (Some (lead_jane\<lparr>l_status := ClosedLost\<rparr>)) \<and>
   leads_convert agent_b 7 id_d id_c convert_acme
     (db_empty\<lparr>leads := [lead_jane\<lparr>l_status := ClosedLost\<rparr>]\<rparr>) =
     (Inl (Http400 ''Cannot convert closed lead''),
      db_empty\<lparr>leads := [lead_jane\<lparr>l_status := ClosedLost\<rparr>]\<rparr>)"
proof -
  let ?bad = "\<lparr>vb_company = Some ''Acme'', vb_tags = None, vb_deals = Some [deal_untitled]\<rparr>"
  let ?lost = "lead_jane\<lparr>l_status := ClosedLost\<rparr>"
  have a: "caller_role agent_b = Admin \<or> l_assignedAgent lead_jane = caller_id agent_b"
    by (simp add: agent_b_def lead_jane_def)
  have c: "isLength 1 100 (trim (or_empty (vb_company convert_acme)))"
    by (simp add: convert_acme_def or_empty_def trim_samples isLength_def)
  have t: "list_all (\<lambda>t. length t \<le> 30) (map trim (or_empty (vb_tags convert_acme)))"
    by (simp add: convert_acme_def or_empty_def)
  have d: "cast_deals 7 (or_empty (vb_deals convert_acme)) = Some []"
    by (simp add: convert_acme_def or_empty_def)
  have n: "l_status lead_jane = New" by (simp add: lead_jane_def)
  from leads_convert_effect [OF findById_lead_jane, of agent_b convert_acme 7 "[]" id_d]
    a c lead_stored_jane t d n
  obtain c l' s' where r: "leads_convert agent_b 7 id_d id_c convert_acme
        (db_empty\<lparr>leads := [lead_jane]\<rparr>) = (Inr (c, l'), s')"
    and cs: "customers s' = customers (db_empty\<lparr>leads := [lead_jane]\<rparr>) @ [c]"
    and ce: "c_email c = l_email lead_jane"
    and cf: "c_convertedFromLead c = Some (l_id lead_jane)"
    and l': "l' = lead_jane\<lparr>l_status := ClosedWon, l_convertedToCustomer := Some id_d,
                      l_convertedAt := Some 7\<rparr>"
    and ls: "leads s' = save_doc l_id l' (leads (db_empty\<lparr>leads := [lead_jane]\<rparr>))"
    by auto
  have "customers s' = [c]" using cs by (simp add: db_empty_def)
  moreover have "c_email c = ''jane@x.com''" using ce by (simp add: lead_jane_def)
  moreover have "c_convertedFromLead c = Some id_c" using cf by (simp add: lead_jane_def)
  moreover have "leads s' = [l']" using ls l' by (simp add: db_empty_def save_doc_def)
  moreover have "l_status l' = ClosedWon \<and> l_convertedToCustomer l' = Some id_d \<and>
      l_convertedAt l' = Some 7" using l' by simp
  ultimately have one: "\<exists>c l' s'. leads_convert agent_b 7 id_d id_c convert_acme
        (db_empty\<lparr>leads := [lead_jane]\<rparr>) = (Inr (c, l'), s') \<and>
      customers s' = [c] \<and> c_email c = ''jane@x.com'' \<and> c_convertedFromLead c = Some id_c \<and>
      l_status l' = ClosedWon \<and> l_convertedToCustomer l' = Some id_d \<and>
      l_convertedAt l' = Some 7 \<and> leads s' = [l']"
    using r by blast
  have cb: "isLength 1 100 (trim (or_empty (vb_company ?bad)))"
    by (simp add: or_empty_def trim_samples isLength_def)
  have "or_empty (vb_deals ?bad) = [deal_untitled]"
    by (simp add: or_empty_def)
  then have db: "cast_deals 7 (or_empty (vb_deals ?bad)) = None"
    by (simp only: cast_deals_untitled)
  from leads_convert_effect [OF findById_lead_jane, of agent_b ?bad 7 _ id_d] a cb db n
  have two: "leads_convert agent_b 7 id_d id_c ?bad (db_empty\<lparr>leads := [lead_jane]\<rparr>) =
      (Inl (NextError ''ValidationError''), db_empty\<lparr>leads := [lead_jane]\<rparr>)"
    by blast
  have fl: "findById l_id (leads (db_empty\<lparr>leads := [?lost]\<rparr>)) id_c = Inr (Some ?lost)"
    by (simp add: db_empty_def)
      (rule findById_hit, simp_all add: castObjectId_samples lead_jane_def)
  have al: "caller_role agent_b = Admin \<or> l_assignedAgent ?lost = caller_id agent_b"
    by (simp add: agent_b_def lead_jane_def)
  from leads_convert_effect [OF fl, of agent_b convert_acme 7 _ id_d] al c
  have three: "leads_convert agent_b 7 id_d id_c convert_acme (db_empty\<lparr>leads := [?lost]\<rparr>) =
      (Inl (Http400 ''Cannot convert closed lead''), db_empty\<lparr>leads := [?lost]\<rparr>)"
    by auto
  show ?thesis
    using findById_lead_jane lead_stored_jane n one cast_deals_untitled two fl three
    by blast
qed

text \<open>
  C2 as stated fails: a valid company does not suffice. A New lead, converted by its
  agent with company Acme and a deal that has no title, is answered with the
  validation error of \<^verbatim>\<open>customer.save()\<close>, and no customer is created.
\<close>

theorem leads_convert_rejected_deal_counterexample:
  "l_status lead_jane = New \<and>
   l_assignedAgent lead_jane = caller_id agent_b \<and>
   isLength 1 100 (trim ''Acme'') \<and>
   leads_convert agent_b 7 id_d id_c
     \<lparr>vb_company = Some ''Acme'', vb_tags = None, vb_deals = Some [deal_untitled]\<rparr>
     (db_empty\<lparr>leads := [lead_jane]\<rparr>) =
   (Inl (NextError ''ValidationError''), db_empty\<lparr>leads := [lead_jane]\<rparr>)"
proof -
  have f: "findById l_id [lead_jane] id_c = Inr (Some lead_jane)"
    using findById_lead_jane by (simp add: db_empty_def)
  show ?thesis
    by (simp add: leads_convert_def Let_def or_empty_def trim_samples chk_def isLength_def
        db_empty_def f agent_b_def new_customer_rejects_deals [OF cast_deals_untitled])
      (simp add: lead_jane_def)
qed

subsection \<open>Order of the writes of the lead conversion\<close>

text \<open>
  C6. Let the conversion find a lead that is New or In Progress, for a caller with access
  and a valid company. When the Customer schema accepts the customer made from the lead
  and the body, the conversion succeeds and performs three writes, in this order: the
  customer is inserted, the lead is saved as converted to that customer, the activity is
  logged. When the Customer schema rejects the customer, the answer is that error and
  the store is unchanged. In general, whenever the conversion answers with a failure, the
  store it leaves is the store it found, journal included: no customer is added and the
  lead keeps its status, \<^verbatim>\<open>convertedToCustomer\<close> and \<^verbatim>\<open>convertedAt\<close>. A body without a
  company is answered with the validation error for \<^verbatim>\<open>company\<close>.
\<close>

theorem leads_convert_writes_customer_first:
  "(findById l_id (leads s) lid = Inr (Some l) \<and>
    (caller_role u = Admin \<or> l_assignedAgent l = caller_id u) \<and>
    isLength 1 100 (trim (or_empty (vb_company b))) \<and>
    (l_status l = New \<or> l_status l = InProgress) \<longrightarrow>
      (\<forall>c. new_customer now fresh (l_name l) (trim (or_empty (vb_company b))) (l_email l)
              (l_phone l) (or_empty (vb_tags b)) (or_empty (vb_deals b)) (caller_id u)
              (Some (l_id l)) = Inr c \<longrightarrow>
           (\<exists>s'. leads_convert u now fresh lid b s =
                   (Inr (c, l\<lparr>l_status := ClosedWon, l_convertedToCustomer := Some (c_id c),
                              l_convertedAt := Some now\<rparr>), s') \<and>
                 journal s' = journal s @
                   [Inserted EntCustomer (c_id c), Updated EntLead (l_id l),
                    Logged ''Lead Converted to Customer''] \<and>
                 customers s' = customers s @ [c] \<and>
                 leads s' = save_doc l_id
                   (l\<lparr>l_status := ClosedWon, l_convertedToCustomer := Some (c_id c),
                      l_convertedAt := Some now\<rparr>) (leads s))) \<and>
      (\<forall>e. new_customer now fresh (l_name l) (trim (or_empty (vb_company b))) (l_email l)
              (l_phone l) (or_empty (vb_tags b)) (or_empty (vb_deals b)) (caller_id u)
              (Some (l_id l)) = Inl e \<longrightarrow>
           leads_convert u now fresh lid b s = (Inl e, s))) \<and>
   (\<forall>e s'. leads_convert u now fresh lid b s = (Inl e, s') \<longrightarrow> s' = s) \<and>
   (vb_company b = None \<longrightarrow>
      leads_convert u now fresh lid b s = (Inl (ValidationErrors [''company'']), s))"
proof -
  have run: "(\<forall>c. new_customer now fresh (l_name l) (trim (or_empty (vb_company b))) (l_email l)
              (l_phone l) (or_empty (vb_tags b)) (or_empty (vb_deals b)) (caller_id u)
              (Some (l_id l)) = Inr c \<longrightarrow>
           (\<exists>s'. leads_convert u now fresh lid b s =
                   (Inr (c, l\<lparr>l_status := ClosedWon, l_convertedToCustomer := Some (c_id c),
                              l_convertedAt := Some now\<rparr>), s') \<and>
                 journal s' = journal s @
                   [Inserted EntCustomer (c_id c), Updated EntLead (l_id l),
                    Logged ''Lead Converted to Customer''] \<and>
                 customers s' = customers s @ [c] \<and>
                 leads s' = save_doc l_id
                   (l\<lparr>l_status := ClosedWon, l_convertedToCustomer := Some (c_id c),
                      l_convertedAt := Some now\<rparr>) (leads s))) \<and>
      (\<forall>e. new_customer now fresh (l_name l) (trim (or_empty (vb_company b))) (l_email l)
              (l_phone l) (or_empty (vb_tags b)) (or_empty (vb_deals b)) (caller_id u)
              (Some (l_id l)) = Inl e \<longrightarrow>
           leads_convert u now fresh lid b s = (Inl e, s))"
    if found: "findById l_id (leads s) lid = Inr (Some l)"
      and access: "caller_role u = Admin \<or> l_assignedAgent l = caller_id u"
      and company: "isLength 1 100 (trim (or_empty (vb_company b)))"
      and opn: "l_status l = New \<or> l_status l = InProgress"
    using leads_convert_open [OF found access company opn, of now fresh]
    by (auto simp: log_activity_def update_lead_def insert_customer_def)
  have fail: "s' = s" if "leads_convert u now fresh lid b s = (Inl e, s')" for e s'
    using that
    by (auto simp: leads_convert_def Let_def split: if_splits sum.splits option.splits)
  have missing: "leads_convert u now fresh lid b s = (Inl (ValidationErrors [''company'']), s)"
    if "vb_company b = None"
    using that
    by (simp add: leads_convert_def Let_def or_empty_def trim_def chk_def isLength_def)
  show ?thesis
    using run fail missing by blast
qed

theorem leads_convert_writes_customer_first_witness:
  "findById l_id (leads (db_empty\<lparr>leads := [lead_jane]\<rparr>)) id_c = Inr (Some lead_jane) \<and>
   l_assignedAgent lead_jane = caller_id agent_b \<and> l_status lead_jane = New \<and>
   (\<exists>c s'. leads_convert agent_b 7 id_d id_c convert_acme (db_empty\<lparr>leads := [lead_jane]\<rparr>) =
        (Inr (c, lead_jane\<lparr>l_status := ClosedWon, l_convertedToCustomer := Some id_d,
                          l_convertedAt := Some 7\<rparr>), s') \<and>
      c_id c = id_d \<and> c_email c = ''jane@x.com'' \<and>
      journal s' = [Inserted EntCustomer id_d, Updated EntLead id_c,
                    Logged ''Lead Converted to Customer''] \<and>
      customers s' = [c] \<and>
      leads s' = [lead_jane\<lparr>l_status := ClosedWon, l_convertedToCustomer := Some id_d,
                            l_convertedAt := Some 7\<rparr>]) \<and>
   leads_convert agent_b 7 id_d id_c
     \<lparr>vb_company = Some ''Acme'', vb_tags = None, vb_deals = Some [deal_untitled]\<rparr>
     (db_empty\<lparr>leads := [lead_jane]\<rparr>) =
     (Inl (NextError ''ValidationError''), db_empty\<lparr>leads := [lead_jane]\<rparr>) \<and>
   leads_convert agent_b 7 id_d id_c \<lparr>vb_company = None, vb_tags = None, vb_deals = None\<rparr>
     (db_empty\<lparr>leads := [lead_jane]\<rparr>) =
   (Inl (ValidationErrors [''company'']), db_empty\<lparr>leads := [lead_jane]\<rparr>)"
proof -
  let ?bad = "\<lparr>vb_company = Some ''Acme'', vb_tags = None, vb_deals = Some [deal_untitled]\<rparr>"
  let ?none = "\<lparr>vb_company = None, vb_tags = None, vb_deals = None\<rparr>"
  let ?s = "db_empty\<lparr>leads := [lead_jane]\<rparr>"
  let ?c = "\<lparr>c_id = id_d, c_name = ''Jane Doe'', c_company = ''Acme'', c_email = ''jane@x.com'',
        c_phone = ''555-0100'', c_notes = [], c_tags = [], c_owner = id_b, c_deals = [],
        c_convertedFromLead = Some id_c, c_createdAt = 7\<rparr>"
  have a: "caller_role agent_b = Admin \<or> l_assignedAgent lead_jane = caller_id agent_b"
    and a': "l_assignedAgent lead_jane = caller_id agent_b"
    by (simp_all add: agent_b_def lead_jane_def)
  have n: "l_status lead_jane = New \<or> l_status lead_jane = InProgress"
    and n': "l_status lead_jane = New"
    by (simp_all add: lead_jane_def)
  have co: "isLength 1 100 (trim (or_empty (vb_company convert_acme)))"
    by (simp add: convert_acme_def or_empty_def trim_samples isLength_def)
  have nc: "new_customer 7 id_d (l_name lead_jane) (trim (or_empty (vb_company convert_acme)))
      (l_email lead_jane) (l_phone lead_jane) (or_empty (vb_tags convert_acme))
      (or_empty (vb_deals convert_acme)) (caller_id agent_b) (Some (l_id lead_jane)) = Inr ?c"
    by (simp add: convert_acme_def or_empty_def trim_samples lead_jane_def agent_b_def
        new_customer_from_jane)
  from leads_convert_writes_customer_first
    [where s = ?s and lid = id_c and l = lead_jane and u = agent_b and b = convert_acme
      and now = 7 and fresh = id_d] findById_lead_jane a co n nc
  obtain s' where r: "leads_convert agent_b 7 id_d id_c convert_acme ?s =
        (Inr (?c, lead_jane\<lparr>l_status := ClosedWon, l_convertedToCustomer := Some (c_id ?c),
                          l_convertedAt := Some 7\<rparr>), s')"
    and j: "journal s' = journal ?s @
        [Inserted EntCustomer (c_id ?c), Updated EntLead (l_id lead_jane),
         Logged ''Lead Converted to Customer'']"
    and cs: "customers s' = customers ?s @ [?c]"
    and ls: "leads s' = save_doc l_id
        (lead_jane\<lparr>l_status := ClosedWon, l_convertedToCustomer := Some (c_id ?c),
                   l_convertedAt := Some 7\<rparr>) (leads ?s)"
    by blast
  have one: "\<exists>c s'. leads_convert agent_b 7 id_d id_c convert_acme ?s =
        (Inr (c, lead_jane\<lparr>l_status := ClosedWon, l_convertedToCustomer := Some id_d,
                          l_convertedAt := Some 7\<rparr>), s') \<and>
      c_id c = id_d \<and> c_email c = ''jane@x.com'' \<and>
      journal s' = [Inserted EntCustomer id_d, Updated EntLead id_c,
                    Logged ''Lead Converted to Customer''] \<and>
      customers s' = [c] \<and>
      leads s' = [lead_jane\<lparr>l_status := ClosedWon, l_convertedToCustomer := Some id_d,
                            l_convertedAt := Some 7\<rparr>]"
    using r j cs ls
    by (intro exI [of _ ?c] exI [of _ s'])
      (simp add: db_empty_def save_doc_def lead_jane_def)
  have cb: "isLength 1 100 (trim (or_empty (vb_company ?bad)))"
    by (simp add: or_empty_def trim_samples isLength_def)
  have nb: "new_customer 7 id_d (l_name lead_jane) (trim (or_empty (vb_company ?bad)))
      (l_email lead_jane) (l_phone lead_jane) (or_empty (vb_tags ?bad))
      (or_empty (vb_deals ?bad)) (caller_id agent_b) (Some (l_id lead_jane)) =
      Inl (NextError ''ValidationError'')"
    by (simp add: or_empty_def new_customer_rejects_deals [OF cast_deals_untitled])
  from leads_convert_writes_customer_first
    [where s = ?s and lid = id_c and l = lead_jane and u = agent_b and b = ?bad
      and now = 7 and fresh = id_d] findById_lead_jane a cb n nb
  have two: "leads_convert agent_b 7 id_d id_c ?bad ?s =
      (Inl (NextError ''ValidationError''), ?s)"
    by blast
  from leads_convert_writes_customer_first
    [where s = ?s and lid = id_c and u = agent_b and b = ?none and now = 7 and fresh = id_d]
  have three: "leads_convert agent_b 7 id_d id_c ?none ?s =
      (Inl (ValidationErrors [''company'']), ?s)"
    by simp
  show ?thesis
    using findById_lead_jane a' n' one two three by blast
qed

subsection \<open>Archived leads\<close>

text \<open>
  C3. A lead with \<^verbatim>\<open>isArchived = true\<close> is in no page that \<^verbatim>\<open>GET /leads\<close> answers with. The
  routes on a single lead do not read the flag. \<^verbatim>\<open>GET /leads/:id\<close> answers an admin with
  the lead, and answers no caller with status 404. For an admin or the assigned agent,
  \<^verbatim>\<open>PATCH /leads/:id\<close> with a body that passes the chains, the email check and the schema
  saves the updated lead, and \<^verbatim>\<open>POST /leads/:id/convert\<close> of a New or In Progress lead,
  with a valid company and a customer that the schema accepts, creates the customer and
  closes the lead.
\<close>

theorem archived_lead_only_hidden_from_list:
  assumes archived: "l_isArchived l"
    and found: "findById l_id (leads s) lid = Inr (Some l)"
  shows "(\<forall>pg. leads_list P u q s = Inr pg \<longrightarrow> l \<notin> set (ls_data pg)) \<and>
     (caller_role u = Admin \<longrightarrow> leads_get u lid s = Inr l) \<and>
     (\<forall>e. leads_get u lid s = Inl e \<longrightarrow> http_status e \<noteq> Some 404) \<and>
     ((caller_role u = Admin \<or> l_assignedAgent l = caller_id u) \<and>
      lead_patch_errors P b = [] \<and>
      \<not> lead_email_taken l (sanitize_lead_body P b) (leads s) \<and>
      assign_lead l (sanitize_lead_body P b) = Some l' \<longrightarrow>
        (\<exists>s'. leads_patch P u lid b s = (Inr l', s') \<and>
              leads s' = save_doc l_id l' (leads s) \<and>
              findById l_id (leads s') lid = Inr (Some l'))) \<and>
     ((caller_role u = Admin \<or> l_assignedAgent l = caller_id u) \<and>
      (l_status l = New \<or> l_status l = InProgress) \<and>
      isLength 1 100 (trim (or_empty (vb_company vb))) \<and>
      new_customer now fresh (l_name l) (trim (or_empty (vb_company vb))) (l_email l)
        (l_phone l) (or_empty (vb_tags vb)) (or_empty (vb_deals vb)) (caller_id u)
        (Some (l_id l)) = Inr c \<longrightarrow>
        (\<exists>s'. leads_convert u now fresh lid vb s =
                (Inr (c, l\<lparr>l_status := ClosedWon, l_convertedToCustomer := Some (c_id c),
                           l_convertedAt := Some now\<rparr>), s') \<and>
              customers s' = customers s @ [c] \<and>
              leads s' = save_doc l_id
                (l\<lparr>l_status := ClosedWon, l_convertedToCustomer := Some (c_id c),
                   l_convertedAt := Some now\<rparr>) (leads s)))"
proof -
  have hidden: "l \<notin> set (ls_data pg)" if "leads_list P u q s = Inr pg" for pg
    using leads_list_member(2) [OF that] archived by blast
  have shown: "leads_get u lid s = Inr l" if "caller_role u = Admin"
    by (rule leads_get_admin [OF found that])
  have never: "http_status e \<noteq> Some 404" if "leads_get u lid s = Inl e" for e
    by (rule leads_get_never_404 [OF found that])
  have patched: "\<exists>s'. leads_patch P u lid b s = (Inr l', s') \<and>
        leads s' = save_doc l_id l' (leads s) \<and>
        findById l_id (leads s') lid = Inr (Some l')"
    if access: "caller_role u = Admin \<or> l_assignedAgent l = caller_id u"
      and chains: "lead_patch_errors P b = []"
      and free: "\<not> lead_email_taken l (sanitize_lead_body P b) (leads s)"
      and saved: "assign_lead l (sanitize_lead_body P b) = Some l'"
  proof -
    have "findById l_id (save_doc l_id l' (leads s)) lid = Inr (Some l')"
      by (rule findById_save_doc [OF found assign_lead_id [OF saved]])
    then show ?thesis
      using leads_patch_found [OF found access chains free saved]
      by (simp add: log_activity_def update_lead_def)
  qed
  have converted: "\<exists>s'. leads_convert u now fresh lid vb s =
          (Inr (c, l\<lparr>l_status := ClosedWon, l_convertedToCustomer := Some (c_id c),
                     l_convertedAt := Some now\<rparr>), s') \<and>
        customers s' = customers s @ [c] \<and>
        leads s' = save_doc l_id
          (l\<lparr>l_status := ClosedWon, l_convertedToCustomer := Some (c_id c),
             l_convertedAt := Some now\<rparr>) (leads s)"
    if access: "caller_role u = Admin \<or> l_assignedAgent l = caller_id u"
      and opn: "l_status l = New \<or> l_status l = InProgress"
      and company: "isLength 1 100 (trim (or_empty (vb_company vb)))"
      and nc: "new_customer now fresh (l_name l) (trim (or_empty (vb_company vb))) (l_email l)
        (l_phone l) (or_empty (vb_tags vb)) (or_empty (vb_deals vb)) (caller_id u)
        (Some (l_id l)) = Inr c"
    using leads_convert_open [OF found access company opn, of now fresh] nc
    by (simp add: log_activity_def update_lead_def insert_customer_def)
  show ?thesis
    using hidden shown never patched converted by blast
qed

text \<open>
  C3 as stated fails: \<^verbatim>\<open>GET /leads/:id\<close> of an archived lead answers an admin with the
  lead, not with 404.
\<close>

theorem archived_lead_is_served_counterexample:
  "l_isArchived (lead_jane\<lparr>l_isArchived := True\<rparr>) \<and>
   leads_get admin_a id_c (db_empty\<lparr>leads := [lead_jane\<lparr>l_isArchived := True\<rparr>]\<rparr>) =
     Inr (lead_jane\<lparr>l_isArchived := True\<rparr>)"
proof -
  have "findById l_id [lead_jane\<lparr>l_isArchived := True\<rparr>] id_c =
      Inr (Some (lead_jane\<lparr>l_isArchived := True\<rparr>))"
    by (rule findById_hit) (simp_all add: castObjectId_samples lead_jane_def)
  then show ?thesis
    by (simp add: leads_get_def db_empty_def admin_a_def)
qed

theorem archived_lead_only_hidden_from_list_witness:
  "l_isArchived (lead_jane\<lparr>l_isArchived := True\<rparr>) \<and>
   findById l_id
     (leads (db_empty\<lparr>leads := [lead_jane\<lparr>l_isArchived := True\<rparr>, lead_jane\<lparr>l_id := id_d\<rparr>],
                      users := [user_admin, user_agent]\<rparr>)) id_c =
     Inr (Some (lead_jane\<lparr>l_isArchived := True\<rparr>)) \<and>
   leads_list plat0 agent_b leads_query_none
     (db_empty\<lparr>leads := [lead_jane\<lparr>l_isArchived := True\<rparr>, lead_jane\<lparr>l_id := id_d\<rparr>],
               users := [user_admin, user_agent]\<rparr>) =
     Inr \<lparr>ls_data = [lead_jane\<lparr>l_id := id_d\<rparr>], ls_page = Fin 1, ls_limit = Fin 20,
          ls_total = 1, ls_pages = Fin 1\<rparr> \<and>
   leads_get admin_a id_c
     (db_empty\<lparr>leads := [lead_jane\<lparr>l_isArchived := True\<rparr>, lead_jane\<lparr>l_id := id_d\<rparr>],
               users := [user_admin, user_agent]\<rparr>) =
     Inr (lead_jane\<lparr>l_isArchived := True\<rparr>) \<and>
   leads_get agent_b id_c
     (db_empty\<lparr>leads := [lead_jane\<lparr>l_isArchived := True\<rparr>, lead_jane\<lparr>l_id := id_d\<rparr>],
               users := [user_admin, user_agent]\<rparr>) =
     Inl (Http403 ''Access denied'') \<and>
   (\<exists>s'. leads_patch plat0 agent_b id_c
           (lead_body_none\<lparr>lb_keys := [''notes''], lb_notes := Some ''call''\<rparr>)
           (db_empty\<lparr>leads := [lead_jane\<lparr>l_isArchived := True\<rparr>, lead_jane\<lparr>l_id := id_d\<rparr>],
                     users := [user_admin, user_agent]\<rparr>) =
           (Inr (lead_jane\<lparr>l_isArchived := True, l_notes := Some ''call''\<rparr>), s') \<and>
         leads s' = [lead_jane\<lparr>l_isArchived := True, l_notes := Some ''call''\<rparr>,
                     lead_jane\<lparr>l_id := id_d\<rparr>]) \<and>
   (\<exists>c s'. leads_convert agent_b 7 id_a id_c convert_acme
           (db_empty\<lparr>leads := [lead_jane\<lparr>l_isArchived := True\<rparr>, lead_jane\<lparr>l_id := id_d\<rparr>],
                     users := [user_admin, user_agent]\<rparr>) =
           (Inr (c, lead_jane\<lparr>l_isArchived := True, l_status := ClosedWon,
                             l_convertedToCustomer := Some id_a, l_convertedAt := Some 7\<rparr>), s') \<and>
         customers s' = [c] \<and> c_convertedFromLead c = Some id_c \<and>
         leads s' = [lead_jane\<lparr>l_isArchived := True, l_status := ClosedWon,
                               l_convertedToCustomer := Some id_a, l_convertedAt := Some 7\<rparr>,
                     lead_jane\<lparr>l_id := id_d\<rparr>])"
proof -
  let ?l = "lead_jane\<lparr>l_isArchived := True\<rparr>"
  let ?m = "lead_jane\<lparr>l_id := id_d\<rparr>"
  let ?s = "db_empty\<lparr>leads := [?l, ?m], users := [user_admin, user_agent]\<rparr>"
  let ?b = "lead_body_none\<lparr>lb_keys := [''notes''], lb_notes := Some ''call''\<rparr>"
  let ?l' = "lead_jane\<lparr>l_isArchived := True, l_notes := Some ''call''\<rparr>"
  let ?c = "\<lparr>c_id = id_a, c_name = ''Jane Doe'', c_company = ''Acme'', c_email = ''jane@x.com'',
        c_phone = ''555-0100'', c_notes = [], c_tags = [], c_owner = id_b, c_deals = [],
        c_convertedFromLead = Some id_c, c_createdAt = 7\<rparr>"
  let ?w = "lead_jane\<lparr>l_isArchived := True, l_status := ClosedWon,
        l_convertedToCustomer := Some id_a, l_convertedAt := Some 7\<rparr>"
  have ar: "l_isArchived ?l" by simp
  have f: "findById l_id (leads ?s) id_c = Inr (Some ?l)"
    by (simp add: db_empty_def)
      (rule findById_hit, simp_all add: castObjectId_samples lead_jane_def)
  have a: "caller_role agent_b = Admin \<or> l_assignedAgent ?l = caller_id agent_b"
    by (simp add: agent_b_def lead_jane_def)
  have ad: "caller_role admin_a = Admin" by (simp add: admin_a_def)
  have tc: "trim ''call'' = ''call''" by (simp add: trim_def is_ws_def)
  have ch: "lead_patch_errors plat0 ?b = []"
    by (simp add: lead_patch_errors_def lead_body_none_def chk_def optional_def tc
        isLength_def)
  have sb: "sanitize_lead_body plat0 ?b = ?b"
    by (simp add: sanitize_lead_body_def lead_body_none_def tc)
  have fr: "\<not> lead_email_taken ?l (sanitize_lead_body plat0 ?b) (leads ?s)"
    unfolding sb by (simp add: lead_email_taken_def when_truthy_def lead_body_none_def)
  have sv: "assign_lead ?l (sanitize_lead_body plat0 ?b) = Some ?l'"
    unfolding sb
    by (simp add: assign_lead_def or_keep_def lead_body_none_def lead_jane_def tc)
  have ls: "leads_list plat0 agent_b leads_query_none ?s =
      Inr \<lparr>ls_data = [?m], ls_page = Fin 1, ls_limit = Fin 20, ls_total = 1,
           ls_pages = Fin 1\<rparr>"
    by (simp add: leads_list_def leads_query_none_def chk_def optional_def leads_filter_def
        when_truthy_def Let_def agent_b_def db_empty_def lead_matches_def leads_find_def
        plat0_default_page castObjectId_samples sort_by_def lead_jane_def)
  have ag: "leads_get agent_b id_c ?s = Inl (Http403 ''Access denied'')"
    using leads_get_agent [OF f, of agent_b]
    by (simp add: agent_b_def castObjectId_samples populate_user_def db_empty_def
        lead_jane_def user_admin_def user_agent_def ids_distinct)
  have op: "l_status ?l = New \<or> l_status ?l = InProgress" by (simp add: lead_jane_def)
  have co: "isLength 1 100 (trim (or_empty (vb_company convert_acme)))"
    by (simp add: convert_acme_def or_empty_def trim_samples isLength_def)
  have nc: "new_customer 7 id_a (l_name ?l) (trim (or_empty (vb_company convert_acme)))
      (l_email ?l) (l_phone ?l) (or_empty (vb_tags convert_acme))
      (or_empty (vb_deals convert_acme)) (caller_id agent_b) (Some (l_id ?l)) = Inr ?c"
    by (simp add: convert_acme_def or_empty_def trim_samples lead_jane_def agent_b_def
        new_customer_from_jane)
  have cs: "customers ?s = []" by (simp add: db_empty_def)
  have sd: "save_doc l_id ?l' (leads ?s) = [?l', ?m]" "save_doc l_id ?w (leads ?s) = [?w, ?m]"
    by (simp_all add: db_empty_def save_doc_def lead_jane_def ids_distinct)
  from archived_lead_only_hidden_from_list [OF ar f, where u = admin_a] ad
  have get: "leads_get admin_a id_c ?s = Inr ?l" by blast
  from archived_lead_only_hidden_from_list [OF ar f, where P = plat0 and u = agent_b
      and q = leads_query_none] ls
  have hid: "?l \<notin> set [?m]" by simp
  from archived_lead_only_hidden_from_list [OF ar f, where P = plat0 and u = agent_b
      and b = ?b and l' = ?l' and vb = convert_acme and now = 7 and fresh = id_a
      and c = ?c]
  have pat: "\<exists>s'. leads_patch plat0 agent_b id_c ?b ?s = (Inr ?l', s') \<and>
        leads s' = save_doc l_id ?l' (leads ?s) \<and>
        findById l_id (leads s') id_c = Inr (Some ?l')"
    and con: "\<exists>s'. leads_convert agent_b 7 id_a id_c convert_acme ?s =
          (Inr (?c, ?l\<lparr>l_status := ClosedWon, l_convertedToCustomer := Some (c_id ?c),
                      l_convertedAt := Some 7\<rparr>), s') \<and>
        customers s' = customers ?s @ [?c] \<and>
        leads s' = save_doc l_id
          (?l\<lparr>l_status := ClosedWon, l_convertedToCustomer := Some (c_id ?c),
              l_convertedAt := Some 7\<rparr>) (leads ?s)"
    using a ch fr sv op co nc by blast+
  from pat have pat': "\<exists>s'. leads_patch plat0 agent_b id_c ?b ?s = (Inr ?l', s') \<and>
        leads s' = [?l', ?m]"
    unfolding sd by blast
  from con obtain s' where
    "leads_convert agent_b 7 id_a id_c convert_acme ?s = (Inr (?c, ?w), s')"
    "customers s' = [?c]" "leads s' = save_doc l_id ?w (leads ?s)"
    unfolding cs by auto
  then have con': "\<exists>c s'. leads_convert agent_b 7 id_a id_c convert_acme ?s =
      (Inr (c, ?w), s') \<and> customers s' = [c] \<and> c_convertedFromLead c = Some id_c \<and>
      leads s' = [?w, ?m]"
    unfolding sd by (intro exI [of _ ?c] exI [of _ s']) simp
  show ?thesis
    using ar f ls get ag pat' con' by blast
qed

subsection \<open>What an agent's lists hold\<close>

text \<open>
  C1. Let the caller have role agent, with the ObjectId string of their User document as
  id. Every lead of a page that \<^verbatim>\<open>GET /leads\<close> answers with is assigned to the caller,
  every customer of \<^verbatim>\<open>GET /customers\<close> is owned by the caller, and every task of
  \<^verbatim>\<open>GET /tasks\<close> is owned by or assigned to the caller. The answer does not depend on the
  \<^verbatim>\<open>assignedAgent\<close>, \<^verbatim>\<open>owner\<close> or \<^verbatim>\<open>assignedTo\<close> parameter of the query, as long as the
  parameter is absent or passes \<^verbatim>\<open>isMongoId()\<close>. A parameter that does not pass
  \<^verbatim>\<open>isMongoId()\<close> is answered with status 400 and the validation errors, which name the
  parameter.
\<close>

theorem agent_lists_are_scoped:
  assumes agent: "caller_role u = Agent"
    and cid: "castObjectId (caller_id u) = Some (caller_id u)"
  shows "(\<forall>pg. leads_list P u lq s = Inr pg \<longrightarrow>
            (\<forall>l \<in> set (ls_data pg). l_assignedAgent l = caller_id u)) \<and>
         (\<forall>pg. customers_list P u cq s = Inr pg \<longrightarrow>
            (\<forall>c \<in> set (ls_data pg). c_owner c = caller_id u)) \<and>
         (\<forall>pg. tasks_list P u now tq s = Inr pg \<longrightarrow>
            (\<forall>t \<in> set (ls_data pg).
               t_owner t = caller_id u \<or> t_assignedTo t = Some (caller_id u))) \<and>
         (optional isMongoId (lq_assignedAgent lq) \<and> optional isMongoId x \<longrightarrow>
            leads_list P u (lq\<lparr>lq_assignedAgent := x\<rparr>) s = leads_list P u lq s) \<and>
         (optional isMongoId (cq_owner cq) \<and> optional isMongoId x \<longrightarrow>
            customers_list P u (cq\<lparr>cq_owner := x\<rparr>) s = customers_list P u cq s) \<and>
         (optional isMongoId (tq_owner tq) \<and> optional isMongoId x \<longrightarrow>
            tasks_list P u now (tq\<lparr>tq_owner := x\<rparr>) s = tasks_list P u now tq s) \<and>
         (optional isMongoId (tq_assignedTo tq) \<and> optional isMongoId x \<longrightarrow>
            tasks_list P u now (tq\<lparr>tq_assignedTo := x\<rparr>) s = tasks_list P u now tq s) \<and>
         (\<not> isMongoId v \<longrightarrow>
            (\<exists>fs. leads_list P u (lq\<lparr>lq_assignedAgent := Some v\<rparr>) s =
                    Inl (ValidationErrors fs) \<and>
                  ''assignedAgent'' \<in> set fs \<and>
                  http_status (ValidationErrors fs) = Some 400)) \<and>
         (\<not> isMongoId v \<longrightarrow>
            (\<exists>fs. customers_list P u (cq\<lparr>cq_owner := Some v\<rparr>) s =
                    Inl (ValidationErrors fs) \<and>
                  ''owner'' \<in> set fs \<and>
                  http_status (ValidationErrors fs) = Some 400)) \<and>
         (\<not> isMongoId v \<longrightarrow>
            (\<exists>fs. tasks_list P u now (tq\<lparr>tq_owner := Some v\<rparr>) s =
                    Inl (ValidationErrors fs) \<and>
                  ''owner'' \<in> set fs \<and>
                  http_status (ValidationErrors fs) = Some 400)) \<and>
         (\<not> isMongoId v \<longrightarrow>
            (\<exists>fs. tasks_list P u now (tq\<lparr>tq_assignedTo := Some v\<rparr>) s =
                    Inl (ValidationErrors fs) \<and>
                  ''assignedTo'' \<in> set fs \<and>
                  http_status (ValidationErrors fs) = Some 400))"
proof -
  have l: "\<forall>l \<in> set (ls_data pg). l_assignedAgent l = caller_id u"
    if "leads_list P u lq s = Inr pg" for pg
    using leads_list_member(3) [OF that _ agent] cid by auto
  have c: "\<forall>c \<in> set (ls_data pg). c_owner c = caller_id u"
    if "customers_list P u cq s = Inr pg" for pg
    using customers_list_member [OF that _ agent] cid by auto
  have t: "\<forall>t \<in> set (ls_data pg). t_owner t = caller_id u \<or> t_assignedTo t = Some (caller_id u)"
    if "tasks_list P u now tq s = Inr pg" for pg
  proof
    fix t assume "t \<in> set (ls_data pg)"
    from tasks_list_member [OF that this agent] cid
    show "t_owner t = caller_id u \<or> t_assignedTo t = Some (caller_id u)"
      by (metis option.inject)
  qed
  have li: "optional isMongoId (lq_assignedAgent lq) \<and> optional isMongoId x \<longrightarrow>
      leads_list P u (lq\<lparr>lq_assignedAgent := x\<rparr>) s = leads_list P u lq s"
    using leads_list_ignores_agent_filter [OF agent] by simp
  have ci: "optional isMongoId (cq_owner cq) \<and> optional isMongoId x \<longrightarrow>
      customers_list P u (cq\<lparr>cq_owner := x\<rparr>) s = customers_list P u cq s"
    using customers_list_ignores_agent_filter [OF agent] by simp
  have ti: "optional isMongoId (tq_owner tq) \<and> optional isMongoId x \<longrightarrow>
      tasks_list P u now (tq\<lparr>tq_owner := x\<rparr>) s = tasks_list P u now tq s"
    using tasks_list_ignores_agent_owner [OF agent] by simp
  have ta: "optional isMongoId (tq_assignedTo tq) \<and> optional isMongoId x \<longrightarrow>
      tasks_list P u now (tq\<lparr>tq_assignedTo := x\<rparr>) s = tasks_list P u now tq s"
    using tasks_list_ignores_agent_assignee [OF agent] by simp
  have lr: "\<not> isMongoId v \<longrightarrow>
      (\<exists>fs. leads_list P u (lq\<lparr>lq_assignedAgent := Some v\<rparr>) s = Inl (ValidationErrors fs) \<and>
            ''assignedAgent'' \<in> set fs \<and> http_status (ValidationErrors fs) = Some 400)"
    using leads_list_rejects_agent_filter [of v P u lq s] by auto
  have cr: "\<not> isMongoId v \<longrightarrow>
      (\<exists>fs. customers_list P u (cq\<lparr>cq_owner := Some v\<rparr>) s = Inl (ValidationErrors fs) \<and>
            ''owner'' \<in> set fs \<and> http_status (ValidationErrors fs) = Some 400)"
    using customers_list_rejects_agent_filter [of v P u cq s] by auto
  have tr: "\<not> isMongoId v \<longrightarrow>
      (\<exists>fs. tasks_list P u now (tq\<lparr>tq_owner := Some v\<rparr>) s = Inl (ValidationErrors fs) \<and>
            ''owner'' \<in> set fs \<and> http_status (ValidationErrors fs) = Some 400)"
    using tasks_list_rejects_agent_owner [of v P u now tq s] by auto
  have ar: "\<not> isMongoId v \<longrightarrow>
      (\<exists>fs. tasks_list P u now (tq\<lparr>tq_assignedTo := Some v\<rparr>) s = Inl (ValidationErrors fs) \<and>
            ''assignedTo'' \<in> set fs \<and> http_status (ValidationErrors fs) = Some 400)"
    using tasks_list_rejects_agent_assignee [of v P u now tq s] by auto
  show ?thesis
    using l c t li ci ti ta lr cr tr ar by (intro conjI allI) blast+
qed

text \<open>
  C1 as stated fails: two requests of one agent that differ only in \<^verbatim>\<open>assignedAgent\<close> are
  answered differently when one value is not an ObjectId: that request is answered with
  status 400 and the validation error, the other with the agent's leads.
\<close>

theorem agent_filter_rejected_counterexample:
  "leads_list plat0 agent_b (leads_query_none\<lparr>lq_assignedAgent := None\<rparr>)
     (db_empty\<lparr>leads := [lead_jane, lead_jane\<lparr>l_id := id_d, l_assignedAgent := id_a\<rparr>]\<rparr>) =
     Inr \<lparr>ls_data = [lead_jane], ls_page = Fin 1, ls_limit = Fin 20, ls_total = 1,
          ls_pages = Fin 1\<rparr> \<and>
   leads_list plat0 agent_b (leads_query_none\<lparr>lq_assignedAgent := Some ''someone''\<rparr>)
     (db_empty\<lparr>leads := [lead_jane, lead_jane\<lparr>l_id := id_d, l_assignedAgent := id_a\<rparr>]\<rparr>) =
     Inl (ValidationErrors [''assignedAgent''])"
  by (simp add: leads_list_agent_b_sample optional_def isMongoId_def)

theorem agent_lists_are_scoped_witness:
  "caller_role agent_b = Agent \<and> castObjectId (caller_id agent_b) = Some (caller_id agent_b) \<and>
   leads_list plat0 agent_b (leads_query_none\<lparr>lq_assignedAgent := Some id_a\<rparr>)
     (db_empty\<lparr>leads := [lead_jane, lead_jane\<lparr>l_id := id_d, l_assignedAgent := id_a\<rparr>]\<rparr>) =
     Inr \<lparr>ls_data = [lead_jane], ls_page = Fin 1, ls_limit = Fin 20, ls_total = 1,
          ls_pages = Fin 1\<rparr> \<and>
   l_assignedAgent lead_jane = caller_id agent_b \<and>
   (\<exists>fs. leads_list plat0 agent_b (leads_query_none\<lparr>lq_assignedAgent := Some ''someone''\<rparr>)
           (db_empty\<lparr>leads := [lead_jane,
                                 lead_jane\<lparr>l_id := id_d, l_assignedAgent := id_a\<rparr>]\<rparr>) =
         Inl (ValidationErrors fs) \<and> ''assignedAgent'' \<in> set fs)"
proof -
  let ?s = "db_empty\<lparr>leads := [lead_jane, lead_jane\<lparr>l_id := id_d, l_assignedAgent := id_a\<rparr>]\<rparr>"
  let ?pg = "\<lparr>ls_data = [lead_jane], ls_page = Fin 1, ls_limit = Fin 20, ls_total = (1::nat),
              ls_pages = Fin 1\<rparr>"
  have a: "caller_role agent_b = Agent" by (simp add: agent_b_def)
  have i: "castObjectId (caller_id agent_b) = Some (caller_id agent_b)"
    by (simp add: agent_b_def castObjectId_samples)
  have r0: "leads_list plat0 agent_b leads_query_none ?s = Inr ?pg"
    using leads_list_agent_b_sample [of None] by (simp add: optional_def leads_query_none_def)
  have v: "optional isMongoId (lq_assignedAgent leads_query_none) \<and>
      optional isMongoId (Some id_a)"
    by (simp add: optional_def leads_query_none_def isMongoId_samples)
  have w: "\<not> isMongoId ''someone''"
    by (simp add: isMongoId_def)
  from agent_lists_are_scoped [OF a i, where P = plat0 and lq = leads_query_none and s = ?s
      and x = "Some id_a" and v = "''someone''"] v r0 w
  have same: "leads_list plat0 agent_b (leads_query_none\<lparr>lq_assignedAgent := Some id_a\<rparr>) ?s =
      Inr ?pg"
    and own: "\<forall>l \<in> set (ls_data ?pg). l_assignedAgent l = caller_id agent_b"
    and rej: "\<exists>fs. leads_list plat0 agent_b
           (leads_query_none\<lparr>lq_assignedAgent := Some ''someone''\<rparr>) ?s =
         Inl (ValidationErrors fs) \<and> ''assignedAgent'' \<in> set fs"
    by auto
  show ?thesis using a i same own rej by simp
qed

subsection \<open>Fields copied from the body\<close>

text \<open>
  C4. \<^verbatim>\<open>PATCH /users/profile/me\<close>, for any caller whose body passes the two name chains,
  saves the caller's User with every attribute of the body copied onto it, with no check
  of the caller's role: \<^verbatim>\<open>firstName\<close> and \<^verbatim>\<open>lastName\<close> as the chains trimmed them,
  \<^verbatim>\<open>email\<close>, \<^verbatim>\<open>role\<close> and \<^verbatim>\<open>lastLogin\<close> as sent, \<^verbatim>\<open>isActive\<close> as the schema casts it,
  \<^verbatim>\<open>password\<close> as its hash; attributes absent from the body keep their values. This holds
  when the role, if present, is admin or agent, the value of \<^verbatim>\<open>isActive\<close>, if present, is
  one the cast accepts, and no other User holds the email. A role or a value of
  \<^verbatim>\<open>isActive\<close> that the schema refuses is answered with the validation error of
  \<^verbatim>\<open>user.save()\<close>, an email that another User holds with the error of the store, and the
  store is unchanged. \<^verbatim>\<open>PATCH /leads/:id\<close> likewise saves \<^verbatim>\<open>isArchived\<close> as the body gives
  it and the schema casts it.
\<close>

theorem patch_copies_unvalidated_fields:
  "(findById u_id (users s) (caller_id u) = Inr (Some usr) \<and> profile_errors b = [] \<longrightarrow>
      (or_keep (u_role usr) parse_role (ub_role b) = Some r \<and>
       or_keep (u_isActive usr) cast_boolean (ub_isActive b) = Some a \<and>
       (\<forall>e. ub_email b = Some e \<longrightarrow>
            \<not> list_ex (\<lambda>x. u_id x \<noteq> u_id usr \<and> u_email x = e) (users s)) \<longrightarrow>
         (\<exists>s'. users_patch_profile P u b s =
                 (Inr (usr\<lparr>u_email := (case ub_email b of None \<Rightarrow> u_email usr | Some v \<Rightarrow> v),
                           u_password :=
                             (case ub_password b of
                                None \<Rightarrow> u_password usr
                              | Some v \<Rightarrow> hashPassword P v),
                           u_firstName :=
                             (case ub_firstName b of
                                None \<Rightarrow> u_firstName usr
                              | Some v \<Rightarrow> trim v),
                           u_lastName :=
                             (case ub_lastName b of None \<Rightarrow> u_lastName usr | Some v \<Rightarrow> trim v),
                           u_role := r,
                           u_isActive := a,
                           u_lastLogin :=
                             (case ub_lastLogin b of
                                None \<Rightarrow> u_lastLogin usr
                              | Some d \<Rightarrow> Some d)\<rparr>), s') \<and>
               findById u_id (users s') (caller_id u) =
                 Inr (Some (usr\<lparr>u_email :=
                             (case ub_email b of None \<Rightarrow> u_email usr | Some v \<Rightarrow> v),
                           u_password :=
                             (case ub_password b of
                                None \<Rightarrow> u_password usr
                              | Some v \<Rightarrow> hashPassword P v),
                           u_firstName :=
                             (case ub_firstName b of
                                None \<Rightarrow> u_firstName usr
                              | Some v \<Rightarrow> trim v),
                           u_lastName :=
                             (case ub_lastName b of None \<Rightarrow> u_lastName usr | Some v \<Rightarrow> trim v),
                           u_role := r,
                           u_isActive := a,
                           u_lastLogin :=
                             (case ub_lastLogin b of
                                None \<Rightarrow> u_lastLogin usr
                              | Some d \<Rightarrow> Some d)\<rparr>)))) \<and>
      (or_keep (u_role usr) parse_role (ub_role b) = None \<or>
       or_keep (u_isActive usr) cast_boolean (ub_isActive b) = None \<longrightarrow>
         users_patch_profile P u b s = (Inl (NextError ''ValidationError''), s)) \<and>
      (or_keep (u_role usr) parse_role (ub_role b) = Some r \<and>
       or_keep (u_isActive usr) cast_boolean (ub_isActive b) = Some a \<and>
       ub_email b = Some e \<and>
       list_ex (\<lambda>x. u_id x \<noteq> u_id usr \<and> u_email x = e) (users s) \<longrightarrow>
         users_patch_profile P u b s = (Inl (NextError ''MongoServerError''), s))) \<and>
   (findById l_id (leads s) lid = Inr (Some l) \<and>
    (caller_role u = Admin \<or> l_assignedAgent l = caller_id u) \<and>
    lead_patch_errors P lb = [] \<and>
    \<not> lead_email_taken l (sanitize_lead_body P lb) (leads s) \<and>
    assign_lead l (sanitize_lead_body P lb) = Some l' \<longrightarrow>
      (\<exists>s'. leads_patch P u lid lb s = (Inr l', s') \<and>
            findById l_id (leads s') lid = Inr (Some l') \<and>
            or_keep (l_isArchived l) cast_boolean (lb_isArchived lb) =
              Some (l_isArchived l')))"
proof -
  define usr' where "usr' = usr\<lparr>u_email := (case ub_email b of None \<Rightarrow> u_email usr | Some v \<Rightarrow> v),
      u_password :=
        (case ub_password b of None \<Rightarrow> u_password usr | Some v \<Rightarrow> hashPassword P v),
      u_firstName := (case ub_firstName b of None \<Rightarrow> u_firstName usr | Some v \<Rightarrow> trim v),
      u_lastName := (case ub_lastName b of None \<Rightarrow> u_lastName usr | Some v \<Rightarrow> trim v),
      u_role := r,
      u_isActive := a,
      u_lastLogin := (case ub_lastLogin b of None \<Rightarrow> u_lastLogin usr | Some d \<Rightarrow> Some d)\<rparr>"
  have profile: "\<exists>s'. users_patch_profile P u b s = (Inr usr', s') \<and>
        findById u_id (users s') (caller_id u) = Inr (Some usr')"
    if found: "findById u_id (users s) (caller_id u) = Inr (Some usr)"
      and chains: "profile_errors b = []"
      and role: "or_keep (u_role usr) parse_role (ub_role b) = Some r"
      and active: "or_keep (u_isActive usr) cast_boolean (ub_isActive b) = Some a"
      and free: "\<forall>e. ub_email b = Some e \<longrightarrow>
            \<not> list_ex (\<lambda>x. u_id x \<noteq> u_id usr \<and> u_email x = e) (users s)"
  proof -
    have saved: "assign_user P (users s) usr (sanitize_user_body b) = Inr usr'"
      using role active free
      by (simp add: assign_user_def sanitize_user_body_def usr'_def split: option.splits)
    have "findById u_id (save_doc u_id usr' (users s)) (caller_id u) = Inr (Some usr')"
      by (rule findById_save_doc [OF found assign_user_id [OF saved]])
    then show ?thesis
      using users_patch_profile_found [OF found chains, of P] saved
      by (simp add: log_activity_def update_user_def)
  qed
  have refused: "users_patch_profile P u b s = (Inl (NextError ''ValidationError''), s)"
    if found: "findById u_id (users s) (caller_id u) = Inr (Some usr)"
      and chains: "profile_errors b = []"
      and bad: "or_keep (u_role usr) parse_role (ub_role b) = None \<or>
                or_keep (u_isActive usr) cast_boolean (ub_isActive b) = None"
  proof -
    have "assign_user P (users s) usr (sanitize_user_body b) =
        Inl (NextError ''ValidationError'')"
      using bad
      by (auto simp: assign_user_def sanitize_user_body_def split: option.splits)
    then show ?thesis
      using users_patch_profile_found [OF found chains, of P] by simp
  qed
  have taken: "users_patch_profile P u b s = (Inl (NextError ''MongoServerError''), s)"
    if found: "findById u_id (users s) (caller_id u) = Inr (Some usr)"
      and chains: "profile_errors b = []"
      and role: "or_keep (u_role usr) parse_role (ub_role b) = Some r"
      and active: "or_keep (u_isActive usr) cast_boolean (ub_isActive b) = Some a"
      and email: "ub_email b = Some e"
      and dup: "list_ex (\<lambda>x. u_id x \<noteq> u_id usr \<and> u_email x = e) (users s)"
  proof -
    have "assign_user P (users s) usr (sanitize_user_body b) =
        Inl (NextError ''MongoServerError'')"
      using role active email dup
      by (simp add: assign_user_def sanitize_user_body_def)
    then show ?thesis
      using users_patch_profile_found [OF found chains, of P] by simp
  qed
  have lead: "\<exists>s'. leads_patch P u lid lb s = (Inr l', s') \<and>
        findById l_id (leads s') lid = Inr (Some l') \<and>
        or_keep (l_isArchived l) cast_boolean (lb_isArchived lb) = Some (l_isArchived l')"
    if found: "findById l_id (leads s) lid = Inr (Some l)"
      and access: "caller_role u = Admin \<or> l_assignedAgent l = caller_id u"
      and chains: "lead_patch_errors P lb = []"
      and free: "\<not> lead_email_taken l (sanitize_lead_body P lb) (leads s)"
      and saved: "assign_lead l (sanitize_lead_body P lb) = Some l'"
  proof -
    have "findById l_id (save_doc l_id l' (leads s)) lid = Inr (Some l')"
      by (rule findById_save_doc [OF found assign_lead_id [OF saved]])
    moreover have "or_keep (l_isArchived l) cast_boolean (lb_isArchived lb) =
        Some (l_isArchived l')"
      using assign_lead_isArchived [OF saved] by (simp add: sanitize_lead_body_def)
    ultimately show ?thesis
      using leads_patch_found [OF found access chains free saved]
      by (simp add: log_activity_def update_lead_def)
  qed
  show ?thesis
    unfolding usr'_def [symmetric] using profile refused taken lead by blast
qed

text \<open>
  C4 as stated fails: the copy is not verbatim for the fields whose chain sanitizes. A
  \<^verbatim>\<open>firstName\<close> sent with a blank on either side is stored without them.
\<close>

theorem profile_name_is_trimmed_counterexample:
  "fst (users_patch_profile plat0 agent_b
          (user_body_none\<lparr>ub_keys := [''firstName''], ub_firstName := Some '' Bo ''\<rparr>)
          (db_empty\<lparr>users := [user_admin, user_agent]\<rparr>)) =
     Inr (user_agent\<lparr>u_firstName := ''Bo''\<rparr>) \<and>
   users (snd (users_patch_profile plat0 agent_b
          (user_body_none\<lparr>ub_keys := [''firstName''], ub_firstName := Some '' Bo ''\<rparr>)
          (db_empty\<lparr>users := [user_admin, user_agent]\<rparr>))) =
     [user_admin, user_agent\<lparr>u_firstName := ''Bo''\<rparr>]"
proof -
  let ?b = "user_body_none\<lparr>ub_keys := [''firstName''], ub_firstName := Some '' Bo ''\<rparr>"
  have t: "trim '' Bo '' = ''Bo''" by (simp add: trim_def is_ws_def)
  have ch: "profile_errors ?b = []"
    by (simp add: profile_errors_def user_body_none_def t chk_def optional_def isLength_def)
  have sv: "assign_user plat0 (users (db_empty\<lparr>users := [user_admin, user_agent]\<rparr>)) user_agent
      (sanitize_user_body ?b) = Inr (user_agent\<lparr>u_firstName := ''Bo''\<rparr>)"
    by (simp add: assign_user_def sanitize_user_body_def user_body_none_def t or_keep_def
        user_agent_def)
  show ?thesis
    unfolding users_patch_profile_found [OF findById_user_agent ch] sv
    by (simp add: log_activity_def update_user_def db_empty_def save_doc_def user_admin_def
        user_agent_def ids_distinct)
qed

theorem patch_copies_unvalidated_fields_witness:
  "findById u_id (users (db_empty\<lparr>users := [user_admin, user_agent]\<rparr>)) (caller_id agent_b) =
     Inr (Some user_agent) \<and>
   caller_role agent_b = Agent \<and>
   (\<exists>s'. users_patch_profile plat0 agent_b
           (user_body_none\<lparr>ub_keys := [''role'', ''isActive'', ''email'', ''password''],
              ub_role := Some ''admin'', ub_isActive := Some (JStr ''no''),
              ub_email := Some ''eve@x.com'', ub_password := Some ''pw''\<rparr>)
           (db_empty\<lparr>users := [user_admin, user_agent]\<rparr>) =
         (Inr (user_agent\<lparr>u_email := ''eve@x.com'', u_password := ''hash of pw'',
                         u_role := Admin, u_isActive := False\<rparr>), s') \<and>
         findById u_id (users s') (caller_id agent_b) =
           Inr (Some (user_agent\<lparr>u_email := ''eve@x.com'', u_password := ''hash of pw'',
                                 u_role := Admin, u_isActive := False\<rparr>))) \<and>
   users_patch_profile plat0 agent_b
     (user_body_none\<lparr>ub_keys := [''role''], ub_role := Some ''root''\<rparr>)
     (db_empty\<lparr>users := [user_admin, user_agent]\<rparr>) =
     (Inl (NextError ''ValidationError''), db_empty\<lparr>users := [user_admin, user_agent]\<rparr>) \<and>
   users_patch_profile plat0 agent_b
     (user_body_none\<lparr>ub_keys := [''email''], ub_email := Some ''root@x.com''\<rparr>)
     (db_empty\<lparr>users := [user_admin, user_agent]\<rparr>) =
     (Inl (NextError ''MongoServerError''), db_empty\<lparr>users := [user_admin, user_agent]\<rparr>)"
proof -
  let ?b = "user_body_none\<lparr>ub_keys := [''role'', ''isActive'', ''email'', ''password''],
      ub_role := Some ''admin'', ub_isActive := Some (JStr ''no''),
      ub_email := Some ''eve@x.com'', ub_password := Some ''pw''\<rparr>"
  let ?r = "user_body_none\<lparr>ub_keys := [''role''], ub_role := Some ''root''\<rparr>"
  let ?e = "user_body_none\<lparr>ub_keys := [''email''], ub_email := Some ''root@x.com''\<rparr>"
  let ?s = "db_empty\<lparr>users := [user_admin, user_agent]\<rparr>"
  have ch: "profile_errors ?b = []" "profile_errors ?r = []" "profile_errors ?e = []"
    by (simp_all add: profile_errors_def user_body_none_def chk_def optional_def)
  have ro: "or_keep (u_role user_agent) parse_role (ub_role ?b) = Some Admin"
    by (simp add: or_keep_def parse_role_def)
  have ac: "or_keep (u_isActive user_agent) cast_boolean (ub_isActive ?b) = Some False"
    by (simp add: or_keep_def cast_boolean_def)
  have fr: "\<forall>e. ub_email ?b = Some e \<longrightarrow>
      \<not> list_ex (\<lambda>x. u_id x \<noteq> u_id user_agent \<and> u_email x = e) (users ?s)"
    by (simp add: db_empty_def user_admin_def user_agent_def)
  have same: "user_agent\<lparr>u_email := (case ub_email ?b of None \<Rightarrow> u_email user_agent | Some v \<Rightarrow> v),
      u_password :=
        (case ub_password ?b of None \<Rightarrow> u_password user_agent | Some v \<Rightarrow> hashPassword plat0 v),
      u_firstName :=
        (case ub_firstName ?b of None \<Rightarrow> u_firstName user_agent | Some v \<Rightarrow> trim v),
      u_lastName := (case ub_lastName ?b of None \<Rightarrow> u_lastName user_agent | Some v \<Rightarrow> trim v),
      u_role := Admin,
      u_isActive := False,
      u_lastLogin :=
        (case ub_lastLogin ?b of None \<Rightarrow> u_lastLogin user_agent | Some d \<Rightarrow> Some d)\<rparr> =
      user_agent\<lparr>u_email := ''eve@x.com'', u_password := ''hash of pw'',
                 u_role := Admin, u_isActive := False\<rparr>"
    by (simp add: user_body_none_def plat0_def user_agent_def)
  from patch_copies_unvalidated_fields
    [where s = ?s and u = agent_b and usr = user_agent and b = ?b and r = Admin and a = False
      and P = plat0] findById_user_agent ch(1) ro ac fr
  have one: "\<exists>s'. users_patch_profile plat0 agent_b ?b ?s =
         (Inr (user_agent\<lparr>u_email := ''eve@x.com'', u_password := ''hash of pw'',
                         u_role := Admin, u_isActive := False\<rparr>), s') \<and>
         findById u_id (users s') (caller_id agent_b) =
           Inr (Some (user_agent\<lparr>u_email := ''eve@x.com'', u_password := ''hash of pw'',
                                 u_role := Admin, u_isActive := False\<rparr>))"
    unfolding same by blast
  have rr: "or_keep (u_role user_agent) parse_role (ub_role ?r) = None"
    by (simp add: or_keep_def parse_role_def)
  from patch_copies_unvalidated_fields
    [where s = ?s and u = agent_b and usr = user_agent and b = ?r and P = plat0]
    findById_user_agent ch(2) rr
  have two: "users_patch_profile plat0 agent_b ?r ?s = (Inl (NextError ''ValidationError''), ?s)"
    by blast
  have re: "or_keep (u_role user_agent) parse_role (ub_role ?e) = Some Agent"
    "or_keep (u_isActive user_agent) cast_boolean (ub_isActive ?e) = Some True"
    "ub_email ?e = Some ''root@x.com''"
    "list_ex (\<lambda>x. u_id x \<noteq> u_id user_agent \<and> u_email x = ''root@x.com'') (users ?s)"
    by (simp_all add: or_keep_def user_body_none_def db_empty_def user_admin_def
        user_agent_def ids_distinct)
  from patch_copies_unvalidated_fields
    [where s = ?s and u = agent_b and usr = user_agent and b = ?e and P = plat0
      and r = Agent and a = True and e = "''root@x.com''"]
    findById_user_agent ch(3) re
  have three: "users_patch_profile plat0 agent_b ?e ?s =
      (Inl (NextError ''MongoServerError''), ?s)"
    by blast
  show ?thesis
    using findById_user_agent one two three by (simp add: agent_b_def)
qed

end
